theory Spec2Isabelle
  imports Main
begin

section \<open>The shipment loader of populate\_db.py\<close>

text \<open>
  The script reads three CSV files into data frames and loads them into an SQLite store of
  five tables. The embedding follows the script statement by statement. What the libraries
  do is written out: a data frame is the list of its rows, an SQL statement is a function on
  the contents of the store that returns an error where SQLite or sqlite3 raises, and a
  connection is the committed contents of the file together with the contents its open
  transaction sees.
\<close>

subsection \<open>Input tables\<close>

text \<open>
  A text cell is \<open>Some s\<close>, or \<open>None\<close> where the CSV cell is empty: pandas reads an empty
  cell as NaN and sqlite3 binds NaN as NULL.
\<close>

type_synonym cell = "string option"

text \<open>
  A cell of the column \<open>shipment_identifier\<close>, as the two INSERT statements receive it.
  \<open>Int_id n\<close> is a cell whose value is the integer \<open>n\<close>: a Python int, which is what a
  column of integers yields, of any size; and also a float or a str that denotes \<open>n\<close>, when
  \<open>n\<close> fits 64 bits, since SQLite converts such a value to the integer in a column of
  INTEGER affinity. \<open>Text_id s\<close> is a cell that SQLite converts to no integer: a str or a
  float that denotes no 64-bit integer, given by its text. \<open>No_id\<close> is an empty cell: NaN in
  the data frame, NULL as a parameter.
\<close>

datatype ident = Int_id int | Text_id string | No_id

record row_s0 =
  s0_origin_warehouse :: cell
  s0_destination_store :: cell
  s0_product :: cell
  s0_on_time :: cell
  s0_product_quantity :: int
  s0_driver_identifier :: cell

record row_s1 =
  s1_shipment_identifier :: ident
  s1_product :: cell
  s1_on_time :: cell

record row_s2 =
  s2_shipment_identifier :: ident
  s2_origin_warehouse :: cell
  s2_destination_store :: cell
  s2_driver_identifier :: cell

text \<open>
  \<open>Series.unique()\<close> keeps the values in the order of their first appearance;
  \<open>drop_duplicates(subset=['shipment_identifier'])\<close> keeps, for each identifier, the first
  row that carries it; empty cells count as one identifier. Both walk the sequence with the
  values seen so far.
\<close>

fun unique_from :: "'a list \<Rightarrow> 'a list \<Rightarrow> 'a list" where
  "unique_from seen [] = []"
| "unique_from seen (x # xs) =
     (if x \<in> set seen then unique_from seen xs else x # unique_from (x # seen) xs)"

definition unique :: "'a list \<Rightarrow> 'a list" where
  "unique xs = unique_from [] xs"

fun drop_duplicates_from :: "ident list \<Rightarrow> row_s2 list \<Rightarrow> row_s2 list" where
  "drop_duplicates_from seen [] = []"
| "drop_duplicates_from seen (r # rs) =
     (if s2_shipment_identifier r \<in> set seen then drop_duplicates_from seen rs
      else r # drop_duplicates_from (s2_shipment_identifier r # seen) rs)"

definition drop_duplicates :: "row_s2 list \<Rightarrow> row_s2 list" where
  "drop_duplicates df2 = drop_duplicates_from [] df2"

subsection \<open>The store\<close>

text \<open>
  Products, Locations and Drivers have the same shape: an \<open>INTEGER PRIMARY KEY
  AUTOINCREMENT\<close> and a \<open>TEXT NOT NULL UNIQUE\<close> name. Such a table is its rows, oldest
  first, and its entry in \<open>sqlite_sequence\<close>, the largest key the table ever had.

  A Shipments row is its key \<open>ShipmentID\<close>, an integer, and the three keys it refers to. A
  ShipmentLineItems row is its key, the \<open>ShipmentID\<close> column, the product key, the quantity
  and the on-time status. The column \<open>ShipmentID INTEGER NOT NULL\<close> of ShipmentLineItems is
  no key: it keeps a value that is no integer as it is.
\<close>

record name_table =
  tbl_rows :: "(int \<times> string) list"
  tbl_seq :: int

record db =
  Products :: name_table
  Locations :: name_table
  Drivers :: name_table
  Shipments :: "(int \<times> int \<times> int \<times> int) list"
  ShipmentLineItems :: "(int \<times> ident \<times> int \<times> int \<times> cell) list"
  ShipmentLineItems_seq :: int

definition empty_table :: name_table where
  "empty_table = \<lparr>tbl_rows = [], tbl_seq = 0\<rparr>"

definition empty_db :: db where
  "empty_db = \<lparr>Products = empty_table, Locations = empty_table, Drivers = empty_table,
     Shipments = [], ShipmentLineItems = [], ShipmentLineItems_seq = 0\<rparr>"

datatype error = IntegrityError string | OtherException string

text \<open>
  \<open>SELECT id FROM t WHERE name = ?\<close> followed by \<open>fetchone()\<close>: the key of the first row
  with that name. A NULL parameter equals no name.
\<close>

definition select_id_by_name :: "name_table \<Rightarrow> cell \<Rightarrow> int option" where
  "select_id_by_name t name =
     (case name of
        None \<Rightarrow> None
      | Some n \<Rightarrow> map_option fst (find (\<lambda>r. snd r = n) (tbl_rows t)))"

definition largest_rowid :: "int list \<Rightarrow> int" where
  "largest_rowid ids = fold max ids 0"

text \<open>
  \<open>INSERT INTO t (name) VALUES (?)\<close>: NOT NULL and UNIQUE are checked, the new key is one
  more than the largest key the table ever had, and \<open>lastrowid\<close> is that key.
\<close>

definition insert_name :: "name_table \<Rightarrow> cell \<Rightarrow> error + (int \<times> name_table)" where
  "insert_name t name =
     (case name of
        None \<Rightarrow> Inl (IntegrityError ''NOT NULL constraint failed'')
      | Some n \<Rightarrow>
          if n \<in> set (map snd (tbl_rows t)) then Inl (IntegrityError ''UNIQUE constraint failed'')
          else let lastrowid = max (tbl_seq t) (largest_rowid (map fst (tbl_rows t))) + 1
               in Inr (lastrowid, t\<lparr>tbl_rows := tbl_rows t @ [(lastrowid, n)],
                                     tbl_seq := lastrowid\<rparr>))"

text \<open>The body the three resolvers share: look the name up, insert it when it is absent.\<close>

definition get_or_insert :: "name_table \<Rightarrow> cell \<Rightarrow> error + (int \<times> name_table)" where
  "get_or_insert t name =
     (case select_id_by_name t name of
        Some result \<Rightarrow> Inr (result, t)
      | None \<Rightarrow> insert_name t name)"

definition get_or_insert_product :: "db \<Rightarrow> cell \<Rightarrow> error + (int \<times> db)" where
  "get_or_insert_product d product_name =
     (case get_or_insert (Products d) product_name of
        Inl e \<Rightarrow> Inl e
      | Inr (i, t) \<Rightarrow> Inr (i, d\<lparr>Products := t\<rparr>))"

definition get_or_insert_location :: "db \<Rightarrow> cell \<Rightarrow> error + (int \<times> db)" where
  "get_or_insert_location d location_name =
     (case get_or_insert (Locations d) location_name of
        Inl e \<Rightarrow> Inl e
      | Inr (i, t) \<Rightarrow> Inr (i, d\<lparr>Locations := t\<rparr>))"

definition get_or_insert_driver :: "db \<Rightarrow> cell \<Rightarrow> error + (int \<times> db)" where
  "get_or_insert_driver d driver_identifier =
     (case get_or_insert (Drivers d) driver_identifier of
        Inl e \<Rightarrow> Inl e
      | Inr (i, t) \<Rightarrow> Inr (i, d\<lparr>Drivers := t\<rparr>))"

subsection \<open>Connections and console output\<close>

text \<open>
  Every \<open>print\<close> of the script appends one message to the console. The messages of the
  exception handlers and the quantity warning keep the values their f-strings format: the
  shipment identifier, the path of the source table and the exception.
\<close>

datatype msg =
    Text string
  | Setup_successfully string
  | Removed_existing_database_file string
  | Integrity_error_shipment ident string error
  | Unexpected_error_shipment string error ident
  | Quantity_warning string ident cell int
  | Integrity_error_line_item ident string error
  | Unexpected_error_line_item string error ident
  | Fetched_names "(int \<times> string) list"
  | Fetched_shipments "(int \<times> string \<times> string \<times> string) list"
  | Fetched_line_items "(ident \<times> string \<times> int \<times> cell) list"

text \<open>
  A connection: whether \<open>PRAGMA foreign_keys\<close> is on for it, what the file holds
  (\<open>committed\<close>) and what the statements of the open transaction see (\<open>current\<close>). The
  console travels with it, and so does the one thing SQLite takes from outside the store and
  the statement: \<open>randomness\<close>, the key that its search for an unused key at random comes
  to, given the keys in use (see \<open>new_rowid\<close> below). \<open>sqlite3.connect\<close> opens a
  connection with foreign-key enforcement off, SQLite's default.
\<close>

record state =
  randomness :: "int list \<Rightarrow> int"
  foreign_keys :: bool
  committed :: db
  current :: db
  stdout :: "msg list"

definition connect :: "(int list \<Rightarrow> int) \<Rightarrow> db \<Rightarrow> msg list \<Rightarrow> state" where
  "connect rnd file out =
     \<lparr>randomness = rnd, foreign_keys = False, committed = file, current = file, stdout = out\<rparr>"

definition commit :: "state \<Rightarrow> state" where
  "commit st = st\<lparr>committed := current st\<rparr>"

definition rollback :: "state \<Rightarrow> state" where
  "rollback st = st\<lparr>current := committed st\<rparr>"

definition print :: "msg \<Rightarrow> state \<Rightarrow> state" where
  "print m st = st\<lparr>stdout := stdout st @ [m]\<rparr>"

text \<open>
  sqlite3 binds the parameters of a statement before SQLite runs it. A Python int binds as
  a 64-bit integer; one that does not fit raises \<open>OverflowError\<close>, and the statement does
  not run.
\<close>

definition int64 :: "int \<Rightarrow> bool" where
  "int64 n \<longleftrightarrow> - (2 ^ 63) \<le> n \<and> n < 2 ^ 63"

definition binding_error :: "ident \<Rightarrow> error option" where
  "binding_error v =
     (case v of
        Int_id n \<Rightarrow>
          if int64 n then None
          else Some (OtherException ''Python int too large to convert to SQLite INTEGER'')
      | Text_id s \<Rightarrow> None
      | No_id \<Rightarrow> None)"

text \<open>
  The key of a row that is inserted with NULL for its \<open>INTEGER PRIMARY KEY\<close>, in a table
  without AUTOINCREMENT whose keys are \<open>ids\<close>: 1 in an empty table, else one more than the
  largest key. When the largest key is the largest 64-bit integer, SQLite tries keys drawn at
  random until one is not in use; a search that finds none ends in \<open>SQLITE_FULL\<close>, which
  sqlite3 raises as \<open>OperationalError\<close>.
\<close>

definition new_rowid :: "(int list \<Rightarrow> int) \<Rightarrow> int list \<Rightarrow> error + int" where
  "new_rowid rnd ids =
     (case ids of
        [] \<Rightarrow> Inr 1
      | i # rest \<Rightarrow>
          let largest = fold max rest i in
          if largest < 2 ^ 63 - 1 then Inr (largest + 1)
          else if rnd ids \<in> set ids then Inl (OtherException ''database or disk is full'')
          else Inr (rnd ids))"

text \<open>
  The value of the key column \<open>ShipmentID INTEGER PRIMARY KEY\<close> for a parameter: an
  integer is the key, NULL asks for a new key, and any other value is refused.
\<close>

definition primary_key :: "(int list \<Rightarrow> int) \<Rightarrow> int list \<Rightarrow> ident \<Rightarrow> error + int" where
  "primary_key rnd ids v =
     (case v of
        Int_id n \<Rightarrow> Inr n
      | Text_id s \<Rightarrow> Inl (IntegrityError ''datatype mismatch'')
      | No_id \<Rightarrow> new_rowid rnd ids)"

text \<open>
  \<open>INSERT OR IGNORE INTO Shipments\<close>: a row whose primary key is taken is skipped without
  an error. The foreign keys are checked only on a connection that enforces them, and
  \<open>OR IGNORE\<close> does not cover them, nor a key that is no integer.
\<close>

definition insert_or_ignore_shipment :: "(int list \<Rightarrow> int) \<Rightarrow> bool \<Rightarrow> db \<Rightarrow> ident \<times> int \<times> int \<times> int \<Rightarrow> error + db" where
  "insert_or_ignore_shipment rnd fk d row =
     (case row of (shipment_id, origin_loc_id, dest_loc_id, driver_id) \<Rightarrow>
        case binding_error shipment_id of
          Some e \<Rightarrow> Inl e
        | None \<Rightarrow>
       (case primary_key rnd (map fst (Shipments d)) shipment_id of
          Inl e \<Rightarrow> Inl e
        | Inr key \<Rightarrow>
            if key \<in> set (map fst (Shipments d)) then Inr d
            else if fk \<and> \<not> (origin_loc_id \<in> set (map fst (tbl_rows (Locations d))) \<and>
                              dest_loc_id \<in> set (map fst (tbl_rows (Locations d))) \<and>
                              driver_id \<in> set (map fst (tbl_rows (Drivers d))))
            then Inl (IntegrityError ''FOREIGN KEY constraint failed'')
            else Inr (d\<lparr>Shipments := Shipments d @
                          [(key, origin_loc_id, dest_loc_id, driver_id)]\<rparr>)))"

text \<open>
  \<open>INSERT INTO ShipmentLineItems\<close>: the key is generated as for the name tables. NULL for
  \<open>ShipmentID\<close> violates NOT NULL. On a connection that enforces foreign keys the value
  must be the key of a Shipments row.
\<close>

definition insert_line_item :: "bool \<Rightarrow> db \<Rightarrow> ident \<times> int \<times> int \<times> cell \<Rightarrow> error + db" where
  "insert_line_item fk d row =
     (case row of (shipment_id, product_id, quantity, on_time_status) \<Rightarrow>
        case binding_error shipment_id of
          Some e \<Rightarrow> Inl e
        | None \<Rightarrow>
            if shipment_id = No_id then Inl (IntegrityError ''NOT NULL constraint failed'')
            else if fk \<and> \<not> (shipment_id \<in> set (map (\<lambda>s. Int_id (fst s)) (Shipments d)) \<and>
                              product_id \<in> set (map fst (tbl_rows (Products d))))
            then Inl (IntegrityError ''FOREIGN KEY constraint failed'')
            else let lastrowid = max (ShipmentLineItems_seq d)
                                     (largest_rowid (map fst (ShipmentLineItems d))) + 1
                 in Inr (d\<lparr>ShipmentLineItems := ShipmentLineItems d @
                              [(lastrowid, shipment_id, product_id, quantity, on_time_status)],
                            ShipmentLineItems_seq := lastrowid\<rparr>))"

subsection \<open>setup\_database\<close>

text \<open>
  The store file either does not exist (\<open>None\<close>) or holds the five tables. \<open>connect\<close>
  creates a missing file and the five \<open>CREATE TABLE IF NOT EXISTS\<close> statements create
  the tables in it, empty; tables that exist are left as they are. The pragma is set on this
  connection, which is closed at the end.
\<close>

definition setup_database :: "(int list \<Rightarrow> int) \<Rightarrow> db option \<Rightarrow> string \<Rightarrow> msg list \<Rightarrow> db \<times> msg list" where
  "setup_database rnd file db_name out =
     (let conn = connect rnd (case file of None \<Rightarrow> empty_db | Some d \<Rightarrow> d) out;
          conn = conn\<lparr>foreign_keys := True\<rparr>;
          conn = commit conn;
          conn = print (Setup_successfully db_name) conn;
          conn = print (Text ''NOTE: This schema is simplified'') conn
      in (committed conn, stdout conn))"

subsection \<open>populate\_database\<close>

text \<open>
  The three loops of step 1 call a resolver for each name outside any \<open>try\<close>: an
  exception leaves the loop and ends the run, with the connection as it was when it was
  raised.
\<close>

fun for_names :: "(db \<Rightarrow> cell \<Rightarrow> error + (int \<times> db)) \<Rightarrow> state \<Rightarrow> cell list \<Rightarrow> error option \<times> state" where
  "for_names resolver st [] = (None, st)"
| "for_names resolver st (name # names) =
     (case resolver (current st) name of
        Inl e \<Rightarrow> (Some e, st)
      | Inr (i, d) \<Rightarrow> for_names resolver (st\<lparr>current := d\<rparr>) names)"

definition populate_names :: "state \<Rightarrow> row_s0 list \<Rightarrow> row_s1 list \<Rightarrow> row_s2 list \<Rightarrow> error option \<times> state" where
  "populate_names st df0 df1 df2 =
     (let all_products = unique (map s0_product df0 @ map s1_product df1) in
      case for_names get_or_insert_product st all_products of
        (Some e, st) \<Rightarrow> (Some e, st)
      | (None, st) \<Rightarrow>
     (let st = commit st;
          all_locations = unique (map s0_origin_warehouse df0 @ map s0_destination_store df0 @
                                  map s2_origin_warehouse df2 @ map s2_destination_store df2) in
      case for_names get_or_insert_location st all_locations of
        (Some e, st) \<Rightarrow> (Some e, st)
      | (None, st) \<Rightarrow>
     (let st = commit st;
          all_drivers = unique (map s0_driver_identifier df0 @ map s2_driver_identifier df2) in
      case for_names get_or_insert_driver st all_drivers of
        (Some e, st) \<Rightarrow> (Some e, st)
      | (None, st) \<Rightarrow>
          (None, print (Text ''Finished initial population of Products, Locations, and Drivers.'')
                   (commit st)))))"

text \<open>
  The body of the \<open>try\<close> of the Shipments loop. It returns the exception raised, if any,
  and the connection at that moment: a statement that raises changes nothing, the
  statements before it have taken effect.
\<close>

definition shipment_try :: "state \<Rightarrow> row_s2 \<Rightarrow> error option \<times> state" where
  "shipment_try st row_s2 =
     (let shipment_id = s2_shipment_identifier row_s2 in
      case get_or_insert_location (current st) (s2_origin_warehouse row_s2) of
        Inl e \<Rightarrow> (Some e, st)
      | Inr (origin_loc_id, d) \<Rightarrow>
     (let st = st\<lparr>current := d\<rparr> in
      case get_or_insert_location (current st) (s2_destination_store row_s2) of
        Inl e \<Rightarrow> (Some e, st)
      | Inr (dest_loc_id, d) \<Rightarrow>
     (let st = st\<lparr>current := d\<rparr> in
      case get_or_insert_driver (current st) (s2_driver_identifier row_s2) of
        Inl e \<Rightarrow> (Some e, st)
      | Inr (driver_id, d) \<Rightarrow>
     (let st = st\<lparr>current := d\<rparr> in
      case insert_or_ignore_shipment (randomness st) (foreign_keys st) (current st)
             (shipment_id, origin_loc_id, dest_loc_id, driver_id) of
        Inl e \<Rightarrow> (Some e, st)
      | Inr d \<Rightarrow> (None, commit (st\<lparr>current := d\<rparr>))))))"

text \<open>The two \<open>except\<close> clauses of the Shipments loop.\<close>

definition shipment_except :: "state \<Rightarrow> string \<Rightarrow> row_s2 \<Rightarrow> error \<Rightarrow> state" where
  "shipment_except st s2_path row_s2 e =
     (case e of
        IntegrityError _ \<Rightarrow>
          rollback (print (Integrity_error_shipment (s2_shipment_identifier row_s2) s2_path e) st)
      | OtherException _ \<Rightarrow>
          rollback (print (Unexpected_error_shipment s2_path e (s2_shipment_identifier row_s2)) st))"

definition shipment_step :: "state \<Rightarrow> string \<Rightarrow> row_s2 \<Rightarrow> state" where
  "shipment_step st s2_path row_s2 =
     (case shipment_try st row_s2 of
        (None, st) \<Rightarrow> st
      | (Some e, st) \<Rightarrow> shipment_except st s2_path row_s2 e)"

fun shipments_loop :: "state \<Rightarrow> string \<Rightarrow> row_s2 list \<Rightarrow> state" where
  "shipments_loop st s2_path [] = st"
| "shipments_loop st s2_path (row_s2 # rows) =
     shipments_loop (shipment_step st s2_path row_s2) s2_path rows"

text \<open>The same for the ShipmentLineItems loop; the warning is printed before the insert.\<close>

definition line_item_try :: "state \<Rightarrow> string \<Rightarrow> row_s1 \<Rightarrow> error option \<times> state" where
  "line_item_try st s1_path row_s1 =
     (let shipment_id = s1_shipment_identifier row_s1 in
      case get_or_insert_product (current st) (s1_product row_s1) of
        Inl e \<Rightarrow> (Some e, st)
      | Inr (product_id, d) \<Rightarrow>
     (let st = st\<lparr>current := d\<rparr>;
          on_time_status = s1_on_time row_s1;
          quantity = 1;
          st = print (Quantity_warning s1_path shipment_id (s1_product row_s1) quantity) st in
      case insert_line_item (foreign_keys st) (current st)
             (shipment_id, product_id, quantity, on_time_status) of
        Inl e \<Rightarrow> (Some e, st)
      | Inr d \<Rightarrow> (None, commit (st\<lparr>current := d\<rparr>))))"

definition line_item_except :: "state \<Rightarrow> string \<Rightarrow> row_s1 \<Rightarrow> error \<Rightarrow> state" where
  "line_item_except st s1_path row_s1 e =
     (case e of
        IntegrityError _ \<Rightarrow>
          rollback (print (Integrity_error_line_item (s1_shipment_identifier row_s1) s1_path e) st)
      | OtherException _ \<Rightarrow>
          rollback (print (Unexpected_error_line_item s1_path e (s1_shipment_identifier row_s1)) st))"

definition line_item_step :: "state \<Rightarrow> string \<Rightarrow> row_s1 \<Rightarrow> state" where
  "line_item_step st s1_path row_s1 =
     (case line_item_try st s1_path row_s1 of
        (None, st) \<Rightarrow> st
      | (Some e, st) \<Rightarrow> line_item_except st s1_path row_s1 e)"

fun line_items_loop :: "state \<Rightarrow> string \<Rightarrow> row_s1 list \<Rightarrow> state" where
  "line_items_loop st s1_path [] = st"
| "line_items_loop st s1_path (row_s1 # rows) =
     line_items_loop (line_item_step st s1_path row_s1) s1_path rows"

definition populate_shipments :: "state \<Rightarrow> string \<Rightarrow> string \<Rightarrow> row_s1 list \<Rightarrow> row_s2 list \<Rightarrow> state" where
  "populate_shipments st s1_path s2_path df1 df2 =
     (let st = print (Text ''Populating Shipments and ShipmentLineItems tables...'') st;
          unique_shipments_df2 = drop_duplicates df2;
          st = shipments_loop st s2_path unique_shipments_df2;
          st = line_items_loop st s1_path df1;
          st = print (Text ''Finished population of Shipments and ShipmentLineItems.'') st
      in print (Text ''Database population complete with simplified schema.'') st)"

text \<open>
  \<open>populate_database\<close> opens its own connection to the store. The data frames that
  \<open>pd.read_csv\<close> returns for the three paths are arguments.
\<close>

definition populate_database :: "(int list \<Rightarrow> int) \<Rightarrow> db \<Rightarrow> msg list \<Rightarrow> string \<Rightarrow> string \<Rightarrow> row_s0 list \<Rightarrow> row_s1 list \<Rightarrow> row_s2 list \<Rightarrow> error option \<times> state" where
  "populate_database rnd file out s1_path s2_path df0 df1 df2 =
     (let st = connect rnd file out;
          st = print (Text ''Populating Products, Locations, and Drivers tables from all CSVs...'') st
      in case populate_names st df0 df1 df2 of
           (Some e, st) \<Rightarrow> (Some e, st)
         | (None, st) \<Rightarrow> (None, populate_shipments st s1_path s2_path df1 df2))"

subsection \<open>Main execution and verification\<close>

definition DATABASE_NAME :: string where
  "DATABASE_NAME = ''simplified_walmart_shipments.db''"

definition SPREADSHEET1_PATH :: string where
  "SPREADSHEET1_PATH = ''shipping_data_1.csv''"

definition SPREADSHEET2_PATH :: string where
  "SPREADSHEET2_PATH = ''shipping_data_2.csv''"

text \<open>
  The queries of the verification. \<open>SELECT *\<close> walks a table in the order of its keys. The
  two join queries walk Shipments and ShipmentLineItems in the order of their keys and look
  the joined rows up by key; an inner join keeps a row for each match, and \<open>LIMIT 10\<close>
  keeps at most ten rows of the result.
\<close>

definition select_all :: "name_table \<Rightarrow> (int \<times> string) list" where
  "select_all t = sort_key fst (tbl_rows t)"

definition select_shipments :: "db \<Rightarrow> (int \<times> string \<times> string \<times> string) list" where
  "select_shipments d =
     concat (map (\<lambda>(shipment_id, origin_id, dest_id, driver_id).
       concat (map (\<lambda>ol.
         concat (map (\<lambda>dl.
           map (\<lambda>dr. (shipment_id, snd ol, snd dl, snd dr))
             (filter (\<lambda>dr. fst dr = driver_id) (tbl_rows (Drivers d))))
           (filter (\<lambda>dl. fst dl = dest_id) (tbl_rows (Locations d)))))
         (filter (\<lambda>ol. fst ol = origin_id) (tbl_rows (Locations d)))))
       (sort_key fst (Shipments d)))"

definition select_line_items :: "db \<Rightarrow> (ident \<times> string \<times> int \<times> cell) list" where
  "select_line_items d =
     take 10 (concat (map (\<lambda>(line_item_id, shipment_id, product_id, quantity, on_time_status).
       map (\<lambda>p. (shipment_id, snd p, quantity, on_time_status))
         (filter (\<lambda>p. fst p = product_id) (tbl_rows (Products d))))
       (sort_key fst (ShipmentLineItems d))))"

definition verification :: "(int list \<Rightarrow> int) \<Rightarrow> db \<Rightarrow> msg list \<Rightarrow> state" where
  "verification rnd file out =
     (let st = connect rnd file out;
          st = print (Text ''--- Verification (Optional, for your own testing) ---'') st;
          st = print (Text ''Products:'') st;
          st = print (Fetched_names (select_all (Products (current st)))) st;
          st = print (Text ''Locations:'') st;
          st = print (Fetched_names (select_all (Locations (current st)))) st;
          st = print (Text ''Drivers:'') st;
          st = print (Fetched_names (select_all (Drivers (current st)))) st;
          st = print (Text ''Shipments:'') st;
          st = print (Fetched_shipments (select_shipments (current st))) st;
          st = print (Text ''ShipmentLineItems:'') st
      in print (Fetched_line_items (select_line_items (current st))) st)"

text \<open>
  The main block, as a function of what the store file held before the run (\<open>None\<close>:
  no file) and of the three data frames. An exception that leaves \<open>populate_database\<close>
  ends the run before the verification.
\<close>

definition main :: "(int list \<Rightarrow> int) \<Rightarrow> db option \<Rightarrow> row_s0 list \<Rightarrow> row_s1 list \<Rightarrow> row_s2 list \<Rightarrow> error option \<times> state" where
  "main rnd file df0 df1 df2 =
     (let (file, out) = (case file of
                           Some _ \<Rightarrow> (None, [Removed_existing_database_file DATABASE_NAME])
                         | None \<Rightarrow> (None, []));
          (file, out) = setup_database rnd file DATABASE_NAME out
      in case populate_database rnd file out SPREADSHEET1_PATH SPREADSHEET2_PATH df0 df1 df2 of
           (Some e, st) \<Rightarrow> (Some e, st)
         | (None, st) \<Rightarrow> (None, verification rnd (committed st) (stdout st)))"

subsection \<open>Properties\<close>

text \<open>The name columns hold no value twice.\<close>

definition names_unique :: "db \<Rightarrow> bool" where
  "names_unique d \<longleftrightarrow>
     distinct (map snd (tbl_rows (Products d))) \<and>
     distinct (map snd (tbl_rows (Locations d))) \<and>
     distinct (map snd (tbl_rows (Drivers d)))"

text \<open>
  Input tables are well-formed when no name cell that the loader resolves is empty.
\<close>

definition well_formed :: "row_s0 list \<Rightarrow> row_s1 list \<Rightarrow> row_s2 list \<Rightarrow> bool" where
  "well_formed df0 df1 df2 \<longleftrightarrow>
     None \<notin> set (map s0_product df0 @ map s1_product df1) \<and>
     None \<notin> set (map s0_origin_warehouse df0 @ map s0_destination_store df0 @
                  map s2_origin_warehouse df2 @ map s2_destination_store df2) \<and>
     None \<notin> set (map s0_driver_identifier df0 @ map s2_driver_identifier df2)"

text \<open>
  A shipment identifier is a 64-bit integer; the column \<open>ShipmentID\<close> of ShipmentLineItems
  accepts it when it is a 64-bit integer or a text.
\<close>

definition int64_id :: "ident \<Rightarrow> bool" where
  "int64_id v = (case v of Int_id n \<Rightarrow> int64 n | Text_id s \<Rightarrow> False | No_id \<Rightarrow> False)"

definition accepted_reference :: "ident \<Rightarrow> bool" where
  "accepted_reference v = (case v of Int_id n \<Rightarrow> int64 n | Text_id s \<Rightarrow> True | No_id \<Rightarrow> False)"

text \<open>The shipment identifiers that are keys of the Shipments table of a store.\<close>

definition shipment_ids :: "db \<Rightarrow> ident set" where
  "shipment_ids d = set (map (\<lambda>s. Int_id (fst s)) (Shipments d))"

text \<open>
  A row of table C or B with its names looked up in a store, next to a stored row in the
  same shape, so that the two can be compared.
\<close>

definition resolved_shipment :: "db \<Rightarrow> row_s2 \<Rightarrow> ident \<times> int option \<times> int option \<times> int option" where
  "resolved_shipment d r =
     (s2_shipment_identifier r,
      select_id_by_name (Locations d) (s2_origin_warehouse r),
      select_id_by_name (Locations d) (s2_destination_store r),
      select_id_by_name (Drivers d) (s2_driver_identifier r))"

definition resolved_line_item :: "db \<Rightarrow> row_s1 \<Rightarrow> ident \<times> int option \<times> int \<times> cell" where
  "resolved_line_item d r =
     (s1_shipment_identifier r, select_id_by_name (Products d) (s1_product r), 1, s1_on_time r)"

definition stored_shipment :: "int \<times> int \<times> int \<times> int \<Rightarrow> ident \<times> int option \<times> int option \<times> int option" where
  "stored_shipment row = (case row of (s, a, b, c) \<Rightarrow> (Int_id s, Some a, Some b, Some c))"

definition stored_line_item :: "int \<times> ident \<times> int \<times> int \<times> cell \<Rightarrow> ident \<times> int option \<times> int \<times> cell" where
  "stored_line_item row = (case row of (k, s, p, q, t) \<Rightarrow> (s, Some p, q, t))"

text \<open>A property of the store holds for a connection when it holds on both of its views.\<close>

definition holds :: "(db \<Rightarrow> bool) \<Rightarrow> state \<Rightarrow> bool" where
  "holds P st \<longleftrightarrow> P (committed st) \<and> P (current st)"

text \<open>
  Two connections agree on the store when they agree on the pragma and on both views of the
  store; console and randomness are left out.
\<close>

definition same_store :: "state \<Rightarrow> state \<Rightarrow> bool" where
  "same_store st st' \<longleftrightarrow>
     foreign_keys st = foreign_keys st' \<and> committed st = committed st' \<and> current st = current st'"

text \<open>
  Example tables: the end-to-end scenario, with a second row of table C that repeats the
  shipment identifier, and rows of table B that repeat a pair and name a shipment that table
  C does not have.
\<close>

definition scenario_A :: "row_s0 list" where
  "scenario_A = [\<lparr>s0_origin_warehouse = Some ''WH1'', s0_destination_store = Some ''ST1'',
                  s0_product = Some ''Widget'', s0_on_time = Some ''Yes'',
                  s0_product_quantity = 5, s0_driver_identifier = Some ''D1''\<rparr>]"

definition scenario_B :: "row_s1 list" where
  "scenario_B = [\<lparr>s1_shipment_identifier = Int_id 100, s1_product = Some ''Widget'',
                  s1_on_time = Some ''Yes''\<rparr>,
                 \<lparr>s1_shipment_identifier = Int_id 7, s1_product = Some ''Widget'',
                  s1_on_time = None\<rparr>,
                 \<lparr>s1_shipment_identifier = Int_id 100, s1_product = Some ''Widget'',
                  s1_on_time = Some ''Yes''\<rparr>]"

definition scenario_C :: "row_s2 list" where
  "scenario_C = [\<lparr>s2_shipment_identifier = Int_id 100, s2_origin_warehouse = Some ''WH1'',
                  s2_destination_store = Some ''ST1'', s2_driver_identifier = Some ''D1''\<rparr>,
                 \<lparr>s2_shipment_identifier = Int_id 100, s2_origin_warehouse = Some ''WH2'',
                  s2_destination_store = Some ''ST1'', s2_driver_identifier = Some ''D2''\<rparr>]"

text \<open>
  Tables with identifiers that the store does not take: an integer one past the largest
  64-bit integer, a text, and an empty cell.
\<close>

definition refused_B :: "row_s1 list" where
  "refused_B = [\<lparr>s1_shipment_identifier = Int_id 9223372036854775808,
                 s1_product = Some ''Widget'', s1_on_time = Some ''Yes''\<rparr>,
                \<lparr>s1_shipment_identifier = No_id, s1_product = Some ''Widget'',
                 s1_on_time = Some ''Yes''\<rparr>,
                \<lparr>s1_shipment_identifier = Int_id 100, s1_product = Some ''Widget'',
                 s1_on_time = Some ''Yes''\<rparr>]"

definition refused_C :: "row_s2 list" where
  "refused_C = [\<lparr>s2_shipment_identifier = Int_id 9223372036854775808,
                 s2_origin_warehouse = Some ''WH1'', s2_destination_store = Some ''ST1'',
                 s2_driver_identifier = Some ''D1''\<rparr>,
                \<lparr>s2_shipment_identifier = Text_id ''abc'',
                 s2_origin_warehouse = Some ''WH1'', s2_destination_store = Some ''ST1'',
                 s2_driver_identifier = Some ''D1''\<rparr>,
                \<lparr>s2_shipment_identifier = Int_id 100,
                 s2_origin_warehouse = Some ''WH1'', s2_destination_store = Some ''ST1'',
                 s2_driver_identifier = Some ''D1''\<rparr>]"


text \<open>The Quantity column of a ShipmentLineItems row.\<close>

definition Quantity :: "int \<times> ident \<times> int \<times> int \<times> cell \<Rightarrow> int" where
  "Quantity row = (case row of (line_item_id, shipment_id, product_id, quantity, on_time_status) \<Rightarrow> quantity)"

text \<open>The store after the run on the example tables.\<close>

definition scenario_db :: db where
  "scenario_db =
     \<lparr>Products = \<lparr>tbl_rows = [(1, ''Widget'')], tbl_seq = 1\<rparr>,
      Locations = \<lparr>tbl_rows = [(1, ''WH1''), (2, ''ST1''), (3, ''WH2'')], tbl_seq = 3\<rparr>,
      Drivers = \<lparr>tbl_rows = [(1, ''D1''), (2, ''D2'')], tbl_seq = 2\<rparr>,
      Shipments = [(100, 1, 2, 1)],
      ShipmentLineItems = [(1, Int_id 100, 1, 1, Some ''Yes''), (2, Int_id 7, 1, 1, None),
                           (3, Int_id 100, 1, 1, Some ''Yes'')],
      ShipmentLineItems_seq = 3\<rparr>"

text \<open>The messages of the exception handlers of the two loops.\<close>

definition is_shipment_error :: "msg \<Rightarrow> bool" where
  "is_shipment_error m =
     (case m of
        Integrity_error_shipment _ _ _ \<Rightarrow> True
      | Unexpected_error_shipment _ _ _ \<Rightarrow> True
      | _ \<Rightarrow> False)"

definition is_line_item_error :: "msg \<Rightarrow> bool" where
  "is_line_item_error m =
     (case m of
        Integrity_error_line_item _ _ _ \<Rightarrow> True
      | Unexpected_error_line_item _ _ _ \<Rightarrow> True
      | _ \<Rightarrow> False)"

text \<open>A draw that comes to the same key whatever keys are in use, for the examples.\<close>

definition drawing :: "int \<Rightarrow> int list \<Rightarrow> int" where
  "drawing k ids = k"

subsection \<open>The resolver\<close>

lemma find_append_eq:
  "find P (xs @ ys) = (case find P xs of None \<Rightarrow> find P ys | Some x \<Rightarrow> Some x)"
  by (induction xs) auto

lemma find_Some_holds: "find P xs = Some x \<Longrightarrow> P x \<and> x \<in> set xs"
  by (induction xs) (auto split: if_splits)

lemma get_or_insert_Some:
  "\<exists>i t'. get_or_insert t (Some n) = Inr (i, t')"
  by (auto simp: get_or_insert_def select_id_by_name_def insert_name_def Let_def find_None_iff
           split: option.splits)

lemma get_or_insert_found:
  "get_or_insert t name = Inr (i, t') \<Longrightarrow> select_id_by_name t' name = Some i"
  by (cases name)
     (auto simp: get_or_insert_def select_id_by_name_def insert_name_def Let_def find_append_eq
                 find_None_iff
           split: option.splits if_splits dest!: find_Some_holds)

lemma get_or_insert_again:
  "select_id_by_name t name = Some i \<Longrightarrow> get_or_insert t name = Inr (i, t)"
  by (simp add: get_or_insert_def)

lemma get_or_insert_twice:
  "\<exists>i t'. get_or_insert t (Some n) = Inr (i, t') \<and> get_or_insert t' (Some n) = Inr (i, t')"
proof -
  obtain i t' where h: "get_or_insert t (Some n) = Inr (i, t')"
    using get_or_insert_Some by blast
  then have "get_or_insert t' (Some n) = Inr (i, t')"
    by (intro get_or_insert_again get_or_insert_found)
  with h show ?thesis by blast
qed

text \<open>
  C1. For every name string and every state of the store, each of the three resolvers
  returns an identifier, and a second call with the same name on the store the first call
  left returns the same identifier and leaves that store as it is: no row is inserted.
\<close>

theorem resolver_idempotent:
  "(\<exists>i d'. get_or_insert_product d (Some n) = Inr (i, d') \<and>
            get_or_insert_product d' (Some n) = Inr (i, d')) \<and>
   (\<exists>i d'. get_or_insert_location d (Some n) = Inr (i, d') \<and>
            get_or_insert_location d' (Some n) = Inr (i, d')) \<and>
   (\<exists>i d'. get_or_insert_driver d (Some n) = Inr (i, d') \<and>
            get_or_insert_driver d' (Some n) = Inr (i, d'))"
proof (intro conjI)
  obtain i t' where p: "get_or_insert (Products d) (Some n) = Inr (i, t')"
    "get_or_insert t' (Some n) = Inr (i, t')"
    using get_or_insert_twice by blast
  then show "\<exists>i d'. get_or_insert_product d (Some n) = Inr (i, d') \<and>
                    get_or_insert_product d' (Some n) = Inr (i, d')"
    by (simp add: get_or_insert_product_def)
next
  obtain i t' where p: "get_or_insert (Locations d) (Some n) = Inr (i, t')"
    "get_or_insert t' (Some n) = Inr (i, t')"
    using get_or_insert_twice by blast
  then show "\<exists>i d'. get_or_insert_location d (Some n) = Inr (i, d') \<and>
                    get_or_insert_location d' (Some n) = Inr (i, d')"
    by (simp add: get_or_insert_location_def)
next
  obtain i t' where p: "get_or_insert (Drivers d) (Some n) = Inr (i, t')"
    "get_or_insert t' (Some n) = Inr (i, t')"
    using get_or_insert_twice by blast
  then show "\<exists>i d'. get_or_insert_driver d (Some n) = Inr (i, d') \<and>
                    get_or_insert_driver d' (Some n) = Inr (i, d')"
    by (simp add: get_or_insert_driver_def)
qed

subsection \<open>Lists without duplicates\<close>

lemma set_unique_from: "set (unique_from seen xs) = set xs - set seen"
  by (induction xs arbitrary: seen) auto

lemma set_unique: "set (unique xs) = set xs"
  by (simp add: unique_def set_unique_from)

lemma distinct_unique_from: "distinct (unique_from seen xs)"
  by (induction xs arbitrary: seen) (auto simp: set_unique_from)

lemma set_drop_duplicates_from_ids:
  "s2_shipment_identifier ` set (drop_duplicates_from seen rs) =
     s2_shipment_identifier ` set rs - set seen"
  by (induction rs arbitrary: seen) auto

lemma drop_duplicates_from_subset: "set (drop_duplicates_from seen rs) \<subseteq> set rs"
  by (induction rs arbitrary: seen) auto

lemma distinct_drop_duplicates_from:
  "distinct (map s2_shipment_identifier (drop_duplicates_from seen rs))"
  by (induction rs arbitrary: seen) (auto simp: set_drop_duplicates_from_ids)



lemma select_id_in_rows:
  "select_id_by_name t name = Some i \<Longrightarrow> \<exists>n. name = Some n \<and> (i, n) \<in> set (tbl_rows t)"
  by (auto simp: select_id_by_name_def split: option.splits dest!: find_Some_holds)

lemma select_id_None_iff:
  "select_id_by_name t (Some n) = None \<longleftrightarrow> n \<notin> snd ` set (tbl_rows t)"
  by (force simp: select_id_by_name_def find_None_iff)

lemma get_or_insert_None: "get_or_insert t None = Inl (IntegrityError ''NOT NULL constraint failed'')"
  by (simp add: get_or_insert_def select_id_by_name_def insert_name_def)

lemma get_or_insert_Inr_Some: "get_or_insert t name = Inr (i, t') \<Longrightarrow> name \<noteq> None"
  by (cases name) (auto simp: get_or_insert_None)

lemma get_or_insert_rows:
  "get_or_insert t name = Inr (i, t') \<Longrightarrow>
     tbl_rows t' = tbl_rows t \<or>
     (\<exists>n. name = Some n \<and> n \<notin> snd ` set (tbl_rows t) \<and> tbl_rows t' = tbl_rows t @ [(i, n)])"
  by (auto simp: get_or_insert_def insert_name_def Let_def split: option.splits if_splits)

lemma get_or_insert_stable:
  assumes "get_or_insert t name = Inr (i, t')" and "select_id_by_name t other = Some j"
  shows "select_id_by_name t' other = Some j"
  using get_or_insert_rows[OF assms(1)] assms(2)
  by (auto simp: select_id_by_name_def find_append_eq split: option.splits)

lemma get_or_insert_distinct:
  assumes "get_or_insert t name = Inr (i, t')" and "distinct (map snd (tbl_rows t))"
  shows "distinct (map snd (tbl_rows t'))"
  using get_or_insert_rows[OF assms(1)] assms(2) by auto

lemma get_or_insert_id_in_rows:
  "get_or_insert t name = Inr (i, t') \<Longrightarrow> i \<in> fst ` set (tbl_rows t')"
  by (drule get_or_insert_found, drule select_id_in_rows) force

lemma get_or_insert_ids_grow:
  "get_or_insert t name = Inr (i, t') \<Longrightarrow> fst ` set (tbl_rows t) \<subseteq> fst ` set (tbl_rows t')"
  by (drule get_or_insert_rows) auto

lemma get_or_insert_product_Inr:
  "get_or_insert_product d n = Inr (i, d') \<longleftrightarrow>
     (\<exists>t'. get_or_insert (Products d) n = Inr (i, t') \<and> d' = d\<lparr>Products := t'\<rparr>)"
  by (auto simp: get_or_insert_product_def split: sum.splits)

lemma get_or_insert_location_Inr:
  "get_or_insert_location d n = Inr (i, d') \<longleftrightarrow>
     (\<exists>t'. get_or_insert (Locations d) n = Inr (i, t') \<and> d' = d\<lparr>Locations := t'\<rparr>)"
  by (auto simp: get_or_insert_location_def split: sum.splits)

lemma get_or_insert_driver_Inr:
  "get_or_insert_driver d n = Inr (i, d') \<longleftrightarrow>
     (\<exists>t'. get_or_insert (Drivers d) n = Inr (i, t') \<and> d' = d\<lparr>Drivers := t'\<rparr>)"
  by (auto simp: get_or_insert_driver_def split: sum.splits)

lemmas resolver_Inr =
  get_or_insert_product_Inr get_or_insert_location_Inr get_or_insert_driver_Inr

lemma insert_or_ignore_shipment_Inr:
  "insert_or_ignore_shipment rnd fk d (s, a, b, c) = Inr d' \<Longrightarrow>
     d' = d \<or>
     (\<exists>key. key \<notin> fst ` set (Shipments d) \<and> (s = Int_id key \<or> s = No_id) \<and>
            d' = d\<lparr>Shipments := Shipments d @ [(key, a, b, c)]\<rparr>)"
  by (auto simp: insert_or_ignore_shipment_def primary_key_def
           split: option.splits sum.splits ident.splits if_splits)

lemma insert_or_ignore_shipment_frame:
  "insert_or_ignore_shipment rnd fk d row = Inr d' \<Longrightarrow>
     Products d' = Products d \<and> Locations d' = Locations d \<and> Drivers d' = Drivers d \<and>
     ShipmentLineItems d' = ShipmentLineItems d \<and>
     ShipmentLineItems_seq d' = ShipmentLineItems_seq d"
  by (cases row) (auto dest!: insert_or_ignore_shipment_Inr)

lemma insert_line_item_Inr:
  "insert_line_item fk d (s, p, q, ot) = Inr d' \<Longrightarrow>
     accepted_reference s \<and>
     (\<exists>k. d' = d\<lparr>ShipmentLineItems := ShipmentLineItems d @ [(k, s, p, q, ot)],
                 ShipmentLineItems_seq := k\<rparr>)"
  by (auto simp: insert_line_item_def binding_error_def accepted_reference_def Let_def
           split: option.splits ident.splits if_splits)

lemma commit_simps [simp]:
  "committed (commit st) = current st" "current (commit st) = current st"
  "foreign_keys (commit st) = foreign_keys st" "stdout (commit st) = stdout st"
  by (simp_all add: commit_def)

lemma rollback_simps [simp]:
  "committed (rollback st) = committed st" "current (rollback st) = committed st"
  "foreign_keys (rollback st) = foreign_keys st" "stdout (rollback st) = stdout st"
  by (simp_all add: rollback_def)

lemma print_simps [simp]:
  "committed (print m st) = committed st" "current (print m st) = current st"
  "foreign_keys (print m st) = foreign_keys st" "stdout (print m st) = stdout st @ [m]"
  by (simp_all add: print_def)

lemma randomness_simps [simp]:
  "randomness (commit st) = randomness st" "randomness (rollback st) = randomness st"
  "randomness (print m st) = randomness st"
  by (simp_all add: commit_def rollback_def print_def)

lemma for_names_holds:
  assumes "\<And>d n i d'. P d \<Longrightarrow> resolver d n = Inr (i, d') \<Longrightarrow> P d'" and "holds P st"
  shows "holds P (snd (for_names resolver st names))"
  using assms(2)
proof (induction names arbitrary: st)
  case Nil
  then show ?case by simp
next
  case (Cons n names)
  show ?case
  proof (cases "resolver (current st) n")
    case (Inl e)
    with Cons.prems show ?thesis by simp
  next
    case (Inr p)
    obtain i d where p: "p = (i, d)" by (cases p)
    have "P d" using assms(1)[of "current st" n i d] Cons.prems Inr p by (simp add: holds_def)
    then have "holds P (st\<lparr>current := d\<rparr>)" using Cons.prems by (simp add: holds_def)
    from Cons.IH[OF this] show ?thesis using Inr p by simp
  qed
qed

lemma for_names_frame:
  "foreign_keys (snd (for_names resolver st names)) = foreign_keys st \<and>
   committed (snd (for_names resolver st names)) = committed st \<and>
   stdout (snd (for_names resolver st names)) = stdout st"
  by (induction names arbitrary: st) (auto split: sum.splits)

lemma populate_names_holds:
  assumes p: "\<And>d n i d'. P d \<Longrightarrow> get_or_insert_product d n = Inr (i, d') \<Longrightarrow> P d'"
    and l: "\<And>d n i d'. P d \<Longrightarrow> get_or_insert_location d n = Inr (i, d') \<Longrightarrow> P d'"
    and r: "\<And>d n i d'. P d \<Longrightarrow> get_or_insert_driver d n = Inr (i, d') \<Longrightarrow> P d'"
    and "holds P st"
  shows "holds P (snd (populate_names st df0 df1 df2))"
proof -
  define ps where "ps = unique (map s0_product df0 @ map s1_product df1)"
  define ls where "ls = unique (map s0_origin_warehouse df0 @ map s0_destination_store df0 @
                                map s2_origin_warehouse df2 @ map s2_destination_store df2)"
  define ds where "ds = unique (map s0_driver_identifier df0 @ map s2_driver_identifier df2)"
  obtain e1 st1 where 1: "for_names get_or_insert_product st ps = (e1, st1)" by force
  obtain e2 st2 where 2: "for_names get_or_insert_location (commit st1) ls = (e2, st2)" by force
  obtain e3 st3 where 3: "for_names get_or_insert_driver (commit st2) ds = (e3, st3)" by force
  have h1: "holds P st1"
    using for_names_holds[where P = P and resolver = get_or_insert_product and names = ps, OF p assms(4)] 1
    by simp
  then have "holds P (commit st1)" by (simp add: holds_def)
  then have h2: "holds P st2"
    using for_names_holds[where P = P and resolver = get_or_insert_location and names = ls
        and st = "commit st1", OF l] 2
    by simp
  then have "holds P (commit st2)" by (simp add: holds_def)
  then have h3: "holds P st3"
    using for_names_holds[where P = P and resolver = get_or_insert_driver and names = ds
        and st = "commit st2", OF r] 3
    by simp
  then have h4: "holds P (print m (commit st3))" for m by (simp add: holds_def)
  show ?thesis
    unfolding populate_names_def Let_def
    using 1 2 3 h1 h2 h3 h4
    by (auto simp: ps_def ls_def ds_def split: option.splits)
qed

lemma shipment_except_fields [simp]:
  "committed (shipment_except st p r e) = committed st"
  "current (shipment_except st p r e) = committed st"
  "foreign_keys (shipment_except st p r e) = foreign_keys st"
  "randomness (shipment_except st p r e) = randomness st"
  by (simp_all add: shipment_except_def split: error.splits)

lemma line_item_except_fields [simp]:
  "committed (line_item_except st p r e) = committed st"
  "current (line_item_except st p r e) = committed st"
  "foreign_keys (line_item_except st p r e) = foreign_keys st"
  "randomness (line_item_except st p r e) = randomness st"
  by (simp_all add: line_item_except_def split: error.splits)

lemma shipment_try_holds:
  assumes l: "\<And>d n i d'. P d \<Longrightarrow> get_or_insert_location d n = Inr (i, d') \<Longrightarrow> P d'"
    and r: "\<And>d n i d'. P d \<Longrightarrow> get_or_insert_driver d n = Inr (i, d') \<Longrightarrow> P d'"
    and s: "\<And>d rnd fk row d'. P d \<Longrightarrow> insert_or_ignore_shipment rnd fk d row = Inr d' \<Longrightarrow> P d'"
    and "holds P st"
  shows "holds P (snd (shipment_try st row))"
proof -
  have c: "P (committed st)" and 0: "P (current st)" using assms(4) by (simp_all add: holds_def)
  show ?thesis
  proof (cases "get_or_insert_location (current st) (s2_origin_warehouse row)")
    case (Inl e)
    then show ?thesis using c 0 by (simp add: shipment_try_def holds_def)
  next
    case (Inr p1)
    obtain i1 d1 where p1: "p1 = (i1, d1)" by (cases p1)
    have 1: "P d1" using l[OF 0] Inr p1 by simp
    show ?thesis
    proof (cases "get_or_insert_location d1 (s2_destination_store row)")
      case (Inl e)
      then show ?thesis using c 1 Inr p1 by (simp add: shipment_try_def holds_def)
    next
      case Inr2: (Inr p2)
      obtain i2 d2 where p2: "p2 = (i2, d2)" by (cases p2)
      have 2: "P d2" using l[OF 1] Inr2 p2 by simp
      show ?thesis
      proof (cases "get_or_insert_driver d2 (s2_driver_identifier row)")
        case (Inl e)
        then show ?thesis using c 2 Inr p1 Inr2 p2 by (simp add: shipment_try_def holds_def)
      next
        case Inr3: (Inr p3)
        obtain i3 d3 where p3: "p3 = (i3, d3)" by (cases p3)
        have 3: "P d3" using r[OF 2] Inr3 p3 by simp
        show ?thesis
        proof (cases "insert_or_ignore_shipment (randomness st) (foreign_keys st) d3
                        (s2_shipment_identifier row, i1, i2, i3)")
          case (Inl e)
          then show ?thesis using c 3 Inr p1 Inr2 p2 Inr3 p3
            by (simp add: shipment_try_def holds_def)
        next
          case Inr4: (Inr d4)
          have "P d4" using s[OF 3 Inr4] .
          then show ?thesis using Inr p1 Inr2 p2 Inr3 p3 Inr4
            by (simp add: shipment_try_def holds_def)
        qed
      qed
    qed
  qed
qed

lemma shipments_loop_holds:
  assumes l: "\<And>d n i d'. P d \<Longrightarrow> get_or_insert_location d n = Inr (i, d') \<Longrightarrow> P d'"
    and r: "\<And>d n i d'. P d \<Longrightarrow> get_or_insert_driver d n = Inr (i, d') \<Longrightarrow> P d'"
    and s: "\<And>d rnd fk row d'. P d \<Longrightarrow> insert_or_ignore_shipment rnd fk d row = Inr d' \<Longrightarrow> P d'"
    and "holds P st"
  shows "holds P (shipments_loop st p rows)"
  using assms(4)
proof (induction rows arbitrary: st)
  case Nil
  then show ?case by simp
next
  case (Cons row rows)
  have t: "holds P (snd (shipment_try st row))"
    using shipment_try_holds[where P = P, OF l r s Cons.prems] .
  have "holds P (shipment_step st p row)"
    using t by (auto simp: shipment_step_def holds_def split: prod.splits option.splits)
  from Cons.IH[OF this] show ?case by simp
qed

lemma line_item_try_holds:
  assumes p: "\<And>d n i d'. P d \<Longrightarrow> get_or_insert_product d n = Inr (i, d') \<Longrightarrow> P d'"
    and s: "\<And>d fk s p ot d'. P d \<Longrightarrow> insert_line_item fk d (s, p, 1, ot) = Inr d' \<Longrightarrow> P d'"
    and "holds P st"
  shows "holds P (snd (line_item_try st path row))"
proof -
  have c: "P (committed st)" and 0: "P (current st)" using assms(3) by (simp_all add: holds_def)
  show ?thesis
  proof (cases "get_or_insert_product (current st) (s1_product row)")
    case (Inl e)
    then show ?thesis using c 0 by (simp add: line_item_try_def holds_def)
  next
    case (Inr p1)
    obtain i1 d1 where p1: "p1 = (i1, d1)" by (cases p1)
    have 1: "P d1" using p[OF 0] Inr p1 by simp
    show ?thesis
    proof (cases "insert_line_item (foreign_keys st) d1
                    (s1_shipment_identifier row, i1, 1, s1_on_time row)")
      case (Inl e)
      then show ?thesis using c 1 Inr p1 by (simp add: line_item_try_def holds_def)
    next
      case Inr2: (Inr d2)
      have "P d2" using s[OF 1 Inr2] .
      then show ?thesis using Inr p1 Inr2 by (simp add: line_item_try_def holds_def)
    qed
  qed
qed

lemma line_items_loop_holds:
  assumes p: "\<And>d n i d'. P d \<Longrightarrow> get_or_insert_product d n = Inr (i, d') \<Longrightarrow> P d'"
    and s: "\<And>d fk s p ot d'. P d \<Longrightarrow> insert_line_item fk d (s, p, 1, ot) = Inr d' \<Longrightarrow> P d'"
    and "holds P st"
  shows "holds P (line_items_loop st path rows)"
  using assms(3)
proof (induction rows arbitrary: st)
  case Nil
  then show ?case by simp
next
  case (Cons row rows)
  have t: "holds P (snd (line_item_try st path row))"
    using line_item_try_holds[where P = P, OF p s Cons.prems] .
  have "holds P (line_item_step st path row)"
    using t by (auto simp: line_item_step_def holds_def split: prod.splits option.splits)
  from Cons.IH[OF this] show ?case by simp
qed

lemma populate_database_holds:
  assumes p: "\<And>d n i d'. P d \<Longrightarrow> get_or_insert_product d n = Inr (i, d') \<Longrightarrow> P d'"
    and l: "\<And>d n i d'. P d \<Longrightarrow> get_or_insert_location d n = Inr (i, d') \<Longrightarrow> P d'"
    and r: "\<And>d n i d'. P d \<Longrightarrow> get_or_insert_driver d n = Inr (i, d') \<Longrightarrow> P d'"
    and s: "\<And>d rnd fk row d'. P d \<Longrightarrow> insert_or_ignore_shipment rnd fk d row = Inr d' \<Longrightarrow> P d'"
    and i: "\<And>d fk s p ot d'. P d \<Longrightarrow> insert_line_item fk d (s, p, 1, ot) = Inr d' \<Longrightarrow> P d'"
    and "P file"
  shows "holds P (snd (populate_database rnd file out p1 p2 df0 df1 df2))"
proof -
  define st0 where "st0 = print (Text ''Populating Products, Locations, and Drivers tables from all CSVs...'') (connect rnd file out)"
  have 0: "holds P st0" using assms(6) by (simp add: st0_def holds_def connect_def)
  obtain e st1 where 1: "populate_names st0 df0 df1 df2 = (e, st1)" by force
  have h1: "holds P st1"
    using populate_names_holds[where P = P and ?df0.0 = df0 and ?df1.0 = df1 and ?df2.0 = df2,
        OF p l r 0] 1 by simp
  have "holds P (print m st1)" for m using h1 by (simp add: holds_def)
  then have "holds P (shipments_loop (print m st1) p2 rows)" for m rows
    by (rule shipments_loop_holds[where P = P, rotated 3]) (erule (1) l r s)+
  then have "holds P (line_items_loop (shipments_loop (print m st1) p2 rows) p1 rows')"
    for m rows rows'
    by (rule line_items_loop_holds[where P = P, rotated 2]) (erule (1) p i)+
  then have "holds P (populate_shipments st1 p1 p2 df1 df2)"
    unfolding populate_shipments_def Let_def by (simp add: holds_def)
  then show ?thesis
    using 1 h1 unfolding populate_database_def Let_def st0_def[symmetric]
    by (auto split: option.splits)
qed

lemma resolver_None:
  "get_or_insert_product d None = Inl (IntegrityError ''NOT NULL constraint failed'')"
  "get_or_insert_location d None = Inl (IntegrityError ''NOT NULL constraint failed'')"
  "get_or_insert_driver d None = Inl (IntegrityError ''NOT NULL constraint failed'')"
  by (simp_all add: get_or_insert_product_def get_or_insert_location_def
      get_or_insert_driver_def get_or_insert_None)

lemma resolver_Some:
  "\<exists>i d'. get_or_insert_product d (Some n) = Inr (i, d')"
  "\<exists>i d'. get_or_insert_location d (Some n) = Inr (i, d')"
  "\<exists>i d'. get_or_insert_driver d (Some n) = Inr (i, d')"
  using get_or_insert_Some[of "Products d" n] get_or_insert_Some[of "Locations d" n]
    get_or_insert_Some[of "Drivers d" n]
  by (auto simp: get_or_insert_product_def get_or_insert_location_def get_or_insert_driver_def)

lemma for_names_None_iff:
  assumes "\<And>d. \<exists>e. resolver d None = Inl e"
    and "\<And>d n. \<exists>i d'. resolver d (Some n) = Inr (i, d')"
  shows "fst (for_names resolver st names) = None \<longleftrightarrow> None \<notin> set names"
proof (induction names arbitrary: st)
  case Nil
  then show ?case by simp
next
  case (Cons name names)
  show ?case
  proof (cases name)
    case None
    then show ?thesis using assms(1)[of "current st"] by auto
  next
    case (Some n)
    obtain i d' where r: "resolver (current st) (Some n) = Inr (i, d')"
      using assms(2)[of "current st" n] by blast
    have "fst (for_names resolver st (name # names)) =
          fst (for_names resolver (st\<lparr>current := d'\<rparr>) names)"
      using r Some by simp
    then show ?thesis using Cons.IH[of "st\<lparr>current := d'\<rparr>"] Some by simp
  qed
qed

lemma for_names_resolves:
  assumes found: "\<And>d n i d'. resolver d n = Inr (i, d') \<Longrightarrow> select_id_by_name (tbl d') n = Some i"
    and stable: "\<And>d n i d' m j. resolver d n = Inr (i, d') \<Longrightarrow>
                   select_id_by_name (tbl d) m = Some j \<Longrightarrow> select_id_by_name (tbl d') m = Some j"
    and "fst (for_names resolver st names) = None"
    and "m \<in> set names \<or> select_id_by_name (tbl (current st)) m \<noteq> None"
  shows "select_id_by_name (tbl (current (snd (for_names resolver st names)))) m \<noteq> None"
  using assms(3,4)
proof (induction names arbitrary: st)
  case Nil
  then show ?case by simp
next
  case (Cons name names)
  show ?case
  proof (cases "resolver (current st) name")
    case (Inl e)
    with Cons.prems show ?thesis by simp
  next
    case (Inr p)
    obtain i d where p: "p = (i, d)" by (cases p)
    have "m \<in> set names \<or> select_id_by_name (tbl d) m \<noteq> None"
      using Cons.prems(2) found[of "current st" name i d] stable[of "current st" name i d m] Inr p
      by auto
    then show ?thesis
      using Cons.IH[of "st\<lparr>current := d\<rparr>"] Cons.prems(1) Inr p by simp
  qed
qed

lemma populate_names_None_iff:
  "fst (populate_names st df0 df1 df2) = None \<longleftrightarrow> well_formed df0 df1 df2"
proof -
  define ps where "ps = unique (map s0_product df0 @ map s1_product df1)"
  define ls where "ls = unique (map s0_origin_warehouse df0 @ map s0_destination_store df0 @
                                map s2_origin_warehouse df2 @ map s2_destination_store df2)"
  define ds where "ds = unique (map s0_driver_identifier df0 @ map s2_driver_identifier df2)"
  obtain e1 st1 where 1: "for_names get_or_insert_product st ps = (e1, st1)" by force
  obtain e2 st2 where 2: "for_names get_or_insert_location (commit st1) ls = (e2, st2)" by force
  obtain e3 st3 where 3: "for_names get_or_insert_driver (commit st2) ds = (e3, st3)" by force
  have e1: "e1 = None \<longleftrightarrow> None \<notin> set ps"
    using for_names_None_iff[of get_or_insert_product st ps] 1
    by (simp add: resolver_None resolver_Some)
  have e2: "e2 = None \<longleftrightarrow> None \<notin> set ls"
    using for_names_None_iff[of get_or_insert_location "commit st1" ls] 2
    by (simp add: resolver_None resolver_Some)
  have e3: "e3 = None \<longleftrightarrow> None \<notin> set ds"
    using for_names_None_iff[of get_or_insert_driver "commit st2" ds] 3
    by (simp add: resolver_None resolver_Some)
  have "fst (populate_names st df0 df1 df2) = None \<longleftrightarrow> e1 = None \<and> e2 = None \<and> e3 = None"
    unfolding populate_names_def Let_def
    using 1 2 3 by (auto simp: ps_def ls_def ds_def split: option.splits)
  then show ?thesis
    unfolding e1 e2 e3 well_formed_def by (simp add: ps_def ls_def ds_def set_unique)
qed

lemma for_names_current:
  assumes "\<And>d n i d'. P d \<Longrightarrow> resolver d n = Inr (i, d') \<Longrightarrow> P d'" and "P (current st)"
  shows "P (current (snd (for_names resolver st names)))"
  using assms(2)
proof (induction names arbitrary: st)
  case Nil
  then show ?case by simp
next
  case (Cons n names)
  show ?case
  proof (cases "resolver (current st) n")
    case (Inl e)
    with Cons.prems show ?thesis by simp
  next
    case (Inr p)
    obtain i d where p: "p = (i, d)" by (cases p)
    have "P d" using assms(1)[of "current st" n i d] Cons.prems Inr p by simp
    then show ?thesis using Cons.IH[of "st\<lparr>current := d\<rparr>"] Inr p by simp
  qed
qed

lemma product_found:
  "get_or_insert_product d n = Inr (i, d') \<Longrightarrow> select_id_by_name (Products d') n = Some i"
  by (auto simp: get_or_insert_product_Inr dest: get_or_insert_found)

lemma location_found:
  "get_or_insert_location d n = Inr (i, d') \<Longrightarrow> select_id_by_name (Locations d') n = Some i"
  by (auto simp: get_or_insert_location_Inr dest: get_or_insert_found)

lemma driver_found:
  "get_or_insert_driver d n = Inr (i, d') \<Longrightarrow> select_id_by_name (Drivers d') n = Some i"
  by (auto simp: get_or_insert_driver_Inr dest: get_or_insert_found)

lemma product_stable:
  "get_or_insert_product d n = Inr (i, d') \<Longrightarrow> select_id_by_name (Products d) m = Some j \<Longrightarrow>
     select_id_by_name (Products d') m = Some j"
  by (auto simp: get_or_insert_product_Inr dest: get_or_insert_stable)

lemma location_stable:
  "get_or_insert_location d n = Inr (i, d') \<Longrightarrow> select_id_by_name (Locations d) m = Some j \<Longrightarrow>
     select_id_by_name (Locations d') m = Some j"
  by (auto simp: get_or_insert_location_Inr dest: get_or_insert_stable)

lemma driver_stable:
  "get_or_insert_driver d n = Inr (i, d') \<Longrightarrow> select_id_by_name (Drivers d) m = Some j \<Longrightarrow>
     select_id_by_name (Drivers d') m = Some j"
  by (auto simp: get_or_insert_driver_Inr dest: get_or_insert_stable)

text \<open>What a resolver leaves alone.\<close>

lemma product_frame:
  "get_or_insert_product d n = Inr (i, d') \<Longrightarrow>
     Locations d' = Locations d \<and> Drivers d' = Drivers d \<and> Shipments d' = Shipments d \<and>
     ShipmentLineItems d' = ShipmentLineItems d \<and> ShipmentLineItems_seq d' = ShipmentLineItems_seq d"
  by (auto simp: get_or_insert_product_Inr)

lemma location_frame:
  "get_or_insert_location d n = Inr (i, d') \<Longrightarrow>
     Products d' = Products d \<and> Drivers d' = Drivers d \<and> Shipments d' = Shipments d \<and>
     ShipmentLineItems d' = ShipmentLineItems d \<and> ShipmentLineItems_seq d' = ShipmentLineItems_seq d"
  by (auto simp: get_or_insert_location_Inr)

lemma driver_frame:
  "get_or_insert_driver d n = Inr (i, d') \<Longrightarrow>
     Products d' = Products d \<and> Locations d' = Locations d \<and> Shipments d' = Shipments d \<and>
     ShipmentLineItems d' = ShipmentLineItems d \<and> ShipmentLineItems_seq d' = ShipmentLineItems_seq d"
  by (auto simp: get_or_insert_driver_Inr)

lemma populate_names_done:
  assumes "populate_names st df0 df1 df2 = (None, st')"
  shows "committed st' = current st'"
    and "foreign_keys st' = foreign_keys st"
    and "stdout st' = stdout st @
           [Text ''Finished initial population of Products, Locations, and Drivers.'']"
    and "Shipments (current st') = Shipments (current st)"
    and "ShipmentLineItems (current st') = ShipmentLineItems (current st)"
    and "ShipmentLineItems_seq (current st') = ShipmentLineItems_seq (current st)"
    and "\<And>r. r \<in> set df1 \<Longrightarrow> select_id_by_name (Products (current st')) (s1_product r) \<noteq> None"
    and "\<And>r. r \<in> set df2 \<Longrightarrow>
           select_id_by_name (Locations (current st')) (s2_origin_warehouse r) \<noteq> None \<and>
           select_id_by_name (Locations (current st')) (s2_destination_store r) \<noteq> None \<and>
           select_id_by_name (Drivers (current st')) (s2_driver_identifier r) \<noteq> None"
proof -
  define ps where "ps = unique (map s0_product df0 @ map s1_product df1)"
  define ls where "ls = unique (map s0_origin_warehouse df0 @ map s0_destination_store df0 @
                                map s2_origin_warehouse df2 @ map s2_destination_store df2)"
  define ds where "ds = unique (map s0_driver_identifier df0 @ map s2_driver_identifier df2)"
  obtain e1 st1 where 1: "for_names get_or_insert_product st ps = (e1, st1)" by force
  obtain e2 st2 where 2: "for_names get_or_insert_location (commit st1) ls = (e2, st2)" by force
  obtain e3 st3 where 3: "for_names get_or_insert_driver (commit st2) ds = (e3, st3)" by force
  have e: "e1 = None \<and> e2 = None \<and> e3 = None \<and>
           st' = print (Text ''Finished initial population of Products, Locations, and Drivers.'')
                   (commit st3)"
    using assms 1 2 3 unfolding populate_names_def Let_def
    by (auto simp: ps_def ls_def ds_def split: option.splits)
  have f1: "foreign_keys st1 = foreign_keys st \<and> stdout st1 = stdout st"
    using for_names_frame[of get_or_insert_product st ps] 1 by simp
  have f2: "foreign_keys st2 = foreign_keys st1 \<and> stdout st2 = stdout st1"
    using for_names_frame[of get_or_insert_location "commit st1" ls] 2 by simp
  have f3: "foreign_keys st3 = foreign_keys st2 \<and> stdout st3 = stdout st2"
    using for_names_frame[of get_or_insert_driver "commit st2" ds] 3 by simp
  show "committed st' = current st'" using e by simp
  show "foreign_keys st' = foreign_keys st" using e f1 f2 f3 by simp
  show "stdout st' = stdout st @
          [Text ''Finished initial population of Products, Locations, and Drivers.'']"
    using e f1 f2 f3 by simp
  define S where "S = Shipments (current st)"
  define L where "L = ShipmentLineItems (current st)"
  define q where "q = ShipmentLineItems_seq (current st)"
  define F where "F = (\<lambda>d::db. Shipments d = S \<and> ShipmentLineItems d = L \<and> ShipmentLineItems_seq d = q)"
  have F1: "F (current st1)"
    using for_names_current[where P = F and resolver = get_or_insert_product and st = st and names = ps]
      product_frame 1 by (simp add: F_def S_def L_def q_def)
  have F2: "F (current st2)"
    using for_names_current[where P = F and resolver = get_or_insert_location
        and st = "commit st1" and names = ls] location_frame 2 F1 by (simp add: F_def)
  have F3: "F (current st3)"
    using for_names_current[where P = F and resolver = get_or_insert_driver
        and st = "commit st2" and names = ds] driver_frame 3 F2 by (simp add: F_def)
  show "Shipments (current st') = Shipments (current st)"
    and "ShipmentLineItems (current st') = ShipmentLineItems (current st)"
    and "ShipmentLineItems_seq (current st') = ShipmentLineItems_seq (current st)"
    using F3 e by (simp_all add: F_def S_def L_def q_def)
  have P2: "Products (current st2) = Products (current st1)"
    using for_names_current[where P = "\<lambda>d::db. Products d = Products (current st1)"
        and resolver = get_or_insert_location and st = "commit st1" and names = ls]
      location_frame 2 by simp
  have P3: "Products (current st3) = Products (current st1)"
    using for_names_current[where P = "\<lambda>d::db. Products d = Products (current st1)"
        and resolver = get_or_insert_driver and st = "commit st2" and names = ds]
      driver_frame 3 P2 by simp
  have L3: "Locations (current st3) = Locations (current st2)"
    using for_names_current[where P = "\<lambda>d::db. Locations d = Locations (current st2)"
        and resolver = get_or_insert_driver and st = "commit st2" and names = ds]
      driver_frame 3 by simp
  have rp: "m \<in> set ps \<Longrightarrow> select_id_by_name (Products (current st1)) m \<noteq> None" for m
    using for_names_resolves[where resolver = get_or_insert_product and tbl = Products
        and st = st and names = ps and m = m, OF product_found product_stable] 1 e by simp
  have rl: "m \<in> set ls \<Longrightarrow> select_id_by_name (Locations (current st2)) m \<noteq> None" for m
    using for_names_resolves[where resolver = get_or_insert_location and tbl = Locations
        and st = "commit st1" and names = ls and m = m, OF location_found location_stable] 2 e
    by simp
  have rd: "m \<in> set ds \<Longrightarrow> select_id_by_name (Drivers (current st3)) m \<noteq> None" for m
    using for_names_resolves[where resolver = get_or_insert_driver and tbl = Drivers
        and st = "commit st2" and names = ds and m = m, OF driver_found driver_stable] 3 e
    by simp
  show "select_id_by_name (Products (current st')) (s1_product r) \<noteq> None" if "r \<in> set df1" for r
    using rp[of "s1_product r"] that e P3 by (simp add: ps_def set_unique)
  show "select_id_by_name (Locations (current st')) (s2_origin_warehouse r) \<noteq> None \<and>
        select_id_by_name (Locations (current st')) (s2_destination_store r) \<noteq> None \<and>
        select_id_by_name (Drivers (current st')) (s2_driver_identifier r) \<noteq> None"
    if "r \<in> set df2" for r
    using rl[of "s2_origin_warehouse r"] rl[of "s2_destination_store r"]
      rd[of "s2_driver_identifier r"] that e L3
    by (simp add: ls_def ds_def set_unique)
qed

lemma resolver_again:
  "select_id_by_name (Products d) n = Some i \<Longrightarrow> get_or_insert_product d n = Inr (i, d)"
  "select_id_by_name (Locations d) n = Some i \<Longrightarrow> get_or_insert_location d n = Inr (i, d)"
  "select_id_by_name (Drivers d) n = Some i \<Longrightarrow> get_or_insert_driver d n = Inr (i, d)"
  by (simp_all add: get_or_insert_product_def get_or_insert_location_def
      get_or_insert_driver_def get_or_insert_again)

lemma populate_database_None_iff:
  "fst (populate_database rnd file out p1 p2 df0 df1 df2) = None \<longleftrightarrow> well_formed df0 df1 df2"
  using populate_names_None_iff[of "print (Text ''Populating Products, Locations, and Drivers tables from all CSVs...'') (connect rnd file out)" df0 df1 df2]
  by (auto simp: populate_database_def Let_def split: prod.splits option.splits)


lemma names_unique_resolver:
  assumes "names_unique d"
  shows "get_or_insert_product d n = Inr (i, d') \<Longrightarrow> names_unique d'"
    and "get_or_insert_location d n = Inr (i, d') \<Longrightarrow> names_unique d'"
    and "get_or_insert_driver d n = Inr (i, d') \<Longrightarrow> names_unique d'"
  using assms
  by (auto simp: names_unique_def resolver_Inr dest: get_or_insert_distinct)

lemma names_unique_insert:
  assumes "names_unique d"
  shows "insert_or_ignore_shipment rnd fk d row = Inr d' \<Longrightarrow> names_unique d'"
    and "insert_line_item fk d item = Inr d' \<Longrightarrow> names_unique d'"
proof -
  obtain s a b c where row: "row = (s, a, b, c)" by (cases row)
  obtain s' p q t where item: "item = (s', p, q, t)" by (cases item)
  show "insert_or_ignore_shipment rnd fk d row = Inr d' \<Longrightarrow> names_unique d'"
    unfolding row using assms
    by (auto simp: names_unique_def dest!: insert_or_ignore_shipment_Inr)
  show "insert_line_item fk d item = Inr d' \<Longrightarrow> names_unique d'"
    unfolding item using assms
    by (auto simp: names_unique_def dest!: insert_line_item_Inr)
qed

lemma names_unique_empty_db: "names_unique empty_db"
  by (simp add: names_unique_def empty_db_def empty_table_def)

lemma setup_database_None: "fst (setup_database rnd None name out) = empty_db"
  by (simp add: setup_database_def Let_def connect_def)

lemma main_committed:
  "\<exists>out. committed (snd (main rnd file df0 df1 df2)) =
          committed (snd (populate_database rnd empty_db out SPREADSHEET1_PATH SPREADSHEET2_PATH
                            df0 df1 df2))"
proof -
  obtain out0 where "(case file of Some x \<Rightarrow> (None :: db option, [Removed_existing_database_file DATABASE_NAME]) | None \<Rightarrow> (None, [])) = (None, out0)"
    by (cases "file") auto
  moreover obtain out1 where "setup_database rnd None DATABASE_NAME out0 = (empty_db, out1)"
    using setup_database_None[of rnd DATABASE_NAME out0] by (cases "setup_database rnd None DATABASE_NAME out0") auto
  moreover have "committed (verification rnd d out) = d" for d out
    by (simp add: verification_def Let_def connect_def)
  ultimately show ?thesis
    unfolding main_def Let_def
    by (intro exI[of _ out1]) (auto split: prod.splits option.splits)
qed

text \<open>
  C2. Uniqueness of the three name columns is preserved by every resolver call and by both
  insertions, so a load into a store whose name columns hold no duplicates leaves none, and
  so does the whole run, which starts from the empty store.
\<close>

theorem names_stay_unique:
  assumes "names_unique d"
  shows "(get_or_insert_product d n = Inr (i1, d1) \<longrightarrow> names_unique d1) \<and>
         (get_or_insert_location d n = Inr (i2, d2) \<longrightarrow> names_unique d2) \<and>
         (get_or_insert_driver d n = Inr (i3, d3) \<longrightarrow> names_unique d3) \<and>
         (insert_or_ignore_shipment rnd fk d row = Inr d4 \<longrightarrow> names_unique d4) \<and>
         (insert_line_item fk d item = Inr d5 \<longrightarrow> names_unique d5) \<and>
         names_unique (committed (snd (populate_database rnd d out p1 p2 df0 df1 df2))) \<and>
         names_unique (committed (snd (main rnd old df0 df1 df2)))"
proof -
  have pop: "names_unique (committed (snd (populate_database rnd d' out' p1' p2' df0 df1 df2)))"
    if "names_unique d'" for d' out' p1' p2'
  proof -
    have "holds names_unique (snd (populate_database rnd d' out' p1' p2' df0 df1 df2))"
    proof (rule populate_database_holds[where P = names_unique])
      show "names_unique d'" by (rule that)
    next
      fix d fk s p ot d'
      assume "names_unique d" "insert_line_item fk d (s, p, 1, ot) = Inr d'"
      then show "names_unique d'" by (rule names_unique_insert(2))
    qed (erule (1) names_unique_resolver names_unique_insert)+
    then show ?thesis by (simp add: holds_def)
  qed
  have "names_unique (committed (snd (main rnd old df0 df1 df2)))"
    using main_committed[of rnd old df0 df1 df2] pop[OF names_unique_empty_db] by auto
  then show ?thesis
    using assms pop[OF assms] names_unique_resolver[OF assms] names_unique_insert[OF assms]
    by blast
qed

theorem names_stay_unique_witness:
  "names_unique empty_db \<and>
   get_or_insert_product empty_db (Some ''Widget'') =
     Inr (1, empty_db\<lparr>Products := \<lparr>tbl_rows = [(1, ''Widget'')], tbl_seq = 1\<rparr>\<rparr>) \<and>
   names_unique (empty_db\<lparr>Products := \<lparr>tbl_rows = [(1, ''Widget'')], tbl_seq = 1\<rparr>\<rparr>) \<and>
   get_or_insert_location empty_db (Some ''WH1'') =
     Inr (1, empty_db\<lparr>Locations := \<lparr>tbl_rows = [(1, ''WH1'')], tbl_seq = 1\<rparr>\<rparr>) \<and>
   names_unique (empty_db\<lparr>Locations := \<lparr>tbl_rows = [(1, ''WH1'')], tbl_seq = 1\<rparr>\<rparr>) \<and>
   get_or_insert_driver empty_db (Some ''D1'') =
     Inr (1, empty_db\<lparr>Drivers := \<lparr>tbl_rows = [(1, ''D1'')], tbl_seq = 1\<rparr>\<rparr>) \<and>
   names_unique (empty_db\<lparr>Drivers := \<lparr>tbl_rows = [(1, ''D1'')], tbl_seq = 1\<rparr>\<rparr>) \<and>
   insert_or_ignore_shipment (drawing 1) False empty_db (Int_id 100, 1, 2, 1) =
     Inr (empty_db\<lparr>Shipments := [(100, 1, 2, 1)]\<rparr>) \<and>
   names_unique (empty_db\<lparr>Shipments := [(100, 1, 2, 1)]\<rparr>) \<and>
   insert_line_item False empty_db (Int_id 100, 1, 1, Some ''Yes'') =
     Inr (empty_db\<lparr>ShipmentLineItems := [(1, Int_id 100, 1, 1, Some ''Yes'')],
                     ShipmentLineItems_seq := 1\<rparr>) \<and>
   names_unique (empty_db\<lparr>ShipmentLineItems := [(1, Int_id 100, 1, 1, Some ''Yes'')],
                     ShipmentLineItems_seq := 1\<rparr>) \<and>
   names_unique (committed (snd (populate_database (drawing 1) empty_db [] ''shipping_data_1.csv''
      ''shipping_data_2.csv'' scenario_A scenario_B scenario_C))) \<and>
   names_unique (committed (snd (main (drawing 1) None scenario_A scenario_B scenario_C)))"
proof -
  have h: "names_unique empty_db" by (rule names_unique_empty_db)
  have e1: "get_or_insert_product empty_db (Some ''Widget'') =
     Inr (1, empty_db\<lparr>Products := \<lparr>tbl_rows = [(1, ''Widget'')], tbl_seq = 1\<rparr>\<rparr>)"
    by (simp add: get_or_insert_product_def get_or_insert_def select_id_by_name_def
        insert_name_def empty_db_def empty_table_def largest_rowid_def)
  have e2: "get_or_insert_location empty_db (Some ''WH1'') =
     Inr (1, empty_db\<lparr>Locations := \<lparr>tbl_rows = [(1, ''WH1'')], tbl_seq = 1\<rparr>\<rparr>)"
    by (simp add: get_or_insert_location_def get_or_insert_def select_id_by_name_def
        insert_name_def empty_db_def empty_table_def largest_rowid_def)
  have e3: "get_or_insert_driver empty_db (Some ''D1'') =
     Inr (1, empty_db\<lparr>Drivers := \<lparr>tbl_rows = [(1, ''D1'')], tbl_seq = 1\<rparr>\<rparr>)"
    by (simp add: get_or_insert_driver_def get_or_insert_def select_id_by_name_def
        insert_name_def empty_db_def empty_table_def largest_rowid_def)
  have e4: "insert_or_ignore_shipment (drawing 1) False empty_db (Int_id 100, 1, 2, 1) =
     Inr (empty_db\<lparr>Shipments := [(100, 1, 2, 1)]\<rparr>)"
    by (simp add: insert_or_ignore_shipment_def binding_error_def primary_key_def int64_def
        empty_db_def)
  have e5: "insert_line_item False empty_db (Int_id 100, 1, 1, Some ''Yes'') =
     Inr (empty_db\<lparr>ShipmentLineItems := [(1, Int_id 100, 1, 1, Some ''Yes'')],
                     ShipmentLineItems_seq := 1\<rparr>)"
    by (simp add: insert_line_item_def binding_error_def int64_def empty_db_def
        largest_rowid_def)
  show ?thesis
    using h e1 e2 e3 e4 e5
      names_stay_unique[OF h, where n = "Some ''Widget''" and fk = False
        and rnd = "drawing 1" and row = "(Int_id 100, 1, 2, 1)" and item = "(Int_id 100, 1, 1, Some ''Yes'')" and ?i1.0 = 1
        and ?d1.0 = "empty_db\<lparr>Products := \<lparr>tbl_rows = [(1, ''Widget'')], tbl_seq = 1\<rparr>\<rparr>"
        and ?d4.0 = "empty_db\<lparr>Shipments := [(100, 1, 2, 1)]\<rparr>"
        and ?d5.0 = "empty_db\<lparr>ShipmentLineItems := [(1, Int_id 100, 1, 1, Some ''Yes'')],
                     ShipmentLineItems_seq := 1\<rparr>"
        and out = "[]" and ?p1.0 = "''shipping_data_1.csv''" and ?p2.0 = "''shipping_data_2.csv''"
        and ?df0.0 = scenario_A and ?df1.0 = scenario_B and ?df2.0 = scenario_C and old = None]
      names_stay_unique[OF h, where n = "Some ''WH1''" and ?i2.0 = 1
        and ?d2.0 = "empty_db\<lparr>Locations := \<lparr>tbl_rows = [(1, ''WH1'')], tbl_seq = 1\<rparr>\<rparr>"]
      names_stay_unique[OF h, where n = "Some ''D1''" and ?i3.0 = 1
        and ?d3.0 = "empty_db\<lparr>Drivers := \<lparr>tbl_rows = [(1, ''D1'')], tbl_seq = 1\<rparr>\<rparr>"]
    by simp
qed

subsection \<open>The run on the example tables\<close>

lemma scenario_run:
  "committed (snd (main (drawing 1) None scenario_A scenario_B scenario_C)) = scenario_db"
  by code_simp

subsection \<open>Quantities\<close>

lemma quantity_invariant:
  "holds (\<lambda>d. \<exists>news. ShipmentLineItems d = ShipmentLineItems store @ news \<and>
                       (\<forall>row\<in>set news. Quantity row = 1))
     (snd (populate_database rnd store out p1 p2 df0 df1 df2))"
proof (rule populate_database_holds)
  show "\<exists>news. ShipmentLineItems store = ShipmentLineItems store @ news \<and>
               (\<forall>row\<in>set news. Quantity row = 1)"
    by simp
next
  fix d fk s p ot d'
  assume "\<exists>news. ShipmentLineItems d = ShipmentLineItems store @ news \<and>
                 (\<forall>row\<in>set news. Quantity row = 1)"
    and "insert_line_item fk d (s, p, 1, ot) = Inr d'"
  then show "\<exists>news. ShipmentLineItems d' = ShipmentLineItems store @ news \<and>
                    (\<forall>row\<in>set news. Quantity row = 1)"
    by (auto simp: Quantity_def dest!: insert_line_item_Inr)
next
  fix d rnd' fk row d'
  assume "\<exists>news. ShipmentLineItems d = ShipmentLineItems store @ news \<and>
                 (\<forall>row\<in>set news. Quantity row = 1)"
    and "insert_or_ignore_shipment rnd' fk d row = Inr d'"
  then show "\<exists>news. ShipmentLineItems d' = ShipmentLineItems store @ news \<and>
                    (\<forall>row\<in>set news. Quantity row = 1)"
    by (auto dest!: insert_or_ignore_shipment_frame)
qed (auto dest!: product_frame location_frame driver_frame)

text \<open>
  C5. Every ShipmentLineItems row that a load adds to a store has Quantity 1, and so has
  every ShipmentLineItems row after the whole run.
\<close>

theorem quantity_is_one:
  "(\<exists>news. ShipmentLineItems (committed (snd (populate_database rnd store out p1 p2 df0 df1 df2))) =
             ShipmentLineItems store @ news \<and>
           (\<forall>row\<in>set news. Quantity row = 1)) \<and>
   (\<forall>row\<in>set (ShipmentLineItems (committed (snd (main rnd old df0 df1 df2)))). Quantity row = 1)"
proof
  show "\<exists>news. ShipmentLineItems (committed (snd (populate_database rnd store out p1 p2 df0 df1 df2))) =
             ShipmentLineItems store @ news \<and>
           (\<forall>row\<in>set news. Quantity row = 1)"
    using quantity_invariant[of store rnd out p1 p2 df0 df1 df2] by (simp add: holds_def)
next
  obtain out' where "committed (snd (main rnd old df0 df1 df2)) =
      committed (snd (populate_database rnd empty_db out' SPREADSHEET1_PATH SPREADSHEET2_PATH
                        df0 df1 df2))"
    using main_committed by blast
  then show "\<forall>row\<in>set (ShipmentLineItems (committed (snd (main rnd old df0 df1 df2)))).
               Quantity row = 1"
    using quantity_invariant[of empty_db rnd out' SPREADSHEET1_PATH SPREADSHEET2_PATH df0 df1 df2]
    by (auto simp: holds_def empty_db_def)
qed

theorem quantity_is_one_witness:
  "(2, Int_id 7, 1, 1, None) \<in> set (ShipmentLineItems (committed (snd (main (drawing 1) None scenario_A scenario_B
       scenario_C)))) \<and>
   Quantity (2, Int_id 7, 1, 1, None) = 1"
proof -
  have "(2, Int_id 7, 1, 1, None) \<in> set (ShipmentLineItems (committed (snd (main (drawing 1) None scenario_A
          scenario_B scenario_C))))"
    using scenario_run by (simp add: scenario_db_def)
  then show ?thesis
    using quantity_is_one[where rnd = "drawing 1" and ?df0.0 = scenario_A and ?df1.0 = scenario_B
        and ?df2.0 = scenario_C and old = None]
    by blast
qed


subsection \<open>Exceptions inside the two loops\<close>

lemma shipment_try_failed:
  "shipment_try st r = (Some e, st1) \<Longrightarrow>
     committed st1 = committed st \<and> stdout st1 = stdout st \<and> foreign_keys st1 = foreign_keys st"
  by (auto simp: shipment_try_def Let_def split: sum.splits prod.splits)

lemma line_item_try_failed:
  "line_item_try st q r = (Some e, st1) \<Longrightarrow>
     committed st1 = committed st \<and> foreign_keys st1 = foreign_keys st \<and>
     (stdout st1 = stdout st \<or>
      stdout st1 = stdout st @ [Quantity_warning q (s1_shipment_identifier r) (s1_product r) 1])"
  by (auto simp: line_item_try_def Let_def split: sum.splits prod.splits)

text \<open>
  C4. When the body of the \<open>try\<close> raises for a row of table C or of table B, whatever
  the exception, the step appends one message that carries the shipment identifier, the path
  of the source table and the exception, rolls the connection back to what was committed
  before the row, and the loop goes on with the rows that follow.
\<close>

theorem row_errors_contained:
  "(shipment_try st r = (Some e, st1) \<longrightarrow>
      committed (shipment_step st p r) = committed st \<and>
      current (shipment_step st p r) = committed st \<and>
      stdout (shipment_step st p r) = stdout st @
        [case e of
           IntegrityError _ \<Rightarrow> Integrity_error_shipment (s2_shipment_identifier r) p e
         | OtherException _ \<Rightarrow> Unexpected_error_shipment p e (s2_shipment_identifier r)] \<and>
      shipments_loop st p (r # rs) = shipments_loop (shipment_step st p r) p rs) \<and>
   (line_item_try st q r' = (Some e', st1') \<longrightarrow>
      committed (line_item_step st q r') = committed st \<and>
      current (line_item_step st q r') = committed st \<and>
      stdout (line_item_step st q r') = stdout st1' @
        [case e' of
           IntegrityError _ \<Rightarrow> Integrity_error_line_item (s1_shipment_identifier r') q e'
         | OtherException _ \<Rightarrow> Unexpected_error_line_item q e' (s1_shipment_identifier r')] \<and>
      (stdout st1' = stdout st \<or>
       stdout st1' = stdout st @
         [Quantity_warning q (s1_shipment_identifier r') (s1_product r') 1]) \<and>
      line_items_loop st q (r' # rs') = line_items_loop (line_item_step st q r') q rs') \<and>
   committed (shipment_except st p r x) = committed st \<and>
   current (shipment_except st p r x) = committed st \<and>
   stdout (shipment_except st p r x) = stdout st @
     [case x of
        IntegrityError _ \<Rightarrow> Integrity_error_shipment (s2_shipment_identifier r) p x
      | OtherException _ \<Rightarrow> Unexpected_error_shipment p x (s2_shipment_identifier r)] \<and>
   committed (line_item_except st q r' x) = committed st \<and>
   current (line_item_except st q r' x) = committed st \<and>
   stdout (line_item_except st q r' x) = stdout st @
     [case x of
        IntegrityError _ \<Rightarrow> Integrity_error_line_item (s1_shipment_identifier r') q x
      | OtherException _ \<Rightarrow> Unexpected_error_line_item q x (s1_shipment_identifier r')]"
proof (intro conjI impI)
  assume t: "shipment_try st r = (Some e, st1)"
  note f = shipment_try_failed[OF t]
  show "committed (shipment_step st p r) = committed st"
    and "current (shipment_step st p r) = committed st"
    using t f by (simp_all add: shipment_step_def)
  show "stdout (shipment_step st p r) = stdout st @
        [case e of
           IntegrityError _ \<Rightarrow> Integrity_error_shipment (s2_shipment_identifier r) p e
         | OtherException _ \<Rightarrow> Unexpected_error_shipment p e (s2_shipment_identifier r)]"
    using t f by (simp add: shipment_step_def shipment_except_def split: error.splits)
  show "shipments_loop st p (r # rs) = shipments_loop (shipment_step st p r) p rs"
    by simp
next
  assume t: "line_item_try st q r' = (Some e', st1')"
  note f = line_item_try_failed[OF t]
  show "committed (line_item_step st q r') = committed st"
    and "current (line_item_step st q r') = committed st"
    using t f by (simp_all add: line_item_step_def)
  show "stdout (line_item_step st q r') = stdout st1' @
        [case e' of
           IntegrityError _ \<Rightarrow> Integrity_error_line_item (s1_shipment_identifier r') q e'
         | OtherException _ \<Rightarrow> Unexpected_error_line_item q e' (s1_shipment_identifier r')]"
    using t by (simp add: line_item_step_def line_item_except_def split: error.splits)
  show "stdout st1' = stdout st \<or>
       stdout st1' = stdout st @
         [Quantity_warning q (s1_shipment_identifier r') (s1_product r') 1]"
    using f by simp
  show "line_items_loop st q (r' # rs') = line_items_loop (line_item_step st q r') q rs'"
    by simp
qed (simp_all add: shipment_except_def line_item_except_def split: error.splits)

text \<open>
  A row of table C whose destination is missing, after its origin was inserted, and a row
  of table B whose product is missing. The rollback takes the uncommitted origin away.
\<close>

theorem row_errors_contained_witness:
  "shipment_try (connect (drawing 1) empty_db [])
     \<lparr>s2_shipment_identifier = Int_id 5, s2_origin_warehouse = Some ''WH1'',
      s2_destination_store = None, s2_driver_identifier = Some ''D1''\<rparr> =
     (Some (IntegrityError ''NOT NULL constraint failed''),
      (connect (drawing 1) empty_db [])\<lparr>current :=
         empty_db\<lparr>Locations := \<lparr>tbl_rows = [(1, ''WH1'')], tbl_seq = 1\<rparr>\<rparr>\<rparr>) \<and>
   shipment_step (connect (drawing 1) empty_db []) ''shipping_data_2.csv''
     \<lparr>s2_shipment_identifier = Int_id 5, s2_origin_warehouse = Some ''WH1'',
      s2_destination_store = None, s2_driver_identifier = Some ''D1''\<rparr> =
     connect (drawing 1) empty_db [Integrity_error_shipment (Int_id 5) ''shipping_data_2.csv''
                         (IntegrityError ''NOT NULL constraint failed'')] \<and>
   line_item_try (connect (drawing 1) empty_db []) ''shipping_data_1.csv''
     \<lparr>s1_shipment_identifier = Int_id 5, s1_product = None, s1_on_time = Some ''Yes''\<rparr> =
     (Some (IntegrityError ''NOT NULL constraint failed''), connect (drawing 1) empty_db []) \<and>
   line_item_step (connect (drawing 1) empty_db []) ''shipping_data_1.csv''
     \<lparr>s1_shipment_identifier = Int_id 5, s1_product = None, s1_on_time = Some ''Yes''\<rparr> =
     connect (drawing 1) empty_db [Integrity_error_line_item (Int_id 5) ''shipping_data_1.csv''
                         (IntegrityError ''NOT NULL constraint failed'')]"
proof -
  define c where "c = \<lparr>s2_shipment_identifier = Int_id 5, s2_origin_warehouse = Some ''WH1'',
      s2_destination_store = None, s2_driver_identifier = Some ''D1''\<rparr>"
  define b where "b = \<lparr>s1_shipment_identifier = Int_id 5, s1_product = None, s1_on_time = Some ''Yes''\<rparr>"
  define st1 where "st1 = (connect (drawing 1) empty_db [])\<lparr>current :=
         empty_db\<lparr>Locations := \<lparr>tbl_rows = [(1, ''WH1'')], tbl_seq = 1\<rparr>\<rparr>\<rparr>"
  have t: "shipment_try (connect (drawing 1) empty_db []) c =
             (Some (IntegrityError ''NOT NULL constraint failed''), st1)"
    by (simp add: shipment_try_def c_def st1_def connect_def empty_db_def empty_table_def
        get_or_insert_location_def get_or_insert_def select_id_by_name_def insert_name_def
        largest_rowid_def)
  have u: "line_item_try (connect (drawing 1) empty_db []) ''shipping_data_1.csv'' b =
             (Some (IntegrityError ''NOT NULL constraint failed''), connect (drawing 1) empty_db [])"
    by (simp add: line_item_try_def b_def get_or_insert_product_def get_or_insert_def
        select_id_by_name_def insert_name_def)
  note w = row_errors_contained[where st = "connect (drawing 1) empty_db []" and r = c and r' = b
      and e = "IntegrityError ''NOT NULL constraint failed''" and ?st1.0 = st1
      and e' = "IntegrityError ''NOT NULL constraint failed''" and st1' = "connect (drawing 1) empty_db []"
      and p = "''shipping_data_2.csv''" and q = "''shipping_data_1.csv''"]
  have k: "committed (shipment_step (connect (drawing 1) empty_db []) ''shipping_data_2.csv'' c) =
             committed (connect (drawing 1) empty_db []) \<and>
           committed (line_item_step (connect (drawing 1) empty_db []) ''shipping_data_1.csv'' b) =
             committed (connect (drawing 1) empty_db [])"
    using w t u by blast
  have s: "shipment_step (connect (drawing 1) empty_db []) ''shipping_data_2.csv'' c =
          connect (drawing 1) empty_db [Integrity_error_shipment (Int_id 5) ''shipping_data_2.csv''
                         (IntegrityError ''NOT NULL constraint failed'')]"
    unfolding shipment_step_def t
    by (simp add: shipment_except_def rollback_def print_def connect_def st1_def c_def)
  have l: "line_item_step (connect (drawing 1) empty_db []) ''shipping_data_1.csv'' b =
     connect (drawing 1) empty_db [Integrity_error_line_item (Int_id 5) ''shipping_data_1.csv''
                         (IntegrityError ''NOT NULL constraint failed'')]"
    unfolding line_item_step_def u
    by (simp add: line_item_except_def rollback_def print_def connect_def b_def)
  show ?thesis
    using k t u s l unfolding c_def b_def st1_def by blast
qed

subsection \<open>The Shipments loop when the names are in the store\<close>

text \<open>
  After step 1 every name of the three tables has its row, so that the resolvers inside the
  two loops only look names up.
\<close>


lemma insert_shipment_int64:
  assumes "int64 n"
    and "fk \<longrightarrow> a \<in> fst ` set (tbl_rows (Locations d)) \<and> b \<in> fst ` set (tbl_rows (Locations d)) \<and>
                c \<in> fst ` set (tbl_rows (Drivers d))"
  shows "insert_or_ignore_shipment rnd fk d (Int_id n, a, b, c) =
           Inr (if n \<in> fst ` set (Shipments d) then d
                else d\<lparr>Shipments := Shipments d @ [(n, a, b, c)]\<rparr>)"
  using assms by (auto simp: insert_or_ignore_shipment_def binding_error_def primary_key_def)

lemma insert_shipment_refused:
  assumes "\<not> int64_id s" and "s \<noteq> No_id"
  shows "\<exists>e. insert_or_ignore_shipment rnd fk d (s, a, b, c) = Inl e"
  using assms
  by (cases s) (auto simp: insert_or_ignore_shipment_def binding_error_def primary_key_def
                     int64_id_def)

lemma shipment_try_resolved:
  assumes "select_id_by_name (Locations (current st)) (s2_origin_warehouse r) = Some a"
    and "select_id_by_name (Locations (current st)) (s2_destination_store r) = Some b"
    and "select_id_by_name (Drivers (current st)) (s2_driver_identifier r) = Some c"
  shows "shipment_try st r =
           (case insert_or_ignore_shipment (randomness st) (foreign_keys st) (current st)
                   (s2_shipment_identifier r, a, b, c) of
              Inl e \<Rightarrow> (Some e, st)
            | Inr d \<Rightarrow> (None, commit (st\<lparr>current := d\<rparr>)))"
  using assms by (simp add: shipment_try_def resolver_again)

lemma shipment_step_frame:
  assumes "select_id_by_name (Locations (current st)) (s2_origin_warehouse r) \<noteq> None"
    and "select_id_by_name (Locations (current st)) (s2_destination_store r) \<noteq> None"
    and "select_id_by_name (Drivers (current st)) (s2_driver_identifier r) \<noteq> None"
    and "committed st = current st"
  shows "committed (shipment_step st p r) = current (shipment_step st p r) \<and>
         foreign_keys (shipment_step st p r) = foreign_keys st \<and>
         randomness (shipment_step st p r) = randomness st \<and>
         Products (current (shipment_step st p r)) = Products (current st) \<and>
         Locations (current (shipment_step st p r)) = Locations (current st) \<and>
         Drivers (current (shipment_step st p r)) = Drivers (current st) \<and>
         ShipmentLineItems (current (shipment_step st p r)) = ShipmentLineItems (current st) \<and>
         ShipmentLineItems_seq (current (shipment_step st p r)) =
           ShipmentLineItems_seq (current st) \<and>
         (\<exists>msgs. stdout (shipment_step st p r) = stdout st @ msgs \<and>
                 (\<forall>m\<in>set msgs. is_shipment_error m))"
proof -
  obtain a b c where abc:
    "select_id_by_name (Locations (current st)) (s2_origin_warehouse r) = Some a"
    "select_id_by_name (Locations (current st)) (s2_destination_store r) = Some b"
    "select_id_by_name (Drivers (current st)) (s2_driver_identifier r) = Some c"
    using assms by auto
  note t = shipment_try_resolved[OF abc]
  show ?thesis
  proof (cases "insert_or_ignore_shipment (randomness st) (foreign_keys st) (current st)
                  (s2_shipment_identifier r, a, b, c)")
    case (Inl e)
    then have "shipment_step st p r = shipment_except st p r e"
      using t by (simp add: shipment_step_def)
    then show ?thesis
      using assms(4) by (cases e) (simp_all add: shipment_except_def is_shipment_error_def)
  next
    case (Inr d)
    note f = insert_or_ignore_shipment_frame[OF Inr]
    have "shipment_step st p r = commit (st\<lparr>current := d\<rparr>)"
      using t Inr by (simp add: shipment_step_def)
    then show ?thesis using f by simp
  qed
qed

lemma shipments_loop_frame:
  assumes "\<And>r. r \<in> set rows \<Longrightarrow>
             select_id_by_name (Locations (current st)) (s2_origin_warehouse r) \<noteq> None \<and>
             select_id_by_name (Locations (current st)) (s2_destination_store r) \<noteq> None \<and>
             select_id_by_name (Drivers (current st)) (s2_driver_identifier r) \<noteq> None"
    and "committed st = current st"
  shows "committed (shipments_loop st p rows) = current (shipments_loop st p rows) \<and>
         foreign_keys (shipments_loop st p rows) = foreign_keys st \<and>
         randomness (shipments_loop st p rows) = randomness st \<and>
         Products (current (shipments_loop st p rows)) = Products (current st) \<and>
         Locations (current (shipments_loop st p rows)) = Locations (current st) \<and>
         Drivers (current (shipments_loop st p rows)) = Drivers (current st) \<and>
         ShipmentLineItems (current (shipments_loop st p rows)) = ShipmentLineItems (current st) \<and>
         ShipmentLineItems_seq (current (shipments_loop st p rows)) =
           ShipmentLineItems_seq (current st) \<and>
         (\<exists>msgs. stdout (shipments_loop st p rows) = stdout st @ msgs \<and>
                 (\<forall>m\<in>set msgs. is_shipment_error m))"
  using assms
proof (induction rows arbitrary: st)
  case Nil
  then show ?case by simp
next
  case (Cons r rows)
  define st1 where "st1 = shipment_step st p r"
  have f: "committed st1 = current st1 \<and>
         foreign_keys st1 = foreign_keys st \<and>
         randomness st1 = randomness st \<and>
         Products (current st1) = Products (current st) \<and>
         Locations (current st1) = Locations (current st) \<and>
         Drivers (current st1) = Drivers (current st) \<and>
         ShipmentLineItems (current st1) = ShipmentLineItems (current st) \<and>
         ShipmentLineItems_seq (current st1) = ShipmentLineItems_seq (current st) \<and>
         (\<exists>msgs. stdout st1 = stdout st @ msgs \<and> (\<forall>m\<in>set msgs. is_shipment_error m))"
    unfolding st1_def using Cons.prems(1)[of r] Cons.prems(2)
    by (intro shipment_step_frame) simp_all
  have res1: "\<And>r. r \<in> set rows \<Longrightarrow>
             select_id_by_name (Locations (current st1)) (s2_origin_warehouse r) \<noteq> None \<and>
             select_id_by_name (Locations (current st1)) (s2_destination_store r) \<noteq> None \<and>
             select_id_by_name (Drivers (current st1)) (s2_driver_identifier r) \<noteq> None"
    using Cons.prems(1) f by simp
  have com1: "committed st1 = current st1" using f by simp
  note IH = Cons.IH[OF res1 com1]
  obtain m1 where m1: "stdout st1 = stdout st @ m1" "\<forall>m\<in>set m1. is_shipment_error m"
    using f by blast
  obtain m2 where m2: "stdout (shipments_loop st1 p rows) = stdout st1 @ m2"
    "\<forall>m\<in>set m2. is_shipment_error m"
    using IH by blast
  have "\<exists>msgs. stdout (shipments_loop st1 p rows) = stdout st @ msgs \<and>
                 (\<forall>m\<in>set msgs. is_shipment_error m)"
    using m1 m2 by (intro exI[of _ "m1 @ m2"]) auto
  then show ?case
    unfolding shipments_loop.simps st1_def[symmetric] using IH f by simp
qed

lemma resolved_shipment_cong:
  "Locations d = Locations d' \<Longrightarrow> Drivers d = Drivers d' \<Longrightarrow>
     resolved_shipment d = resolved_shipment d'"
  by (rule ext) (simp add: resolved_shipment_def)

lemma resolved_line_item_cong:
  "Products d = Products d' \<Longrightarrow> resolved_line_item d = resolved_line_item d'"
  by (rule ext) (simp add: resolved_line_item_def)

lemma shipment_ids_append:
  "shipment_ids (d\<lparr>Shipments := Shipments d @ new\<rparr>) =
     shipment_ids d \<union> fst ` set (map stored_shipment new)"
  by (auto simp: shipment_ids_def stored_shipment_def image_iff split: prod.splits) force+

lemma Int_id_in_shipment_ids: "Int_id n \<in> shipment_ids d \<longleftrightarrow> n \<in> fst ` set (Shipments d)"
  by (auto simp: shipment_ids_def image_iff)

lemma shipment_step_resolved:
  assumes abc: "select_id_by_name (Locations (current st)) (s2_origin_warehouse r) = Some a"
    "select_id_by_name (Locations (current st)) (s2_destination_store r) = Some b"
    "select_id_by_name (Drivers (current st)) (s2_driver_identifier r) = Some c"
    and fk: "\<not> foreign_keys st"
    and com: "committed st = current st"
    and id: "s2_shipment_identifier r \<noteq> No_id"
  shows "\<exists>new msgs.
           current (shipment_step st p r) =
             (current st)\<lparr>Shipments := Shipments (current st) @ new\<rparr> \<and>
           map stored_shipment new =
             (if int64_id (s2_shipment_identifier r) \<and>
                 s2_shipment_identifier r \<notin> shipment_ids (current st)
              then [resolved_shipment (current st) r] else []) \<and>
           stdout (shipment_step st p r) = stdout st @ msgs \<and>
           (\<forall>m\<in>set msgs. is_shipment_error m) \<and>
           length msgs = (if int64_id (s2_shipment_identifier r) then 0 else 1)"
proof (cases "int64_id (s2_shipment_identifier r)")
  case True
  then obtain n where n: "s2_shipment_identifier r = Int_id n" "int64 n"
    by (cases "s2_shipment_identifier r") (auto simp: int64_id_def)
  define D where "D = (if n \<in> fst ` set (Shipments (current st)) then current st
                       else (current st)\<lparr>Shipments := Shipments (current st) @ [(n, a, b, c)]\<rparr>)"
  have ins: "insert_or_ignore_shipment (randomness st) (foreign_keys st) (current st)
               (s2_shipment_identifier r, a, b, c) = Inr D"
    unfolding n(1) D_def using fk by (intro insert_shipment_int64[OF n(2)]) simp
  have step: "shipment_step st p r = commit (st\<lparr>current := D\<rparr>)"
    using shipment_try_resolved[OF abc] ins by (simp add: shipment_step_def)
  show ?thesis
  proof (cases "n \<in> fst ` set (Shipments (current st))")
    case True
    then show ?thesis
      using step n \<open>int64_id (s2_shipment_identifier r)\<close>
      by (intro exI[of _ "[]"]) (simp add: D_def Int_id_in_shipment_ids)
  next
    case False
    then show ?thesis
      using step n abc \<open>int64_id (s2_shipment_identifier r)\<close>
      by (intro exI[of _ "[(n, a, b, c)]"] exI[of _ "[]"])
         (simp add: D_def Int_id_in_shipment_ids stored_shipment_def resolved_shipment_def)
  qed
next
  case False
  obtain e where e: "insert_or_ignore_shipment (randomness st) (foreign_keys st) (current st)
               (s2_shipment_identifier r, a, b, c) = Inl e"
    using insert_shipment_refused[OF False id] by blast
  have step: "shipment_step st p r = shipment_except st p r e"
    using shipment_try_resolved[OF abc] e by (simp add: shipment_step_def)
  show ?thesis
    unfolding step using False com
    by (cases e)
       (auto simp: shipment_except_def is_shipment_error_def intro!: exI[of _ "[]"])
qed

lemma shipments_loop_resolved:
  assumes "\<And>r. r \<in> set rows \<Longrightarrow>
             select_id_by_name (Locations (current st)) (s2_origin_warehouse r) \<noteq> None \<and>
             select_id_by_name (Locations (current st)) (s2_destination_store r) \<noteq> None \<and>
             select_id_by_name (Drivers (current st)) (s2_driver_identifier r) \<noteq> None"
    and "\<not> foreign_keys st"
    and "committed st = current st"
    and "distinct (map s2_shipment_identifier rows)"
    and "No_id \<notin> s2_shipment_identifier ` set rows"
  shows "\<exists>ships msgs.
           current (shipments_loop st p rows) =
             (current st)\<lparr>Shipments := Shipments (current st) @ ships\<rparr> \<and>
           map stored_shipment ships =
             map (resolved_shipment (current st))
               (filter (\<lambda>r. int64_id (s2_shipment_identifier r) \<and>
                             s2_shipment_identifier r \<notin> shipment_ids (current st)) rows) \<and>
           stdout (shipments_loop st p rows) = stdout st @ msgs \<and>
           (\<forall>m\<in>set msgs. is_shipment_error m) \<and>
           length msgs = length (filter (\<lambda>r. \<not> int64_id (s2_shipment_identifier r)) rows)"
  using assms
proof (induction rows arbitrary: st)
  case Nil
  then show ?case by simp
next
  case (Cons r rows)
  obtain a b c where abc:
    "select_id_by_name (Locations (current st)) (s2_origin_warehouse r) = Some a"
    "select_id_by_name (Locations (current st)) (s2_destination_store r) = Some b"
    "select_id_by_name (Drivers (current st)) (s2_driver_identifier r) = Some c"
    using Cons.prems(1)[of r] by auto
  have id: "s2_shipment_identifier r \<noteq> No_id" using Cons.prems(5) by force
  define st1 where "st1 = shipment_step st p r"
  obtain new m1 where s:
    "current st1 = (current st)\<lparr>Shipments := Shipments (current st) @ new\<rparr>"
    "map stored_shipment new =
       (if int64_id (s2_shipment_identifier r) \<and>
           s2_shipment_identifier r \<notin> shipment_ids (current st)
        then [resolved_shipment (current st) r] else [])"
    "stdout st1 = stdout st @ m1" "\<forall>m\<in>set m1. is_shipment_error m"
    "length m1 = (if int64_id (s2_shipment_identifier r) then 0 else 1)"
    using shipment_step_resolved[OF abc Cons.prems(2,3) id, of p] unfolding st1_def by blast
  have f: "committed st1 = current st1" "foreign_keys st1 = foreign_keys st"
    unfolding st1_def using shipment_step_frame[of st r p] abc Cons.prems(3) by simp_all
  have res1: "\<And>r. r \<in> set rows \<Longrightarrow>
             select_id_by_name (Locations (current st1)) (s2_origin_warehouse r) \<noteq> None \<and>
             select_id_by_name (Locations (current st1)) (s2_destination_store r) \<noteq> None \<and>
             select_id_by_name (Drivers (current st1)) (s2_driver_identifier r) \<noteq> None"
    using Cons.prems(1) by (simp add: s(1))
  have fk1: "\<not> foreign_keys st1" using f Cons.prems(2) by simp
  have d1: "distinct (map s2_shipment_identifier rows)" using Cons.prems(4) by simp
  have n1: "No_id \<notin> s2_shipment_identifier ` set rows" using Cons.prems(5) by simp
  obtain ships m2 where IH:
    "current (shipments_loop st1 p rows) =
       (current st1)\<lparr>Shipments := Shipments (current st1) @ ships\<rparr>"
    "map stored_shipment ships =
       map (resolved_shipment (current st1))
         (filter (\<lambda>r. int64_id (s2_shipment_identifier r) \<and>
                       s2_shipment_identifier r \<notin> shipment_ids (current st1)) rows)"
    "stdout (shipments_loop st1 p rows) = stdout st1 @ m2"
    "\<forall>m\<in>set m2. is_shipment_error m"
    "length m2 = length (filter (\<lambda>r. \<not> int64_id (s2_shipment_identifier r)) rows)"
    using Cons.IH[OF res1 fk1 f(1) d1 n1] by blast
  have rs: "resolved_shipment (current st1) = resolved_shipment (current st)"
    by (intro resolved_shipment_cong) (simp_all add: s(1))
  have ids: "s2_shipment_identifier r' \<notin> shipment_ids (current st1) \<longleftrightarrow>
             s2_shipment_identifier r' \<notin> shipment_ids (current st)"
    if "r' \<in> set rows" for r'
  proof -
    have "s2_shipment_identifier r' \<in> s2_shipment_identifier ` set rows"
      using that by (rule imageI)
    moreover have "s2_shipment_identifier r \<notin> s2_shipment_identifier ` set rows"
      using Cons.prems(4) by simp
    ultimately have ne: "s2_shipment_identifier r' \<noteq> s2_shipment_identifier r"
      by metis
    have "fst ` set (map stored_shipment new) \<subseteq> {s2_shipment_identifier r}"
      unfolding s(2) by (auto simp: resolved_shipment_def)
    then show ?thesis
      using ne unfolding s(1) shipment_ids_append by auto
  qed
  have filt: "filter (\<lambda>r. int64_id (s2_shipment_identifier r) \<and>
                       s2_shipment_identifier r \<notin> shipment_ids (current st1)) rows =
              filter (\<lambda>r. int64_id (s2_shipment_identifier r) \<and>
                       s2_shipment_identifier r \<notin> shipment_ids (current st)) rows"
    using ids by (intro filter_cong) auto
  have 1: "current (shipments_loop st1 p rows) =
             (current st)\<lparr>Shipments := Shipments (current st) @ (new @ ships)\<rparr>"
    unfolding IH(1) s(1) by simp
  have 2: "map stored_shipment (new @ ships) =
             map (resolved_shipment (current st))
               (filter (\<lambda>r. int64_id (s2_shipment_identifier r) \<and>
                             s2_shipment_identifier r \<notin> shipment_ids (current st)) (r # rows))"
    unfolding map_append IH(2) s(2) rs filt by simp
  have 3: "stdout (shipments_loop st1 p rows) = stdout st @ (m1 @ m2)"
    unfolding IH(3) s(3) by simp
  have 4: "\<forall>m\<in>set (m1 @ m2). is_shipment_error m" using s(4) IH(4) by auto
  have 5: "length (m1 @ m2) =
             length (filter (\<lambda>r. \<not> int64_id (s2_shipment_identifier r)) (r # rows))"
    using s(5) IH(5) by simp
  show ?case
    unfolding shipments_loop.simps st1_def[symmetric]
    using 1 2 3 4 5 by blast
qed

lemma shipment_step_rows:
  assumes abc: "select_id_by_name (Locations (current st)) (s2_origin_warehouse r) = Some a"
    "select_id_by_name (Locations (current st)) (s2_destination_store r) = Some b"
    "select_id_by_name (Drivers (current st)) (s2_driver_identifier r) = Some c"
    and com: "committed st = current st"
  shows "\<exists>new. Shipments (current (shipment_step st p r)) = Shipments (current st) @ new \<and>
               length new \<le> 1 \<and>
               (\<forall>x\<in>set new.
                  (s2_shipment_identifier r = Int_id (fst x) \<or> s2_shipment_identifier r = No_id) \<and>
                  snd (stored_shipment x) = snd (resolved_shipment (current st) r))"
proof (cases "insert_or_ignore_shipment (randomness st) (foreign_keys st) (current st)
                (s2_shipment_identifier r, a, b, c)")
  case (Inl e)
  then have "shipment_step st p r = shipment_except st p r e"
    using shipment_try_resolved[OF abc] by (simp add: shipment_step_def)
  then show ?thesis using com by (intro exI[of _ "[]"]) simp
next
  case (Inr d)
  have step: "shipment_step st p r = commit (st\<lparr>current := d\<rparr>)"
    using shipment_try_resolved[OF abc] Inr by (simp add: shipment_step_def)
  from insert_or_ignore_shipment_Inr[OF Inr]
  consider "d = current st"
    | key where "s2_shipment_identifier r = Int_id key \<or> s2_shipment_identifier r = No_id"
        "d = (current st)\<lparr>Shipments := Shipments (current st) @ [(key, a, b, c)]\<rparr>"
    by blast
  then show ?thesis
  proof cases
    case 1
    then show ?thesis using step by (intro exI[of _ "[]"]) simp
  next
    case 2
    then show ?thesis
      using step abc
      by (intro exI[of _ "[(key, a, b, c)]"])
         (simp add: stored_shipment_def resolved_shipment_def)
  qed
qed

lemma shipments_loop_rows:
  assumes "\<And>r. r \<in> set rows \<Longrightarrow>
             select_id_by_name (Locations (current st)) (s2_origin_warehouse r) \<noteq> None \<and>
             select_id_by_name (Locations (current st)) (s2_destination_store r) \<noteq> None \<and>
             select_id_by_name (Drivers (current st)) (s2_driver_identifier r) \<noteq> None"
    and "committed st = current st"
  shows "\<exists>ships. Shipments (current (shipments_loop st p rows)) = Shipments (current st) @ ships \<and>
                 length ships \<le> length rows \<and>
                 (\<forall>x\<in>set ships. \<exists>r\<in>set rows.
                    (s2_shipment_identifier r = Int_id (fst x) \<or>
                     s2_shipment_identifier r = No_id) \<and>
                    snd (stored_shipment x) = snd (resolved_shipment (current st) r))"
  using assms
proof (induction rows arbitrary: st)
  case Nil
  then show ?case by simp
next
  case (Cons r rows)
  obtain a b c where abc:
    "select_id_by_name (Locations (current st)) (s2_origin_warehouse r) = Some a"
    "select_id_by_name (Locations (current st)) (s2_destination_store r) = Some b"
    "select_id_by_name (Drivers (current st)) (s2_driver_identifier r) = Some c"
    using Cons.prems(1)[of r] by auto
  define st1 where "st1 = shipment_step st p r"
  obtain new where new: "Shipments (current st1) = Shipments (current st) @ new"
    "length new \<le> 1"
    "\<forall>x\<in>set new.
       (s2_shipment_identifier r = Int_id (fst x) \<or> s2_shipment_identifier r = No_id) \<and>
       snd (stored_shipment x) = snd (resolved_shipment (current st) r)"
    using shipment_step_rows[OF abc Cons.prems(2), of p] unfolding st1_def by blast
  have f: "committed st1 = current st1" "Locations (current st1) = Locations (current st)"
    "Drivers (current st1) = Drivers (current st)"
    unfolding st1_def using shipment_step_frame[of st r p] abc Cons.prems(2) by simp_all
  have res1: "\<And>r. r \<in> set rows \<Longrightarrow>
             select_id_by_name (Locations (current st1)) (s2_origin_warehouse r) \<noteq> None \<and>
             select_id_by_name (Locations (current st1)) (s2_destination_store r) \<noteq> None \<and>
             select_id_by_name (Drivers (current st1)) (s2_driver_identifier r) \<noteq> None"
    using Cons.prems(1) by (simp add: f)
  have rs: "resolved_shipment (current st1) = resolved_shipment (current st)"
    by (intro resolved_shipment_cong) (simp_all add: f)
  obtain ships where ships:
    "Shipments (current (shipments_loop st1 p rows)) = Shipments (current st1) @ ships"
    "length ships \<le> length rows"
    "\<forall>x\<in>set ships. \<exists>r\<in>set rows.
       (s2_shipment_identifier r = Int_id (fst x) \<or> s2_shipment_identifier r = No_id) \<and>
       snd (stored_shipment x) = snd (resolved_shipment (current st) r)"
    using Cons.IH[OF res1 f(1)] unfolding rs by blast
  have 1: "Shipments (current (shipments_loop st1 p rows)) =
             Shipments (current st) @ (new @ ships)"
    by (simp add: ships(1) new(1))
  have 2: "length (new @ ships) \<le> length (r # rows)"
    using new(2) ships(2) by simp
  have 3: "\<forall>x\<in>set (new @ ships). \<exists>r'\<in>set (r # rows).
       (s2_shipment_identifier r' = Int_id (fst x) \<or> s2_shipment_identifier r' = No_id) \<and>
       snd (stored_shipment x) = snd (resolved_shipment (current st) r')"
    using new(3) ships(3) by auto
  show ?case
    unfolding shipments_loop.simps st1_def[symmetric]
    using 1 2 3 by blast
qed

subsection \<open>The ShipmentLineItems loop when the names are in the store\<close>


lemma fold_max_ge: "(a::int) \<le> fold max xs a \<and> (\<forall>x\<in>set xs. x \<le> fold max xs a)"
proof (induction xs arbitrary: a)
  case Nil
  then show ?case by simp
next
  case (Cons y ys)
  have "max y a \<le> fold max ys (max y a)" and "\<forall>x\<in>set ys. x \<le> fold max ys (max y a)"
    using Cons.IH[of "max y a"] by simp_all
  then show ?case by auto
qed

lemma largest_rowid_ge: "x \<in> set ids \<Longrightarrow> x \<le> largest_rowid ids"
  using fold_max_ge[of 0 ids] by (simp add: largest_rowid_def)

lemma largest_rowid_snoc: "largest_rowid (ids @ [k]) = max k (largest_rowid ids)"
  by (simp add: largest_rowid_def)

lemma insert_line_item_accepted:
  assumes "accepted_reference s" and "\<not> fk"
  shows "insert_line_item fk d (s, p, q, t) =
           Inr (d\<lparr>ShipmentLineItems := ShipmentLineItems d @
                     [(max (ShipmentLineItems_seq d)
                           (largest_rowid (map fst (ShipmentLineItems d))) + 1, s, p, q, t)],
                   ShipmentLineItems_seq :=
                     max (ShipmentLineItems_seq d)
                         (largest_rowid (map fst (ShipmentLineItems d))) + 1\<rparr>)"
  using assms
  by (cases s) (auto simp: insert_line_item_def binding_error_def accepted_reference_def Let_def)

lemma insert_line_item_refused:
  assumes "\<not> accepted_reference s"
  shows "\<exists>e. insert_line_item fk d (s, p, q, t) = Inl e"
  using assms
  by (cases s) (auto simp: insert_line_item_def binding_error_def accepted_reference_def Let_def)

lemma line_item_try_resolved:
  assumes "select_id_by_name (Products (current st)) (s1_product r) = Some a"
  shows "line_item_try st p r =
           (case insert_line_item (foreign_keys st) (current st)
                   (s1_shipment_identifier r, a, 1, s1_on_time r) of
              Inl e \<Rightarrow>
                (Some e, print (Quantity_warning p (s1_shipment_identifier r) (s1_product r) 1) st)
            | Inr d \<Rightarrow>
                (None, commit ((print (Quantity_warning p (s1_shipment_identifier r)
                                         (s1_product r) 1) st)\<lparr>current := d\<rparr>)))"
  using assms by (simp add: line_item_try_def resolver_again Let_def cong: sum.case_cong)

lemma line_item_step_resolved:
  assumes a: "select_id_by_name (Products (current st)) (s1_product r) = Some a"
    and fk: "\<not> foreign_keys st"
    and com: "committed st = current st"
    and B: "B = max (ShipmentLineItems_seq (current st))
                    (largest_rowid (map fst (ShipmentLineItems (current st))))"
  shows "committed (line_item_step st p r) = current (line_item_step st p r) \<and>
         foreign_keys (line_item_step st p r) = foreign_keys st \<and>
         randomness (line_item_step st p r) = randomness st \<and>
         current (line_item_step st p r) =
           (if accepted_reference (s1_shipment_identifier r)
            then (current st)\<lparr>ShipmentLineItems := ShipmentLineItems (current st) @
                                 [(B + 1, s1_shipment_identifier r, a, 1, s1_on_time r)],
                               ShipmentLineItems_seq := B + 1\<rparr>
            else current st) \<and>
         (\<exists>msgs. stdout (line_item_step st p r) = stdout st @ msgs \<and>
                 (\<forall>m\<in>set msgs. \<not> is_shipment_error m) \<and>
                 length (filter is_line_item_error msgs) =
                   (if accepted_reference (s1_shipment_identifier r) then 0 else 1))"
proof (cases "accepted_reference (s1_shipment_identifier r)")
  case True
  have "line_item_step st p r =
          commit ((print (Quantity_warning p (s1_shipment_identifier r) (s1_product r) 1) st)
            \<lparr>current := (current st)\<lparr>ShipmentLineItems := ShipmentLineItems (current st) @
                                 [(B + 1, s1_shipment_identifier r, a, 1, s1_on_time r)],
                               ShipmentLineItems_seq := B + 1\<rparr>\<rparr>)"
    using line_item_try_resolved[OF a, of p] insert_line_item_accepted[OF True fk]
    by (simp add: line_item_step_def B)
  then show ?thesis
    using True by (simp add: is_shipment_error_def is_line_item_error_def)
next
  case False
  obtain e where e: "insert_line_item (foreign_keys st) (current st)
                   (s1_shipment_identifier r, a, 1, s1_on_time r) = Inl e"
    using insert_line_item_refused[OF False] by blast
  have "line_item_step st p r =
          line_item_except (print (Quantity_warning p (s1_shipment_identifier r)
                                     (s1_product r) 1) st) p r e"
    using line_item_try_resolved[OF a, of p] e by (simp add: line_item_step_def)
  then show ?thesis
    using False com
    by (cases e)
       (simp_all add: line_item_except_def is_shipment_error_def is_line_item_error_def)
qed

lemma line_items_loop_resolved:
  assumes "\<And>r. r \<in> set rows \<Longrightarrow> select_id_by_name (Products (current st)) (s1_product r) \<noteq> None"
    and "\<not> foreign_keys st"
    and "committed st = current st"
    and "B = max (ShipmentLineItems_seq (current st))
                 (largest_rowid (map fst (ShipmentLineItems (current st))))"
  shows "(\<exists>news.
           ShipmentLineItems (current (line_items_loop st p rows)) =
             ShipmentLineItems (current st) @ news \<and>
           map snd news =
             map (\<lambda>r. (s1_shipment_identifier r,
                        the (select_id_by_name (Products (current st)) (s1_product r)),
                        1, s1_on_time r))
               (filter (\<lambda>r. accepted_reference (s1_shipment_identifier r)) rows) \<and>
           map fst news =
             map (\<lambda>j. B + 1 + int j)
               [0..<length (filter (\<lambda>r. accepted_reference (s1_shipment_identifier r)) rows)]) \<and>
         Products (current (line_items_loop st p rows)) = Products (current st) \<and>
         Locations (current (line_items_loop st p rows)) = Locations (current st) \<and>
         Drivers (current (line_items_loop st p rows)) = Drivers (current st) \<and>
         Shipments (current (line_items_loop st p rows)) = Shipments (current st) \<and>
         committed (line_items_loop st p rows) = current (line_items_loop st p rows) \<and>
         foreign_keys (line_items_loop st p rows) = foreign_keys st \<and>
         randomness (line_items_loop st p rows) = randomness st \<and>
         (\<exists>msgs. stdout (line_items_loop st p rows) = stdout st @ msgs \<and>
                 (\<forall>m\<in>set msgs. \<not> is_shipment_error m) \<and>
                 length (filter is_line_item_error msgs) =
                   length (filter (\<lambda>r. \<not> accepted_reference (s1_shipment_identifier r)) rows))"
  using assms
proof (induction rows arbitrary: st B)
  case Nil
  then show ?case by simp
next
  case (Cons r rows)
  note res = Cons.prems(1) and fk = Cons.prems(2) and com = Cons.prems(3) and B = Cons.prems(4)
  obtain a where a: "select_id_by_name (Products (current st)) (s1_product r) = Some a"
    using res[of r] by auto
  define st1 where "st1 = line_item_step st p r"
  define D where "D = (current st)
               \<lparr>ShipmentLineItems := ShipmentLineItems (current st) @
                  [(B + 1, s1_shipment_identifier r, a, 1, s1_on_time r)],
                ShipmentLineItems_seq := B + 1\<rparr>"
  note s = line_item_step_resolved[OF a fk com B, of p, folded st1_def D_def]
  have com1: "committed st1 = current st1" and fk1': "foreign_keys st1 = foreign_keys st"
    and rnd1: "randomness st1 = randomness st"
    and cur: "current st1 = (if accepted_reference (s1_shipment_identifier r) then D
                             else current st)"
    using s by simp_all
  obtain m1 where m1: "stdout st1 = stdout st @ m1" "\<forall>m\<in>set m1. \<not> is_shipment_error m"
    "length (filter is_line_item_error m1) =
       (if accepted_reference (s1_shipment_identifier r) then 0 else 1)"
    using s by blast
  have fk1: "\<not> foreign_keys st1" using fk fk1' by simp
  have tables: "Products (current st1) = Products (current st)"
    "Locations (current st1) = Locations (current st)"
    "Drivers (current st1) = Drivers (current st)"
    "Shipments (current st1) = Shipments (current st)"
    by (simp_all add: cur D_def)
  have res1: "\<And>r'. r' \<in> set rows \<Longrightarrow>
                select_id_by_name (Products (current st1)) (s1_product r') \<noteq> None"
    using res by (simp add: tables)
  define B1 where "B1 = (if accepted_reference (s1_shipment_identifier r) then B + 1 else B)"
  have B1: "B1 = max (ShipmentLineItems_seq (current st1))
                     (largest_rowid (map fst (ShipmentLineItems (current st1))))"
    by (simp add: B1_def cur D_def largest_rowid_snoc B)
  note IH = Cons.IH[OF res1 fk1 com1 B1, unfolded tables fk1' rnd1]
  obtain news where news:
    "ShipmentLineItems (current (line_items_loop st1 p rows)) =
       ShipmentLineItems (current st1) @ news"
    "map snd news = map (\<lambda>r. (s1_shipment_identifier r,
                      the (select_id_by_name (Products (current st)) (s1_product r)),
                      1, s1_on_time r))
                     (filter (\<lambda>r. accepted_reference (s1_shipment_identifier r)) rows)"
    "map fst news = map (\<lambda>j. B1 + 1 + int j)
       [0..<length (filter (\<lambda>r. accepted_reference (s1_shipment_identifier r)) rows)]"
    using IH by blast
  obtain m2 where m2: "stdout (line_items_loop st1 p rows) = stdout st1 @ m2"
    "\<forall>m\<in>set m2. \<not> is_shipment_error m"
    "length (filter is_line_item_error m2) =
       length (filter (\<lambda>r. \<not> accepted_reference (s1_shipment_identifier r)) rows)"
    using IH by blast
  have upt: "[0..<Suc n] = 0 # map Suc [0..<n]" for n
    by (simp add: upt_conv_Cons map_Suc_upt del: upt_Suc)
  have 1: "\<exists>news.
         ShipmentLineItems (current (line_items_loop st1 p rows)) =
           ShipmentLineItems (current st) @ news \<and>
         map snd news =
           map (\<lambda>r. (s1_shipment_identifier r,
                      the (select_id_by_name (Products (current st)) (s1_product r)),
                      1, s1_on_time r))
             (filter (\<lambda>r. accepted_reference (s1_shipment_identifier r)) (r # rows)) \<and>
         map fst news = map (\<lambda>j. B + 1 + int j)
           [0..<length (filter (\<lambda>r. accepted_reference (s1_shipment_identifier r)) (r # rows))]"
  proof (cases "accepted_reference (s1_shipment_identifier r)")
    case True
    show ?thesis
      apply (rule exI[of _ "(B + 1, s1_shipment_identifier r, a, 1, s1_on_time r) # news"])
      using news a True
      apply (simp add: upt cur B1_def del: upt_Suc)
      apply (simp add: D_def comp_def add.commute add.left_commute)
      done
  next
    case False
    show ?thesis
      using news False by (intro exI[of _ news]) (simp add: cur B1_def)
  qed
  have 2: "\<exists>msgs. stdout (line_items_loop st1 p rows) = stdout st @ msgs \<and>
                 (\<forall>m\<in>set msgs. \<not> is_shipment_error m) \<and>
                 length (filter is_line_item_error msgs) =
                   length (filter (\<lambda>r. \<not> accepted_reference (s1_shipment_identifier r))
                             (r # rows))"
    using m1 m2 by (intro exI[of _ "m1 @ m2"]) auto
  show ?case
    unfolding line_items_loop.simps st1_def[symmetric]
    using 1 2 IH by simp
qed

subsection \<open>A load that runs to completion\<close>


lemma errors_apart: "is_shipment_error m \<Longrightarrow> \<not> is_line_item_error m"
  by (cases m) (simp_all add: is_shipment_error_def is_line_item_error_def)

lemma filter_none: "(\<forall>m\<in>set ms. \<not> P m) \<Longrightarrow> filter P ms = []"
  by (induction ms) auto

lemma filter_all: "(\<forall>m\<in>set ms. P m) \<Longrightarrow> filter P ms = ms"
  by (induction ms) auto

lemma drop_duplicates_subset: "set (drop_duplicates df2) \<subseteq> set df2"
  using drop_duplicates_from_subset[of "[]" df2] by (simp add: drop_duplicates_def)

lemma drop_duplicates_ids:
  "s2_shipment_identifier ` set (drop_duplicates df2) = s2_shipment_identifier ` set df2"
  using set_drop_duplicates_from_ids[of "[]" df2] by (simp add: drop_duplicates_def)

lemma populate_shipments_resolved:
  assumes r1: "\<And>r. r \<in> set df1 \<Longrightarrow> select_id_by_name (Products (current st)) (s1_product r) \<noteq> None"
    and r2: "\<And>r. r \<in> set df2 \<Longrightarrow>
           select_id_by_name (Locations (current st)) (s2_origin_warehouse r) \<noteq> None \<and>
           select_id_by_name (Locations (current st)) (s2_destination_store r) \<noteq> None \<and>
           select_id_by_name (Drivers (current st)) (s2_driver_identifier r) \<noteq> None"
    and fk: "\<not> foreign_keys st"
    and com: "committed st = current st"
    and B: "B = max (ShipmentLineItems_seq (current st))
                 (largest_rowid (map fst (ShipmentLineItems (current st))))"
    and st': "st' = populate_shipments st p1 p2 df1 df2"
  shows "Products (current st') = Products (current st) \<and>
         Locations (current st') = Locations (current st) \<and>
         Drivers (current st') = Drivers (current st) \<and>
         committed st' = current st' \<and>
         foreign_keys st' = foreign_keys st \<and>
         (\<exists>news. ShipmentLineItems (current st') = ShipmentLineItems (current st) @ news \<and>
            map stored_line_item news =
              map (resolved_line_item (current st))
                (filter (\<lambda>r. accepted_reference (s1_shipment_identifier r)) df1) \<and>
            map fst news = map (\<lambda>j. B + 1 + int j)
              [0..<length (filter (\<lambda>r. accepted_reference (s1_shipment_identifier r)) df1)]) \<and>
         (\<exists>msgs. stdout st' = stdout st @ msgs \<and>
            length (filter is_line_item_error msgs) =
              length (filter (\<lambda>r. \<not> accepted_reference (s1_shipment_identifier r)) df1) \<and>
            (No_id \<notin> s2_shipment_identifier ` set df2 \<longrightarrow>
               length (filter is_shipment_error msgs) =
                 length (filter (\<lambda>r. \<not> int64_id (s2_shipment_identifier r))
                           (drop_duplicates df2)))) \<and>
         (No_id \<notin> s2_shipment_identifier ` set df2 \<longrightarrow>
            (\<exists>ships. Shipments (current st') = Shipments (current st) @ ships \<and>
               map stored_shipment ships =
                 map (resolved_shipment (current st))
                   (filter (\<lambda>r. int64_id (s2_shipment_identifier r) \<and>
                                 s2_shipment_identifier r \<notin> shipment_ids (current st))
                      (drop_duplicates df2)))) \<and>
         (\<exists>ships. Shipments (current st') = Shipments (current st) @ ships \<and>
            length ships \<le> length (drop_duplicates df2) \<and>
            (\<forall>x\<in>set ships. \<exists>r\<in>set (drop_duplicates df2).
               (s2_shipment_identifier r = Int_id (fst x) \<or>
                s2_shipment_identifier r = No_id) \<and>
               snd (stored_shipment x) = snd (resolved_shipment (current st) r)))"
proof -
  define sta where "sta = print (Text ''Populating Shipments and ShipmentLineItems tables...'') st"
  define stb where "stb = shipments_loop sta p2 (drop_duplicates df2)"
  define stc where "stc = line_items_loop stb p1 df1"
  have st'_eq: "st' = print (Text ''Database population complete with simplified schema.'')
                  (print (Text ''Finished population of Shipments and ShipmentLineItems.'') stc)"
    by (simp add: st' populate_shipments_def Let_def sta_def stb_def stc_def)
  have ra: "\<And>r. r \<in> set (drop_duplicates df2) \<Longrightarrow>
           select_id_by_name (Locations (current sta)) (s2_origin_warehouse r) \<noteq> None \<and>
           select_id_by_name (Locations (current sta)) (s2_destination_store r) \<noteq> None \<and>
           select_id_by_name (Drivers (current sta)) (s2_driver_identifier r) \<noteq> None"
    using r2 drop_duplicates_subset[of df2] by (auto simp: sta_def)
  have fka: "\<not> foreign_keys sta" and coma: "committed sta = current sta"
    and cura: "current sta = current st"
    using fk com by (simp_all add: sta_def)
  have dist: "distinct (map s2_shipment_identifier (drop_duplicates df2))"
    by (simp add: drop_duplicates_def distinct_drop_duplicates_from)
  note fb = shipments_loop_frame[where p = p2 and rows = "drop_duplicates df2" and st = sta,
      OF ra coma, folded stb_def, unfolded cura]
  have comb: "committed stb = current stb" and fkb: "foreign_keys stb = foreign_keys st"
    and Pb: "Products (current stb) = Products (current st)"
    and Lb: "Locations (current stb) = Locations (current st)"
    and Db: "Drivers (current stb) = Drivers (current st)"
    and Ib: "ShipmentLineItems (current stb) = ShipmentLineItems (current st)"
    and Sb: "ShipmentLineItems_seq (current stb) = ShipmentLineItems_seq (current st)"
    using fb by (simp_all add: sta_def)
  obtain mC where mC: "stdout stb = stdout sta @ mC" "\<forall>m\<in>set mC. is_shipment_error m"
    using fb by blast
  have rb: "\<And>r. r \<in> set df1 \<Longrightarrow>
              select_id_by_name (Products (current stb)) (s1_product r) \<noteq> None"
    using r1 by (simp add: Pb)
  have fkb': "\<not> foreign_keys stb" using fk fkb by simp
  have Bb: "B = max (ShipmentLineItems_seq (current stb))
                    (largest_rowid (map fst (ShipmentLineItems (current stb))))"
    using B by (simp add: Ib Sb)
  note c = line_items_loop_resolved[where p = p1 and rows = df1 and st = stb,
      OF rb fkb' comb Bb, folded stc_def, unfolded Pb Lb Db Ib fkb]
  obtain news where news:
    "ShipmentLineItems (current stc) = ShipmentLineItems (current st) @ news"
    "map snd news = map (\<lambda>r. (s1_shipment_identifier r,
                        the (select_id_by_name (Products (current st)) (s1_product r)),
                        1, s1_on_time r))
                      (filter (\<lambda>r. accepted_reference (s1_shipment_identifier r)) df1)"
    "map fst news = map (\<lambda>j. B + 1 + int j)
       [0..<length (filter (\<lambda>r. accepted_reference (s1_shipment_identifier r)) df1)]"
    using c by blast
  obtain mB where mB: "stdout stc = stdout stb @ mB" "\<forall>m\<in>set mB. \<not> is_shipment_error m"
    "length (filter is_line_item_error mB) =
       length (filter (\<lambda>r. \<not> accepted_reference (s1_shipment_identifier r)) df1)"
    using c by blast
  have Sc: "Shipments (current stc) = Shipments (current stb)" using c by simp
  have "map stored_line_item news = map ((\<lambda>(s, p, q, t). (s, Some p, q, t)) \<circ> snd) news"
    by (intro map_cong) (auto simp: stored_line_item_def split: prod.splits)
  also have "\<dots> = map (\<lambda>(s, p, q, t). (s, Some p, q, t)) (map snd news)"
    by simp
  also have "\<dots> = map (resolved_line_item (current st))
                      (filter (\<lambda>r. accepted_reference (s1_shipment_identifier r)) df1)"
    unfolding news(2) map_map
    using r1 by (intro map_cong) (auto simp: resolved_line_item_def)
  finally have items: "map stored_line_item news =
      map (resolved_line_item (current st))
        (filter (\<lambda>r. accepted_reference (s1_shipment_identifier r)) df1)" .
  define msgs where "msgs = [Text ''Populating Shipments and ShipmentLineItems tables...''] @
      mC @ mB @ [Text ''Finished population of Shipments and ShipmentLineItems.'',
                 Text ''Database population complete with simplified schema.'']"
  have out: "stdout st' = stdout st @ msgs"
    by (simp add: st'_eq mB(1) mC(1) sta_def msgs_def)
  have lC: "filter is_line_item_error mC = []"
    using mC(2) errors_apart by (intro filter_none) blast
  have sB: "filter is_shipment_error mB = []"
    using mB(2) by (intro filter_none) blast
  have sC: "filter is_shipment_error mC = mC"
    using mC(2) by (intro filter_all) blast
  have cnt: "length (filter is_line_item_error msgs) =
              length (filter (\<lambda>r. \<not> accepted_reference (s1_shipment_identifier r)) df1)"
    using mB(3) by (simp add: msgs_def lC is_line_item_error_def)
  have scnt: "length (filter is_shipment_error msgs) = length mC"
    by (simp add: msgs_def sB sC is_shipment_error_def)
  have ships: "\<exists>ships. Shipments (current st') = Shipments (current st) @ ships \<and>
               map stored_shipment ships =
                 map (resolved_shipment (current st))
                   (filter (\<lambda>r. int64_id (s2_shipment_identifier r) \<and>
                                 s2_shipment_identifier r \<notin> shipment_ids (current st))
                      (drop_duplicates df2))"
    and mcnt: "length mC = length (filter (\<lambda>r. \<not> int64_id (s2_shipment_identifier r))
                                     (drop_duplicates df2))"
    if no: "No_id \<notin> s2_shipment_identifier ` set df2"
  proof -
    have no': "No_id \<notin> s2_shipment_identifier ` set (drop_duplicates df2)"
      using no by (simp add: drop_duplicates_ids)
    obtain ships m where b:
      "current stb = (current sta)\<lparr>Shipments := Shipments (current sta) @ ships\<rparr>"
      "map stored_shipment ships =
         map (resolved_shipment (current sta))
           (filter (\<lambda>r. int64_id (s2_shipment_identifier r) \<and>
                         s2_shipment_identifier r \<notin> shipment_ids (current sta))
              (drop_duplicates df2))"
      "stdout stb = stdout sta @ m"
      "length m = length (filter (\<lambda>r. \<not> int64_id (s2_shipment_identifier r))
                            (drop_duplicates df2))"
      using shipments_loop_resolved[where p = p2 and rows = "drop_duplicates df2" and st = sta,
          OF ra fka coma dist no', folded stb_def] by blast
    show "length mC = length (filter (\<lambda>r. \<not> int64_id (s2_shipment_identifier r))
                                     (drop_duplicates df2))"
      using b(3,4) mC(1) by simp
    show "\<exists>ships. Shipments (current st') = Shipments (current st) @ ships \<and>
               map stored_shipment ships =
                 map (resolved_shipment (current st))
                   (filter (\<lambda>r. int64_id (s2_shipment_identifier r) \<and>
                                 s2_shipment_identifier r \<notin> shipment_ids (current st))
                      (drop_duplicates df2))"
      using b(1,2) Sc by (intro exI[of _ ships]) (simp add: st'_eq cura)
  qed
  have 1: "\<exists>news. ShipmentLineItems (current st') = ShipmentLineItems (current st) @ news \<and>
            map stored_line_item news =
              map (resolved_line_item (current st))
                (filter (\<lambda>r. accepted_reference (s1_shipment_identifier r)) df1) \<and>
            map fst news = map (\<lambda>j. B + 1 + int j)
              [0..<length (filter (\<lambda>r. accepted_reference (s1_shipment_identifier r)) df1)]"
    using news items by (intro exI[of _ news]) (simp add: st'_eq)
  have 2: "\<exists>msgs. stdout st' = stdout st @ msgs \<and>
            length (filter is_line_item_error msgs) =
              length (filter (\<lambda>r. \<not> accepted_reference (s1_shipment_identifier r)) df1) \<and>
            (No_id \<notin> s2_shipment_identifier ` set df2 \<longrightarrow>
               length (filter is_shipment_error msgs) =
                 length (filter (\<lambda>r. \<not> int64_id (s2_shipment_identifier r))
                           (drop_duplicates df2)))"
    using out cnt scnt mcnt by (intro exI[of _ msgs]) simp
  have 3: "Products (current st') = Products (current st) \<and>
         Locations (current st') = Locations (current st) \<and>
         Drivers (current st') = Drivers (current st) \<and>
         committed st' = current st' \<and>
         foreign_keys st' = foreign_keys st"
    using c by (simp add: st'_eq)
  have 4: "\<exists>ships. Shipments (current st') = Shipments (current st) @ ships \<and>
            length ships \<le> length (drop_duplicates df2) \<and>
            (\<forall>x\<in>set ships. \<exists>r\<in>set (drop_duplicates df2).
               (s2_shipment_identifier r = Int_id (fst x) \<or>
                s2_shipment_identifier r = No_id) \<and>
               snd (stored_shipment x) = snd (resolved_shipment (current st) r))"
    using shipments_loop_rows[where p = p2 and rows = "drop_duplicates df2" and st = sta,
        OF ra coma, folded stb_def] Sc
    by (simp add: st'_eq cura)
  show ?thesis using 1 2 3 4 ships by blast
qed

lemma populate_database_done:
  assumes wf: "well_formed df0 df1 df2"
    and B: "B = max (ShipmentLineItems_seq store) (largest_rowid (map fst (ShipmentLineItems store)))"
    and st': "st' = snd (populate_database rnd store out p1 p2 df0 df1 df2)"
  shows "committed st' = current st' \<and> \<not> foreign_keys st' \<and>
         (\<exists>news. ShipmentLineItems (current st') = ShipmentLineItems store @ news \<and>
            map stored_line_item news =
              map (resolved_line_item (current st'))
                (filter (\<lambda>r. accepted_reference (s1_shipment_identifier r)) df1) \<and>
            map fst news = map (\<lambda>j. B + 1 + int j)
              [0..<length (filter (\<lambda>r. accepted_reference (s1_shipment_identifier r)) df1)]) \<and>
         (\<exists>msgs. stdout st' = out @ msgs \<and>
            length (filter is_line_item_error msgs) =
              length (filter (\<lambda>r. \<not> accepted_reference (s1_shipment_identifier r)) df1) \<and>
            (No_id \<notin> s2_shipment_identifier ` set df2 \<longrightarrow>
               length (filter is_shipment_error msgs) =
                 length (filter (\<lambda>r. \<not> int64_id (s2_shipment_identifier r))
                           (drop_duplicates df2)))) \<and>
         (No_id \<notin> s2_shipment_identifier ` set df2 \<longrightarrow>
            (\<exists>ships. Shipments (current st') = Shipments store @ ships \<and>
               map stored_shipment ships =
                 map (resolved_shipment (current st'))
                   (filter (\<lambda>r. int64_id (s2_shipment_identifier r) \<and>
                                 s2_shipment_identifier r \<notin> shipment_ids store)
                      (drop_duplicates df2)))) \<and>
         (\<exists>ships. Shipments (current st') = Shipments store @ ships \<and>
            length ships \<le> length (drop_duplicates df2) \<and>
            (\<forall>x\<in>set ships. \<exists>r\<in>set (drop_duplicates df2).
               (s2_shipment_identifier r = Int_id (fst x) \<or>
                s2_shipment_identifier r = No_id) \<and>
               snd (stored_shipment x) = snd (resolved_shipment (current st') r))) \<and>
         (\<forall>r\<in>set df1. select_id_by_name (Products (current st')) (s1_product r) \<noteq> None) \<and>
         (\<forall>r\<in>set df2.
            select_id_by_name (Locations (current st')) (s2_origin_warehouse r) \<noteq> None \<and>
            select_id_by_name (Locations (current st')) (s2_destination_store r) \<noteq> None \<and>
            select_id_by_name (Drivers (current st')) (s2_driver_identifier r) \<noteq> None)"
proof -
  define st0 where "st0 = print (Text ''Populating Products, Locations, and Drivers tables from all CSVs...'') (connect rnd store out)"
  obtain e st1 where 1: "populate_names st0 df0 df1 df2 = (e, st1)" by force
  have "e = None" using populate_names_None_iff[of st0 df0 df1 df2] wf 1 by simp
  with 1 have 1: "populate_names st0 df0 df1 df2 = (None, st1)" by simp
  note n = populate_names_done[OF 1]
  have st'_eq: "st' = populate_shipments st1 p1 p2 df1 df2"
    using 1 by (simp add: st' populate_database_def Let_def st0_def[symmetric])
  have fk1: "\<not> foreign_keys st1" using n(2) by (simp add: st0_def connect_def)
  have cur1: "Shipments (current st1) = Shipments store"
    "ShipmentLineItems (current st1) = ShipmentLineItems store"
    "ShipmentLineItems_seq (current st1) = ShipmentLineItems_seq store"
    using n(4,5,6) by (simp_all add: st0_def connect_def)
  have ids1: "shipment_ids (current st1) = shipment_ids store"
    by (simp add: shipment_ids_def cur1)
  have B1: "B = max (ShipmentLineItems_seq (current st1))
                    (largest_rowid (map fst (ShipmentLineItems (current st1))))"
    using B by (simp add: cur1)
  note s = populate_shipments_resolved[where st = st1 and ?df1.0 = df1 and ?df2.0 = df2,
      OF n(7) n(8) fk1 n(1) B1 st'_eq]
  have L: "Locations (current st') = Locations (current st1)"
    and D: "Drivers (current st') = Drivers (current st1)"
    and P: "Products (current st') = Products (current st1)"
    using s by simp_all
  have rs: "resolved_shipment (current st1) = resolved_shipment (current st')"
    using L D by (intro resolved_shipment_cong) simp_all
  have rl: "resolved_line_item (current st1) = resolved_line_item (current st')"
    using P by (intro resolved_line_item_cong) simp
  have out1: "stdout st1 = out @
           [Text ''Populating Products, Locations, and Drivers tables from all CSVs...'',
            Text ''Finished initial population of Products, Locations, and Drivers.'']"
    using n(3) by (simp add: st0_def connect_def)
  obtain msgs where msgs: "stdout st' = stdout st1 @ msgs"
    "length (filter is_line_item_error msgs) =
       length (filter (\<lambda>r. \<not> accepted_reference (s1_shipment_identifier r)) df1)"
    "No_id \<notin> s2_shipment_identifier ` set df2 \<longrightarrow>
       length (filter is_shipment_error msgs) =
         length (filter (\<lambda>r. \<not> int64_id (s2_shipment_identifier r)) (drop_duplicates df2))"
    using s by blast
  have 2: "\<exists>msgs. stdout st' = out @ msgs \<and>
            length (filter is_line_item_error msgs) =
              length (filter (\<lambda>r. \<not> accepted_reference (s1_shipment_identifier r)) df1) \<and>
            (No_id \<notin> s2_shipment_identifier ` set df2 \<longrightarrow>
               length (filter is_shipment_error msgs) =
                 length (filter (\<lambda>r. \<not> int64_id (s2_shipment_identifier r))
                           (drop_duplicates df2)))"
    using msgs
    by (intro exI[of _ "[Text ''Populating Products, Locations, and Drivers tables from all CSVs...'',
            Text ''Finished initial population of Products, Locations, and Drivers.''] @ msgs"])
       (simp add: out1 is_line_item_error_def is_shipment_error_def)
  have 3: "committed st' = current st' \<and> \<not> foreign_keys st'"
    using s fk1 by simp
  have 4: "\<exists>news. ShipmentLineItems (current st') = ShipmentLineItems store @ news \<and>
            map stored_line_item news =
              map (resolved_line_item (current st'))
                (filter (\<lambda>r. accepted_reference (s1_shipment_identifier r)) df1) \<and>
            map fst news = map (\<lambda>j. B + 1 + int j)
              [0..<length (filter (\<lambda>r. accepted_reference (s1_shipment_identifier r)) df1)]"
    using s unfolding rl cur1 by blast
  have 5: "No_id \<notin> s2_shipment_identifier ` set df2 \<longrightarrow>
            (\<exists>ships. Shipments (current st') = Shipments store @ ships \<and>
               map stored_shipment ships =
                 map (resolved_shipment (current st'))
                   (filter (\<lambda>r. int64_id (s2_shipment_identifier r) \<and>
                                 s2_shipment_identifier r \<notin> shipment_ids store)
                      (drop_duplicates df2)))"
    using s unfolding rs cur1 ids1 by blast
  have 6: "\<forall>r\<in>set df1. select_id_by_name (Products (current st')) (s1_product r) \<noteq> None"
    using n(7) by (simp add: P)
  have 7: "\<forall>r\<in>set df2.
            select_id_by_name (Locations (current st')) (s2_origin_warehouse r) \<noteq> None \<and>
            select_id_by_name (Locations (current st')) (s2_destination_store r) \<noteq> None \<and>
            select_id_by_name (Drivers (current st')) (s2_driver_identifier r) \<noteq> None"
    using n(8) by (simp add: L D)
  have 8: "\<exists>ships. Shipments (current st') = Shipments store @ ships \<and>
            length ships \<le> length (drop_duplicates df2) \<and>
            (\<forall>x\<in>set ships. \<exists>r\<in>set (drop_duplicates df2).
               (s2_shipment_identifier r = Int_id (fst x) \<or>
                s2_shipment_identifier r = No_id) \<and>
               snd (stored_shipment x) = snd (resolved_shipment (current st') r))"
    using s unfolding rs cur1 by blast
  show ?thesis using 2 3 4 5 6 7 8 by blast
qed

subsection \<open>Loads of the tables with identifiers that the store does not take\<close>


lemma refused_C_run:
  "fst (populate_database (drawing 1) empty_db [] ''shipping_data_1.csv'' ''shipping_data_2.csv''
          [] [] refused_C) = None \<and>
   filter is_shipment_error
     (stdout (snd (populate_database (drawing 1) empty_db [] ''shipping_data_1.csv''
                     ''shipping_data_2.csv'' [] [] refused_C))) =
     [Unexpected_error_shipment ''shipping_data_2.csv''
        (OtherException ''Python int too large to convert to SQLite INTEGER'')
        (Int_id 9223372036854775808),
      Integrity_error_shipment (Text_id ''abc'') ''shipping_data_2.csv''
        (IntegrityError ''datatype mismatch'')] \<and>
   Shipments (committed (snd (populate_database (drawing 1) empty_db [] ''shipping_data_1.csv''
                     ''shipping_data_2.csv'' [] [] refused_C))) = [(100, 1, 2, 1)]"
  by code_simp

lemma refused_B_run:
  "fst (populate_database (drawing 1) empty_db [] ''shipping_data_1.csv'' ''shipping_data_2.csv''
          [] refused_B []) = None \<and>
   filter is_line_item_error
     (stdout (snd (populate_database (drawing 1) empty_db [] ''shipping_data_1.csv''
                     ''shipping_data_2.csv'' [] refused_B []))) =
     [Unexpected_error_line_item ''shipping_data_1.csv''
        (OtherException ''Python int too large to convert to SQLite INTEGER'')
        (Int_id 9223372036854775808),
      Integrity_error_line_item No_id ''shipping_data_1.csv''
        (IntegrityError ''NOT NULL constraint failed'')] \<and>
   ShipmentLineItems (committed (snd (populate_database (drawing 1) empty_db []
      ''shipping_data_1.csv'' ''shipping_data_2.csv'' [] refused_B []))) =
     [(1, Int_id 100, 1, 1, Some ''Yes'')] \<and>
   Shipments (committed (snd (populate_database (drawing 1) empty_db []
      ''shipping_data_1.csv'' ''shipping_data_2.csv'' [] refused_B []))) = []"
  by code_simp


subsection \<open>When the Shipments loop raises\<close>

lemma shipment_try_named:
  assumes "s2_origin_warehouse r \<noteq> None" and "s2_destination_store r \<noteq> None"
    and "s2_driver_identifier r \<noteq> None"
  shows "\<exists>a b c d3.
           select_id_by_name (Locations d3) (s2_origin_warehouse r) = Some a \<and>
           select_id_by_name (Locations d3) (s2_destination_store r) = Some b \<and>
           select_id_by_name (Drivers d3) (s2_driver_identifier r) = Some c \<and>
           Shipments d3 = Shipments (current st) \<and>
           shipment_try st r =
             (case insert_or_ignore_shipment (randomness st) (foreign_keys st) d3
                     (s2_shipment_identifier r, a, b, c) of
                Inl e \<Rightarrow> (Some e, st\<lparr>current := d3\<rparr>)
              | Inr d \<Rightarrow> (None, commit (st\<lparr>current := d\<rparr>)))"
proof -
  obtain n1 n2 n3 where n: "s2_origin_warehouse r = Some n1" "s2_destination_store r = Some n2"
    "s2_driver_identifier r = Some n3"
    using assms by auto
  obtain a d1 where 1: "get_or_insert_location (current st) (Some n1) = Inr (a, d1)"
    using resolver_Some(2) by blast
  obtain b d2 where 2: "get_or_insert_location d1 (Some n2) = Inr (b, d2)"
    using resolver_Some(2) by blast
  obtain c d3 where 3: "get_or_insert_driver d2 (Some n3) = Inr (c, d3)"
    using resolver_Some(3) by blast
  have L3: "Locations d3 = Locations d2" using driver_frame[OF 3] by simp
  have a: "select_id_by_name (Locations d3) (Some n1) = Some a"
    using location_stable[OF 2 location_found[OF 1]] by (simp add: L3)
  have b: "select_id_by_name (Locations d3) (Some n2) = Some b"
    using location_found[OF 2] by (simp add: L3)
  have c: "select_id_by_name (Drivers d3) (Some n3) = Some c"
    using driver_found[OF 3] .
  have S: "Shipments d3 = Shipments (current st)"
    using location_frame[OF 1] location_frame[OF 2] driver_frame[OF 3] by simp
  have "shipment_try st r =
          (case insert_or_ignore_shipment (randomness st) (foreign_keys st) d3
                  (s2_shipment_identifier r, a, b, c) of
             Inl e \<Rightarrow> (Some e, st\<lparr>current := d3\<rparr>)
           | Inr d \<Rightarrow> (None, commit (st\<lparr>current := d\<rparr>)))"
    using 1 2 3 n by (simp add: shipment_try_def cong: sum.case_cong)
  then show ?thesis
    using a b c S n by (intro exI[of _ a] exI[of _ b] exI[of _ c] exI[of _ d3]) simp
qed

lemma shipment_try_int64:
  assumes "s2_origin_warehouse r \<noteq> None" and "s2_destination_store r \<noteq> None"
    and "s2_driver_identifier r \<noteq> None" and "int64_id (s2_shipment_identifier r)"
  shows "\<exists>d. shipment_try st r = (None, commit (st\<lparr>current := d\<rparr>)) \<and>
             (s2_shipment_identifier r \<in> shipment_ids (current st) \<longrightarrow>
                Shipments d = Shipments (current st))"
proof -
  obtain a b c d3 where t:
    "select_id_by_name (Locations d3) (s2_origin_warehouse r) = Some a"
    "select_id_by_name (Locations d3) (s2_destination_store r) = Some b"
    "select_id_by_name (Drivers d3) (s2_driver_identifier r) = Some c"
    "Shipments d3 = Shipments (current st)"
    "shipment_try st r =
       (case insert_or_ignore_shipment (randomness st) (foreign_keys st) d3
               (s2_shipment_identifier r, a, b, c) of
          Inl e \<Rightarrow> (Some e, st\<lparr>current := d3\<rparr>)
        | Inr d \<Rightarrow> (None, commit (st\<lparr>current := d\<rparr>)))"
    using shipment_try_named[OF assms(1,2,3), of st] by blast
  obtain n where n: "s2_shipment_identifier r = Int_id n" "int64 n"
    using assms(4) by (cases "s2_shipment_identifier r") (auto simp: int64_id_def)
  have ids: "a \<in> fst ` set (tbl_rows (Locations d3))" "b \<in> fst ` set (tbl_rows (Locations d3))"
    "c \<in> fst ` set (tbl_rows (Drivers d3))"
    using select_id_in_rows[OF t(1)] select_id_in_rows[OF t(2)] select_id_in_rows[OF t(3)]
    by force+
  define d4 where "d4 = (if n \<in> fst ` set (Shipments d3) then d3
                         else d3\<lparr>Shipments := Shipments d3 @ [(n, a, b, c)]\<rparr>)"
  have 4: "insert_or_ignore_shipment (randomness st) (foreign_keys st) d3
             (s2_shipment_identifier r, a, b, c) = Inr d4"
    unfolding n(1) d4_def using ids by (intro insert_shipment_int64[OF n(2)]) simp
  have "shipment_try st r = (None, commit (st\<lparr>current := d4\<rparr>))"
    using t(5) 4 by simp
  moreover have "s2_shipment_identifier r \<in> shipment_ids (current st) \<longrightarrow>
                   Shipments d4 = Shipments (current st)"
    by (simp add: d4_def t(4) n(1) Int_id_in_shipment_ids)
  ultimately show ?thesis by blast
qed

lemma shipment_step_int64:
  assumes "s2_origin_warehouse r \<noteq> None" and "s2_destination_store r \<noteq> None"
    and "s2_driver_identifier r \<noteq> None" and "int64_id (s2_shipment_identifier r)"
  shows "stdout (shipment_step st p r) = stdout st"
    and "s2_shipment_identifier r \<in> shipment_ids (current st) \<Longrightarrow>
           Shipments (current (shipment_step st p r)) = Shipments (current st)"
  using shipment_try_int64[OF assms, of st] by (auto simp: shipment_step_def)

lemma shipment_step_refused:
  assumes "s2_origin_warehouse r \<noteq> None" and "s2_destination_store r \<noteq> None"
    and "s2_driver_identifier r \<noteq> None"
    and "\<not> int64_id (s2_shipment_identifier r)" and "s2_shipment_identifier r \<noteq> No_id"
  shows "\<exists>e. fst (shipment_try st r) = Some e \<and>
             stdout (shipment_step st p r) = stdout st @
               [case e of
                  IntegrityError _ \<Rightarrow> Integrity_error_shipment (s2_shipment_identifier r) p e
                | OtherException _ \<Rightarrow> Unexpected_error_shipment p e (s2_shipment_identifier r)]"
proof -
  obtain a b c d3 where t:
    "shipment_try st r =
       (case insert_or_ignore_shipment (randomness st) (foreign_keys st) d3
               (s2_shipment_identifier r, a, b, c) of
          Inl e \<Rightarrow> (Some e, st\<lparr>current := d3\<rparr>)
        | Inr d \<Rightarrow> (None, commit (st\<lparr>current := d\<rparr>)))"
    using shipment_try_named[OF assms(1,2,3), of st] by blast
  obtain e where e: "insert_or_ignore_shipment (randomness st) (foreign_keys st) d3
               (s2_shipment_identifier r, a, b, c) = Inl e"
    using insert_shipment_refused[OF assms(4,5)] by blast
  have "shipment_try st r = (Some e, st\<lparr>current := d3\<rparr>)" using t e by simp
  then show ?thesis
    by (intro exI[of _ e]) (simp add: shipment_step_def shipment_except_def split: error.splits)
qed

lemma shipments_loop_quiet:
  assumes "\<And>r. r \<in> set rows \<Longrightarrow> s2_origin_warehouse r \<noteq> None \<and>
             s2_destination_store r \<noteq> None \<and> s2_driver_identifier r \<noteq> None \<and>
             int64_id (s2_shipment_identifier r)"
  shows "stdout (shipments_loop st p rows) = stdout st"
  using assms
proof (induction rows arbitrary: st)
  case Nil
  then show ?case by simp
next
  case (Cons r rows)
  have "stdout (shipment_step st p r) = stdout st"
    using Cons.prems[of r] by (intro shipment_step_int64) simp_all
  moreover have "stdout (shipments_loop (shipment_step st p r) p rows) =
                 stdout (shipment_step st p r)"
    using Cons.prems by (intro Cons.IH) simp
  ultimately show ?case by simp
qed

lemma populate_names_frame:
  "foreign_keys (snd (populate_names st df0 df1 df2)) = foreign_keys st \<and>
   (stdout (snd (populate_names st df0 df1 df2)) = stdout st \<or>
    stdout (snd (populate_names st df0 df1 df2)) = stdout st @
      [Text ''Finished initial population of Products, Locations, and Drivers.''])"
proof -
  define ps where "ps = unique (map s0_product df0 @ map s1_product df1)"
  define ls where "ls = unique (map s0_origin_warehouse df0 @ map s0_destination_store df0 @
                                map s2_origin_warehouse df2 @ map s2_destination_store df2)"
  define ds where "ds = unique (map s0_driver_identifier df0 @ map s2_driver_identifier df2)"
  obtain e1 st1 where 1: "for_names get_or_insert_product st ps = (e1, st1)" by force
  obtain e2 st2 where 2: "for_names get_or_insert_location (commit st1) ls = (e2, st2)" by force
  obtain e3 st3 where 3: "for_names get_or_insert_driver (commit st2) ds = (e3, st3)" by force
  have f1: "foreign_keys st1 = foreign_keys st \<and> stdout st1 = stdout st"
    using for_names_frame[of get_or_insert_product st ps] 1 by simp
  have f2: "foreign_keys st2 = foreign_keys st1 \<and> stdout st2 = stdout st1"
    using for_names_frame[of get_or_insert_location "commit st1" ls] 2 by simp
  have f3: "foreign_keys st3 = foreign_keys st2 \<and> stdout st3 = stdout st2"
    using for_names_frame[of get_or_insert_driver "commit st2" ds] 3 by simp
  show ?thesis
    unfolding populate_names_def Let_def
    using 1 2 3 f1 f2 f3
    by (auto simp: ps_def ls_def ds_def split: option.splits)
qed

lemma populate_database_aborted:
  assumes "\<not> well_formed df0 df1 df2"
  shows "\<not> foreign_keys (snd (populate_database rnd store out p1 p2 df0 df1 df2)) \<and>
         filter is_shipment_error (stdout (snd (populate_database rnd store out p1 p2 df0 df1 df2))) =
           filter is_shipment_error out \<and>
         committed (snd (populate_database rnd store out p1 p2 df0 df1 df2)) =
           committed (snd (populate_names
             (print (Text ''Populating Products, Locations, and Drivers tables from all CSVs...'')
                (connect rnd store out)) df0 df1 df2))"
proof -
  define st0 where "st0 = print (Text ''Populating Products, Locations, and Drivers tables from all CSVs...'') (connect rnd store out)"
  obtain e st1 where 1: "populate_names st0 df0 df1 df2 = (e, st1)" by force
  have "e \<noteq> None" using populate_names_None_iff[of st0 df0 df1 df2] assms 1 by simp
  then have r: "snd (populate_database rnd store out p1 p2 df0 df1 df2) = st1"
    using 1 by (auto simp: populate_database_def st0_def[symmetric])
  show ?thesis
    unfolding r st0_def[symmetric] using populate_names_frame[of st0 df0 df1 df2] 1
    by (auto simp: st0_def connect_def is_shipment_error_def)
qed

lemma populate_database_quiet:
  "\<not> foreign_keys (snd (populate_database rnd store out p1 p2 df0 df1 df2))"
  "\<forall>r\<in>set df2. int64_id (s2_shipment_identifier r) \<Longrightarrow>
     filter is_shipment_error (stdout (snd (populate_database rnd store out p1 p2 df0 df1 df2))) =
       filter is_shipment_error out"
proof -
  show "\<not> foreign_keys (snd (populate_database rnd store out p1 p2 df0 df1 df2))"
  proof (cases "well_formed df0 df1 df2")
    case True
    show ?thesis using populate_database_done[OF True refl refl, of rnd store out p1 p2] by simp
  next
    case False
    then show ?thesis using populate_database_aborted by blast
  qed
  assume a: "\<forall>r\<in>set df2. int64_id (s2_shipment_identifier r)"
  show "filter is_shipment_error (stdout (snd (populate_database rnd store out p1 p2 df0 df1 df2))) =
       filter is_shipment_error out"
  proof (cases "well_formed df0 df1 df2")
    case True
    have no: "No_id \<notin> s2_shipment_identifier ` set df2"
      using a by (force simp: int64_id_def)
    have "filter (\<lambda>r. \<not> int64_id (s2_shipment_identifier r)) (drop_duplicates df2) = []"
      using a drop_duplicates_subset[of df2] by (intro filter_none) blast
    then obtain msgs where m:
      "stdout (snd (populate_database rnd store out p1 p2 df0 df1 df2)) = out @ msgs"
      "length (filter is_shipment_error msgs) = 0"
      using populate_database_done[OF True refl refl, of rnd store out p1 p2] no by auto
    then show ?thesis by simp
  next
    case False
    then show ?thesis using populate_database_aborted by blast
  qed
qed

text \<open>
  C10. The claim fails: a row of table C whose identifier is an integer that does not fit 64
  bits, or a text, makes \<open>INSERT OR IGNORE\<close> raise, and a handler of the Shipments loop
  prints. What holds: a row of table C whose three names are present and whose identifier is
  a 64-bit integer never makes the body of the \<open>try\<close> raise, on any connection, and the
  step prints nothing; the connection \<open>populate_database\<close> works on does not enforce
  foreign keys; and when every identifier of table C is a 64-bit integer, a load prints no
  message of the two handlers of the Shipments loop, whatever else the three tables hold. A
  row with its names whose identifier is no 64-bit integer, and is not empty, does make the
  body raise, and its handler prints.
\<close>

theorem shipment_handlers_unreachable:
  "(s2_origin_warehouse r \<noteq> None \<and> s2_destination_store r \<noteq> None \<and>
    s2_driver_identifier r \<noteq> None \<and> int64_id (s2_shipment_identifier r) \<longrightarrow>
      fst (shipment_try st r) = None \<and> stdout (shipment_step st p r) = stdout st) \<and>
   ((\<forall>r\<in>set df2. s2_origin_warehouse r \<noteq> None \<and> s2_destination_store r \<noteq> None \<and>
                   s2_driver_identifier r \<noteq> None \<and> int64_id (s2_shipment_identifier r)) \<longrightarrow>
      stdout (shipments_loop st p (drop_duplicates df2)) = stdout st) \<and>
   \<not> foreign_keys (snd (populate_database rnd store out p1 p2 df0 df1 df2)) \<and>
   ((\<forall>r\<in>set df2. int64_id (s2_shipment_identifier r)) \<longrightarrow>
      filter is_shipment_error (stdout (snd (populate_database rnd store out p1 p2 df0 df1 df2))) =
        filter is_shipment_error out) \<and>
   (s2_origin_warehouse r \<noteq> None \<and> s2_destination_store r \<noteq> None \<and>
    s2_driver_identifier r \<noteq> None \<and> \<not> int64_id (s2_shipment_identifier r) \<and>
    s2_shipment_identifier r \<noteq> No_id \<longrightarrow>
      (\<exists>e. fst (shipment_try st r) = Some e \<and>
            stdout (shipment_step st p r) = stdout st @
              [case e of
                 IntegrityError _ \<Rightarrow> Integrity_error_shipment (s2_shipment_identifier r) p e
               | OtherException _ \<Rightarrow> Unexpected_error_shipment p e (s2_shipment_identifier r)]))"
proof (intro conjI impI)
  assume a: "s2_origin_warehouse r \<noteq> None \<and> s2_destination_store r \<noteq> None \<and>
    s2_driver_identifier r \<noteq> None \<and> int64_id (s2_shipment_identifier r)"
  then show "fst (shipment_try st r) = None"
    using shipment_try_int64[of r st] by auto
  show "stdout (shipment_step st p r) = stdout st"
    using a by (intro shipment_step_int64) simp_all
next
  assume a: "\<forall>r\<in>set df2. s2_origin_warehouse r \<noteq> None \<and> s2_destination_store r \<noteq> None \<and>
                   s2_driver_identifier r \<noteq> None \<and> int64_id (s2_shipment_identifier r)"
  show "stdout (shipments_loop st p (drop_duplicates df2)) = stdout st"
  proof (rule shipments_loop_quiet)
    fix r assume "r \<in> set (drop_duplicates df2)"
    then have "r \<in> set df2" using drop_duplicates_subset[of df2] by blast
    with a show "s2_origin_warehouse r \<noteq> None \<and> s2_destination_store r \<noteq> None \<and>
                 s2_driver_identifier r \<noteq> None \<and> int64_id (s2_shipment_identifier r)"
      by blast
  qed
next
  show "\<not> foreign_keys (snd (populate_database rnd store out p1 p2 df0 df1 df2))"
    by (rule populate_database_quiet(1))
next
  assume "\<forall>r\<in>set df2. int64_id (s2_shipment_identifier r)"
  then show "filter is_shipment_error
               (stdout (snd (populate_database rnd store out p1 p2 df0 df1 df2))) =
             filter is_shipment_error out"
    by (rule populate_database_quiet(2))
next
  assume "s2_origin_warehouse r \<noteq> None \<and> s2_destination_store r \<noteq> None \<and>
    s2_driver_identifier r \<noteq> None \<and> \<not> int64_id (s2_shipment_identifier r) \<and>
    s2_shipment_identifier r \<noteq> No_id"
  then show "\<exists>e. fst (shipment_try st r) = Some e \<and>
            stdout (shipment_step st p r) = stdout st @
              [case e of
                 IntegrityError _ \<Rightarrow> Integrity_error_shipment (s2_shipment_identifier r) p e
               | OtherException _ \<Rightarrow> Unexpected_error_shipment p e (s2_shipment_identifier r)]"
    by (intro shipment_step_refused) simp_all
qed

text \<open>
  The load of a table C whose first row carries the identifier \<open>2 ^ 63\<close> and whose second
  row carries a text: both rows have their names, the load runs to completion, and each of
  the two handlers of the Shipments loop prints once.
\<close>

theorem shipment_handler_reached:
  "well_formed [] [] refused_C \<and>
   fst (populate_database (drawing 1) empty_db [] ''shipping_data_1.csv'' ''shipping_data_2.csv''
          [] [] refused_C) = None \<and>
   filter is_shipment_error
     (stdout (snd (populate_database (drawing 1) empty_db [] ''shipping_data_1.csv''
                     ''shipping_data_2.csv'' [] [] refused_C))) =
     [Unexpected_error_shipment ''shipping_data_2.csv''
        (OtherException ''Python int too large to convert to SQLite INTEGER'')
        (Int_id 9223372036854775808),
      Integrity_error_shipment (Text_id ''abc'') ''shipping_data_2.csv''
        (IntegrityError ''datatype mismatch'')]"
proof -
  have "well_formed [] [] refused_C"
    by (simp add: well_formed_def refused_C_def)
  then show ?thesis using refused_C_run by blast
qed

theorem shipment_handlers_unreachable_witness:
  "s2_origin_warehouse (hd scenario_C) \<noteq> None \<and> s2_destination_store (hd scenario_C) \<noteq> None \<and>
   s2_driver_identifier (hd scenario_C) \<noteq> None \<and>
   int64_id (s2_shipment_identifier (hd scenario_C)) \<and>
   list_all (\<lambda>r. s2_origin_warehouse r \<noteq> None \<and> s2_destination_store r \<noteq> None \<and>
                  s2_driver_identifier r \<noteq> None \<and> int64_id (s2_shipment_identifier r))
     scenario_C \<and>
   fst (shipment_try (connect (drawing 1) empty_db []) (hd scenario_C)) = None \<and>
   stdout (shipments_loop (connect (drawing 1) empty_db []) ''shipping_data_2.csv''
             (drop_duplicates scenario_C)) = [] \<and>
   filter is_shipment_error
     (stdout (snd (populate_database (drawing 1) empty_db [] ''shipping_data_1.csv''
                     ''shipping_data_2.csv'' scenario_A scenario_B scenario_C))) = [] \<and>
   s2_origin_warehouse (hd refused_C) \<noteq> None \<and> s2_destination_store (hd refused_C) \<noteq> None \<and>
   s2_driver_identifier (hd refused_C) \<noteq> None \<and>
   \<not> int64_id (s2_shipment_identifier (hd refused_C)) \<and>
   s2_shipment_identifier (hd refused_C) \<noteq> No_id \<and>
   (\<exists>e. fst (shipment_try (connect (drawing 1) empty_db []) (hd refused_C)) = Some e)"
proof -
  have h: "s2_origin_warehouse (hd scenario_C) \<noteq> None \<and>
           s2_destination_store (hd scenario_C) \<noteq> None \<and>
           s2_driver_identifier (hd scenario_C) \<noteq> None \<and>
           int64_id (s2_shipment_identifier (hd scenario_C))"
    by (simp add: scenario_C_def int64_id_def int64_def)
  have a: "\<forall>r\<in>set scenario_C. s2_origin_warehouse r \<noteq> None \<and>
             s2_destination_store r \<noteq> None \<and> s2_driver_identifier r \<noteq> None \<and>
             int64_id (s2_shipment_identifier r)"
    by (simp add: scenario_C_def int64_id_def int64_def)
  then have b: "\<forall>r\<in>set scenario_C. int64_id (s2_shipment_identifier r)" by blast
  have k: "s2_origin_warehouse (hd refused_C) \<noteq> None \<and>
           s2_destination_store (hd refused_C) \<noteq> None \<and>
           s2_driver_identifier (hd refused_C) \<noteq> None \<and>
           \<not> int64_id (s2_shipment_identifier (hd refused_C)) \<and>
           s2_shipment_identifier (hd refused_C) \<noteq> No_id"
    by (simp add: refused_C_def int64_id_def int64_def)
  note w = shipment_handlers_unreachable[where r = "hd scenario_C"
      and st = "connect (drawing 1) empty_db []" and ?df2.0 = scenario_C
      and p = "''shipping_data_2.csv''" and rnd = "drawing 1" and store = empty_db
      and out = "[]" and ?p1.0 = "''shipping_data_1.csv''" and ?p2.0 = "''shipping_data_2.csv''"
      and ?df0.0 = scenario_A and ?df1.0 = scenario_B]
  note v = shipment_handlers_unreachable[where r = "hd refused_C"
      and st = "connect (drawing 1) empty_db []" and p = "''shipping_data_2.csv''"]
  have 1: "fst (shipment_try (connect (drawing 1) empty_db []) (hd scenario_C)) = None"
    using w h by blast
  have "stdout (shipments_loop (connect (drawing 1) empty_db []) ''shipping_data_2.csv''
             (drop_duplicates scenario_C)) = stdout (connect (drawing 1) empty_db [])"
    using w a by blast
  then have 2: "stdout (shipments_loop (connect (drawing 1) empty_db [])
             ''shipping_data_2.csv'' (drop_duplicates scenario_C)) = []"
    by (simp add: connect_def)
  have "filter is_shipment_error
     (stdout (snd (populate_database (drawing 1) empty_db [] ''shipping_data_1.csv''
                     ''shipping_data_2.csv'' scenario_A scenario_B scenario_C))) =
        filter is_shipment_error []"
    using w b by blast
  then have 3: "filter is_shipment_error
     (stdout (snd (populate_database (drawing 1) empty_db [] ''shipping_data_1.csv''
                     ''shipping_data_2.csv'' scenario_A scenario_B scenario_C))) = []"
    by simp
  have 4: "\<exists>e. fst (shipment_try (connect (drawing 1) empty_db []) (hd refused_C)) = Some e"
    using v k by blast
  show ?thesis
    using h a k 1 2 3 4 by (simp add: list_all_iff)
qed

subsection \<open>One Shipments row for each identifier\<close>

lemma scenario_well_formed: "well_formed scenario_A scenario_B scenario_C"
  by (simp add: well_formed_def scenario_A_def scenario_B_def scenario_C_def)



subsection \<open>One ShipmentLineItems row for each record that is accepted\<close>

lemma line_item_step_count:
  assumes "committed st = current st"
  shows "committed (line_item_step st q r) = current (line_item_step st q r) \<and>
         length (ShipmentLineItems (committed (line_item_step st q r))) +
           length (filter is_line_item_error (stdout (line_item_step st q r))) =
         length (ShipmentLineItems (committed st)) +
           length (filter is_line_item_error (stdout st)) + 1"
proof (cases "get_or_insert_product (current st) (s1_product r)")
  case (Inl e)
  then have "line_item_step st q r = line_item_except st q r e"
    by (simp add: line_item_step_def line_item_try_def)
  then show ?thesis
    by (simp add: line_item_except_def is_line_item_error_def split: error.splits)
next
  case (Inr p1)
  obtain i d1 where p1: "p1 = (i, d1)" by (cases p1)
  have items1: "ShipmentLineItems d1 = ShipmentLineItems (current st)"
    using product_frame[of "current st" "s1_product r" i d1] Inr p1 by simp
  define st' where "st' = print (Quantity_warning q (s1_shipment_identifier r) (s1_product r) 1)
                            (st\<lparr>current := d1\<rparr>)"
  show ?thesis
  proof (cases "insert_line_item (foreign_keys st) d1
                  (s1_shipment_identifier r, i, 1, s1_on_time r)")
    case (Inl e)
    then have "line_item_step st q r = line_item_except st' q r e"
      using Inr p1 by (simp add: line_item_step_def line_item_try_def st'_def)
    then show ?thesis
      by (simp add: line_item_except_def is_line_item_error_def st'_def split: error.splits)
  next
    case Inr2: (Inr d2)
    obtain k where d2: "d2 = d1\<lparr>ShipmentLineItems := ShipmentLineItems d1 @
                                  [(k, s1_shipment_identifier r, i, 1, s1_on_time r)],
                                ShipmentLineItems_seq := k\<rparr>"
      using insert_line_item_Inr[OF Inr2] by blast
    have "line_item_step st q r = commit (st'\<lparr>current := d2\<rparr>)"
      using Inr p1 Inr2 by (simp add: line_item_step_def line_item_try_def st'_def)
    then show ?thesis
      using assms by (simp add: d2 items1 st'_def is_line_item_error_def)
  qed
qed

lemma line_items_loop_count:
  assumes "committed st = current st"
  shows "length (ShipmentLineItems (committed (line_items_loop st q rows))) +
           length (filter is_line_item_error (stdout (line_items_loop st q rows))) =
         length (ShipmentLineItems (committed st)) +
           length (filter is_line_item_error (stdout st)) + length rows"
  using assms
proof (induction rows arbitrary: st)
  case Nil
  then show ?case by simp
next
  case (Cons r rows)
  have s1: "committed (line_item_step st q r) = current (line_item_step st q r)"
    and s2: "length (ShipmentLineItems (committed (line_item_step st q r))) +
           length (filter is_line_item_error (stdout (line_item_step st q r))) =
         length (ShipmentLineItems (committed st)) +
           length (filter is_line_item_error (stdout st)) + 1"
    using line_item_step_count[OF Cons.prems, of q r] by blast+
  have "length (ShipmentLineItems (committed (line_items_loop (line_item_step st q r) q rows))) +
           length (filter is_line_item_error
                     (stdout (line_items_loop (line_item_step st q r) q rows))) =
         length (ShipmentLineItems (committed (line_item_step st q r))) +
           length (filter is_line_item_error (stdout (line_item_step st q r))) + length rows"
    by (rule Cons.IH[OF s1])
  also have "\<dots> = length (ShipmentLineItems (committed st)) +
           length (filter is_line_item_error (stdout st)) + 1 + length rows"
    unfolding s2 ..
  finally show ?case by simp
qed

text \<open>
  C6. Over any rows of table B the ShipmentLineItems loop adds, for each row, either one
  ShipmentLineItems row or one message of its handlers. After a load that ran to completion
  the table is the rows it held before followed by one row for each row of table B whose
  shipment identifier the column accepts (a 64-bit integer or a text), in file order and with
  repetitions, each under a key of its own; each of the other rows of table B (an empty
  identifier, an integer that does not fit 64 bits) has made a handler print once.
\<close>

theorem line_items_not_deduplicated:
  "(committed st = current st \<longrightarrow>
      length (ShipmentLineItems (committed (line_items_loop st q rows))) +
        length (filter is_line_item_error (stdout (line_items_loop st q rows))) =
      length (ShipmentLineItems (committed st)) +
        length (filter is_line_item_error (stdout st)) + length rows) \<and>
   (fst (populate_database rnd store out p1 p2 df0 df1 df2) = None \<longrightarrow>
      (\<exists>news.
         ShipmentLineItems (committed (snd (populate_database rnd store out p1 p2 df0 df1 df2))) =
           ShipmentLineItems store @ news \<and>
         map stored_line_item news =
           map (resolved_line_item (committed (snd (populate_database rnd store out p1 p2
                                                     df0 df1 df2))))
             (filter (\<lambda>r. accepted_reference (s1_shipment_identifier r)) df1) \<and>
         length news = length (filter (\<lambda>r. accepted_reference (s1_shipment_identifier r)) df1) \<and>
         distinct (map fst news)) \<and>
      (\<forall>r\<in>set df1.
         select_id_by_name
           (Products (committed (snd (populate_database rnd store out p1 p2 df0 df1 df2))))
           (s1_product r) \<noteq> None) \<and>
      length (filter is_line_item_error
                (stdout (snd (populate_database rnd store out p1 p2 df0 df1 df2)))) =
        length (filter is_line_item_error out) +
        length (filter (\<lambda>r. \<not> accepted_reference (s1_shipment_identifier r)) df1))"
proof (intro conjI impI)
  assume "committed st = current st"
  then show "length (ShipmentLineItems (committed (line_items_loop st q rows))) +
        length (filter is_line_item_error (stdout (line_items_loop st q rows))) =
      length (ShipmentLineItems (committed st)) +
        length (filter is_line_item_error (stdout st)) + length rows"
    by (rule line_items_loop_count)
next
  assume "fst (populate_database rnd store out p1 p2 df0 df1 df2) = None"
  then have wf: "well_formed df0 df1 df2" by (simp add: populate_database_None_iff)
  note fin = populate_database_done[OF wf refl refl, of rnd store out p1 p2]
  define st' where "st' = snd (populate_database rnd store out p1 p2 df0 df1 df2)"
  define acc where "acc = filter (\<lambda>r. accepted_reference (s1_shipment_identifier r)) df1"
  have c: "committed st' = current st'" using fin by (simp add: st'_def)
  obtain news where news: "ShipmentLineItems (current st') = ShipmentLineItems store @ news"
    "map stored_line_item news = map (resolved_line_item (current st')) acc"
    "map fst news = map (\<lambda>j. max (ShipmentLineItems_seq store)
        (largest_rowid (map fst (ShipmentLineItems store))) + 1 + int j) [0..<length acc]"
    using fin unfolding st'_def acc_def by blast
  have len: "length news = length acc"
    using arg_cong[OF news(2), of length] by simp
  have dist: "distinct (map fst news)"
    unfolding news(3) by (simp add: distinct_map inj_on_def)
  show "\<exists>news.
         ShipmentLineItems (committed (snd (populate_database rnd store out p1 p2 df0 df1 df2))) =
           ShipmentLineItems store @ news \<and>
         map stored_line_item news =
           map (resolved_line_item (committed (snd (populate_database rnd store out p1 p2
                                                     df0 df1 df2))))
             (filter (\<lambda>r. accepted_reference (s1_shipment_identifier r)) df1) \<and>
         length news = length (filter (\<lambda>r. accepted_reference (s1_shipment_identifier r)) df1) \<and>
         distinct (map fst news)"
    using news(1,2) len dist c unfolding st'_def acc_def by (intro exI[of _ news]) simp
  show "\<forall>r\<in>set df1.
         select_id_by_name
           (Products (committed (snd (populate_database rnd store out p1 p2 df0 df1 df2))))
           (s1_product r) \<noteq> None"
    using fin by simp
  obtain msgs where m: "stdout st' = out @ msgs"
    "length (filter is_line_item_error msgs) =
       length (filter (\<lambda>r. \<not> accepted_reference (s1_shipment_identifier r)) df1)"
    using fin unfolding st'_def by blast
  show "length (filter is_line_item_error
                (stdout (snd (populate_database rnd store out p1 p2 df0 df1 df2)))) =
        length (filter is_line_item_error out) +
        length (filter (\<lambda>r. \<not> accepted_reference (s1_shipment_identifier r)) df1)"
    using m unfolding st'_def by simp
qed

lemma refused_B_well_formed: "well_formed [] refused_B []"
  by (simp add: well_formed_def refused_B_def)

theorem line_items_not_deduplicated_witness:
  "committed (connect (drawing 1) empty_db []) = current (connect (drawing 1) empty_db []) \<and>
   fst (populate_database (drawing 1) empty_db [] ''shipping_data_1.csv'' ''shipping_data_2.csv''
          scenario_A scenario_B scenario_C) = None \<and>
   length (ShipmentLineItems (committed (line_items_loop (connect (drawing 1) empty_db [])
             ''shipping_data_1.csv'' scenario_B))) +
     length (filter is_line_item_error (stdout (line_items_loop (connect (drawing 1) empty_db [])
             ''shipping_data_1.csv'' scenario_B))) = 3 \<and>
   length (ShipmentLineItems (committed (snd (populate_database (drawing 1) empty_db []
             ''shipping_data_1.csv'' ''shipping_data_2.csv''
             scenario_A scenario_B scenario_C)))) = 3 \<and>
   scenario_B ! 0 = scenario_B ! 2 \<and>
   fst (populate_database (drawing 1) empty_db [] ''shipping_data_1.csv'' ''shipping_data_2.csv''
          [] refused_B []) = None \<and>
   length (ShipmentLineItems (committed (snd (populate_database (drawing 1) empty_db []
             ''shipping_data_1.csv'' ''shipping_data_2.csv'' [] refused_B [])))) = 1 \<and>
   length (filter is_line_item_error (stdout (snd (populate_database (drawing 1) empty_db []
             ''shipping_data_1.csv'' ''shipping_data_2.csv'' [] refused_B [])))) = 2"
proof -
  have c: "committed (connect (drawing 1) empty_db []) = current (connect (drawing 1) empty_db [])"
    by (simp add: connect_def)
  have h: "fst (populate_database (drawing 1) empty_db [] ''shipping_data_1.csv''
          ''shipping_data_2.csv'' scenario_A scenario_B scenario_C) = None"
    using scenario_well_formed by (simp add: populate_database_None_iff)
  have g: "fst (populate_database (drawing 1) empty_db [] ''shipping_data_1.csv''
          ''shipping_data_2.csv'' [] refused_B []) = None"
    using refused_B_well_formed by (simp add: populate_database_None_iff)
  have fa: "filter (\<lambda>r. accepted_reference (s1_shipment_identifier r)) scenario_B = scenario_B"
    by (simp add: scenario_B_def accepted_reference_def int64_def)
  have fr: "length (filter (\<lambda>r. accepted_reference (s1_shipment_identifier r)) refused_B) = 1"
    "length (filter (\<lambda>r. \<not> accepted_reference (s1_shipment_identifier r)) refused_B) = 2"
    by (simp_all add: refused_B_def accepted_reference_def int64_def)
  note w = line_items_not_deduplicated[where st = "connect (drawing 1) empty_db []"
      and q = "''shipping_data_1.csv''" and rows = scenario_B and store = empty_db
      and rnd = "drawing 1"
      and out = "[]" and ?p1.0 = "''shipping_data_1.csv''" and ?p2.0 = "''shipping_data_2.csv''"
      and ?df0.0 = scenario_A and ?df1.0 = scenario_B and ?df2.0 = scenario_C]
  note v = line_items_not_deduplicated[where store = empty_db and rnd = "drawing 1"
      and out = "[]" and ?p1.0 = "''shipping_data_1.csv''" and ?p2.0 = "''shipping_data_2.csv''"
      and ?df0.0 = "[]" and ?df1.0 = refused_B and ?df2.0 = "[]"]
  have 1: "length (ShipmentLineItems (committed (line_items_loop (connect (drawing 1) empty_db [])
             ''shipping_data_1.csv'' scenario_B))) +
     length (filter is_line_item_error (stdout (line_items_loop (connect (drawing 1) empty_db [])
             ''shipping_data_1.csv'' scenario_B))) = 3"
    using w c by (simp add: connect_def empty_db_def scenario_B_def)
  obtain news where "ShipmentLineItems (committed (snd (populate_database (drawing 1) empty_db []
             ''shipping_data_1.csv'' ''shipping_data_2.csv''
             scenario_A scenario_B scenario_C))) = ShipmentLineItems empty_db @ news"
    "length news = length (filter (\<lambda>r. accepted_reference (s1_shipment_identifier r)) scenario_B)"
    using w h by blast
  then have 2: "length (ShipmentLineItems (committed (snd (populate_database (drawing 1) empty_db []
             ''shipping_data_1.csv'' ''shipping_data_2.csv''
             scenario_A scenario_B scenario_C)))) = 3"
    unfolding fa by (simp add: empty_db_def scenario_B_def)
  have 3: "scenario_B ! 0 = scenario_B ! 2" by (simp add: scenario_B_def)
  obtain news' where "ShipmentLineItems (committed (snd (populate_database (drawing 1) empty_db []
             ''shipping_data_1.csv'' ''shipping_data_2.csv'' [] refused_B []))) =
        ShipmentLineItems empty_db @ news'"
    "length news' = length (filter (\<lambda>r. accepted_reference (s1_shipment_identifier r)) refused_B)"
    using v g by blast
  then have 4: "length (ShipmentLineItems (committed (snd (populate_database (drawing 1) empty_db []
             ''shipping_data_1.csv'' ''shipping_data_2.csv'' [] refused_B [])))) = 1"
    unfolding fr by (simp add: empty_db_def)
  have "length (filter is_line_item_error (stdout (snd (populate_database (drawing 1) empty_db []
             ''shipping_data_1.csv'' ''shipping_data_2.csv'' [] refused_B [])))) =
        length (filter is_line_item_error []) +
        length (filter (\<lambda>r. \<not> accepted_reference (s1_shipment_identifier r)) refused_B)"
    using v g by blast
  then have 5: "length (filter is_line_item_error (stdout (snd (populate_database (drawing 1)
             empty_db [] ''shipping_data_1.csv'' ''shipping_data_2.csv'' [] refused_B [])))) = 2"
    unfolding fr by simp
  show ?thesis using c h g 1 2 3 4 5 by blast
qed

subsection \<open>Line items of shipments that table C does not have\<close>

text \<open>
  The load of a table B whose first row carries the identifier \<open>2 ^ 63\<close> and whose second
  row carries none, with an empty table C: neither identifier is in table C, the load runs
  to completion, and neither row has a ShipmentLineItems row; each made a handler print.
\<close>

theorem dangling_line_item_refused:
  "fst (populate_database (drawing 1) empty_db [] ''shipping_data_1.csv'' ''shipping_data_2.csv''
          [] refused_B []) = None \<and>
   map s1_shipment_identifier refused_B = [Int_id 9223372036854775808, No_id, Int_id 100] \<and>
   ShipmentLineItems (committed (snd (populate_database (drawing 1) empty_db []
      ''shipping_data_1.csv'' ''shipping_data_2.csv'' [] refused_B []))) =
     [(1, Int_id 100, 1, 1, Some ''Yes'')] \<and>
   filter is_line_item_error
     (stdout (snd (populate_database (drawing 1) empty_db [] ''shipping_data_1.csv''
                     ''shipping_data_2.csv'' [] refused_B []))) =
     [Unexpected_error_line_item ''shipping_data_1.csv''
        (OtherException ''Python int too large to convert to SQLite INTEGER'')
        (Int_id 9223372036854775808),
      Integrity_error_line_item No_id ''shipping_data_1.csv''
        (IntegrityError ''NOT NULL constraint failed'')]"
proof -
  have "map s1_shipment_identifier refused_B = [Int_id 9223372036854775808, No_id, Int_id 100]"
    by (simp add: refused_B_def)
  then show ?thesis using refused_B_run by blast
qed

text \<open>
  C8. The claim fails for a row of table B whose shipment identifier is empty or is an
  integer that does not fit 64 bits: the insert raises, whether or not table C has the
  identifier. What holds: the insert of a line item succeeds on a connection that does not
  enforce foreign keys exactly when the column accepts the identifier (a 64-bit integer or a
  text). After a load that ran to completion, of a table C without empty identifiers, a row
  of table B whose accepted identifier is neither in table C nor a key of the Shipments table
  from before has its ShipmentLineItems row, and no Shipments row carries its identifier.
\<close>

theorem dangling_line_items_accepted:
  assumes "fst (populate_database rnd store out p1 p2 df0 df1 df2) = None"
    and "d' = committed (snd (populate_database rnd store out p1 p2 df0 df1 df2))"
    and "r \<in> set df1"
    and "accepted_reference (s1_shipment_identifier r)"
    and "s1_shipment_identifier r \<notin> s2_shipment_identifier ` set df2"
    and "s1_shipment_identifier r \<notin> shipment_ids store"
    and "No_id \<notin> s2_shipment_identifier ` set df2"
  shows "(\<exists>k p. (k, s1_shipment_identifier r, p, 1, s1_on_time r) \<in> set (ShipmentLineItems d') \<and>
                select_id_by_name (Products d') (s1_product r) = Some p) \<and>
         s1_shipment_identifier r \<notin> shipment_ids d' \<and>
         (accepted_reference s \<longrightarrow> (\<exists>d2. insert_line_item False d (s, p', q, t) = Inr d2)) \<and>
         (\<not> accepted_reference s \<longrightarrow> (\<exists>e. insert_line_item fk d (s, p', q, t) = Inl e))"
proof -
  have wf: "well_formed df0 df1 df2"
    using assms(1) by (simp add: populate_database_None_iff)
  note fin = populate_database_done[OF wf refl refl, of rnd store out p1 p2]
  have d': "d' = current (snd (populate_database rnd store out p1 p2 df0 df1 df2))"
    using fin assms(2) by simp
  define acc where "acc = filter (\<lambda>r. accepted_reference (s1_shipment_identifier r)) df1"
  obtain news where news: "ShipmentLineItems d' = ShipmentLineItems store @ news"
    "map stored_line_item news = map (resolved_line_item d') acc"
    using fin unfolding d' acc_def by blast
  obtain ships where ships: "Shipments d' = Shipments store @ ships"
    "map stored_shipment ships =
       map (resolved_shipment d')
         (filter (\<lambda>r. int64_id (s2_shipment_identifier r) \<and>
                       s2_shipment_identifier r \<notin> shipment_ids store)
            (drop_duplicates df2))"
    using fin assms(7) unfolding d' by blast
  have "r \<in> set acc" using assms(3,4) by (simp add: acc_def)
  then have "resolved_line_item d' r \<in> set (map stored_line_item news)"
    unfolding news(2) by simp
  then obtain x where x: "x \<in> set news" "stored_line_item x = resolved_line_item d' r"
    by auto
  obtain k s' p q' t' where xe: "x = (k, s', p, q', t')" by (cases x)
  have "s' = s1_shipment_identifier r" "q' = 1" "t' = s1_on_time r"
    "select_id_by_name (Products d') (s1_product r) = Some p"
    using x(2) by (simp_all add: xe stored_line_item_def resolved_line_item_def)
  then have 1: "\<exists>k p. (k, s1_shipment_identifier r, p, 1, s1_on_time r) \<in>
                        set (ShipmentLineItems d') \<and>
                      select_id_by_name (Products d') (s1_product r) = Some p"
    using x(1) xe news(1) by auto
  have "fst ` set (map stored_shipment ships) \<subseteq> s2_shipment_identifier ` set (drop_duplicates df2)"
    unfolding ships(2) by (auto simp: resolved_shipment_def)
  then have "fst ` set (map stored_shipment ships) \<subseteq> s2_shipment_identifier ` set df2"
    by (simp add: drop_duplicates_ids)
  moreover have "shipment_ids d' = shipment_ids store \<union> fst ` set (map stored_shipment ships)"
    using shipment_ids_append[of store ships] ships(1) by (simp add: shipment_ids_def)
  ultimately have 2: "s1_shipment_identifier r \<notin> shipment_ids d'"
    using assms(5,6) by auto
  have 3: "accepted_reference s \<longrightarrow> (\<exists>d2. insert_line_item False d (s, p', q, t) = Inr d2)"
    using insert_line_item_accepted[of s False d p' q t] by simp
  have 4: "\<not> accepted_reference s \<longrightarrow> (\<exists>e. insert_line_item fk d (s, p', q, t) = Inl e)"
    using insert_line_item_refused[of s fk d p' q t] by simp
  show ?thesis using 1 2 3 4 by blast
qed

theorem dangling_line_items_accepted_witness:
  "fst (populate_database (drawing 1) empty_db [] ''shipping_data_1.csv'' ''shipping_data_2.csv''
          scenario_A scenario_B scenario_C) = None \<and>
   scenario_B ! 1 \<in> set scenario_B \<and>
   s1_shipment_identifier (scenario_B ! 1) = Int_id 7 \<and>
   accepted_reference (Int_id 7) \<and>
   Int_id 7 \<notin> s2_shipment_identifier ` set scenario_C \<and>
   Int_id 7 \<notin> shipment_ids empty_db \<and>
   No_id \<notin> s2_shipment_identifier ` set scenario_C \<and>
   Int_id 7 \<notin> shipment_ids (committed (snd (populate_database (drawing 1) empty_db []
           ''shipping_data_1.csv'' ''shipping_data_2.csv''
           scenario_A scenario_B scenario_C))) \<and>
   (\<exists>k p. (k, Int_id 7, p, 1, None) \<in> set (ShipmentLineItems (committed (snd (populate_database
           (drawing 1) empty_db [] ''shipping_data_1.csv'' ''shipping_data_2.csv''
           scenario_A scenario_B scenario_C))))) \<and>
   \<not> accepted_reference No_id \<and>
   (\<exists>e. insert_line_item False empty_db (No_id, 1, 1, None) = Inl e)"
proof -
  have h: "fst (populate_database (drawing 1) empty_db [] ''shipping_data_1.csv''
          ''shipping_data_2.csv'' scenario_A scenario_B scenario_C) = None"
    using scenario_well_formed by (simp add: populate_database_None_iff)
  have m: "scenario_B ! 1 \<in> set scenario_B" by (simp add: scenario_B_def)
  have i: "s1_shipment_identifier (scenario_B ! 1) = Int_id 7"
    "s1_on_time (scenario_B ! 1) = None"
    by (simp_all add: scenario_B_def)
  have acc: "accepted_reference (s1_shipment_identifier (scenario_B ! 1))"
    unfolding i by (simp add: accepted_reference_def int64_def)
  have a: "s1_shipment_identifier (scenario_B ! 1) \<notin> s2_shipment_identifier ` set scenario_C"
    by (simp add: scenario_B_def scenario_C_def)
  have b: "s1_shipment_identifier (scenario_B ! 1) \<notin> shipment_ids empty_db"
    by (simp add: shipment_ids_def empty_db_def)
  have n: "No_id \<notin> s2_shipment_identifier ` set scenario_C"
    by (simp add: scenario_C_def)
  have r: "\<not> accepted_reference No_id" by (simp add: accepted_reference_def)
  note w = dangling_line_items_accepted[OF h refl m acc a b n, where s = No_id and fk = False
      and d = empty_db and p' = 1 and q = 1 and t = None]
  show ?thesis
    using h m acc a b n r w unfolding i by blast
qed

subsection \<open>Two runs on the same tables\<close>

lemma same_store_refl: "same_store st st"
  by (simp add: same_store_def)













lemma main_run:
  "\<exists>out. fst (main rnd old df0 df1 df2) =
           fst (populate_database rnd empty_db out SPREADSHEET1_PATH SPREADSHEET2_PATH
                  df0 df1 df2) \<and>
         committed (snd (main rnd old df0 df1 df2)) =
           committed (snd (populate_database rnd empty_db out SPREADSHEET1_PATH SPREADSHEET2_PATH
                             df0 df1 df2))"
proof -
  obtain out0 where "(case old of Some x \<Rightarrow> (None :: db option, [Removed_existing_database_file DATABASE_NAME]) | None \<Rightarrow> (None, [])) = (None, out0)"
    by (cases old) auto
  moreover obtain out1 where "setup_database rnd None DATABASE_NAME out0 = (empty_db, out1)"
    using setup_database_None[of rnd DATABASE_NAME out0]
    by (cases "setup_database rnd None DATABASE_NAME out0") auto
  moreover have "committed (verification rnd d out) = d" for d out
    by (simp add: verification_def Let_def connect_def)
  ultimately show ?thesis
    unfolding main_def Let_def
    by (intro exI[of _ out1]) (auto split: prod.splits option.splits)
qed





subsection \<open>The verification\<close>

text \<open>
  C9. The verification leaves both views of the store as they are: the store after the
  main flow is the store that \<open>populate_database\<close> committed. It prints the results of
  its five queries under their headings, and the result of the query on ShipmentLineItems has
  at most ten rows.
\<close>

theorem verification_read_only:
  "committed (verification rnd d out) = d \<and>
   current (verification rnd d out) = d \<and>
   stdout (verification rnd d out) = out @
     [Text ''--- Verification (Optional, for your own testing) ---'',
      Text ''Products:'', Fetched_names (select_all (Products d)),
      Text ''Locations:'', Fetched_names (select_all (Locations d)),
      Text ''Drivers:'', Fetched_names (select_all (Drivers d)),
      Text ''Shipments:'', Fetched_shipments (select_shipments d),
      Text ''ShipmentLineItems:'', Fetched_line_items (select_line_items d)] \<and>
   length (select_line_items d) \<le> 10 \<and>
   (\<exists>out'. committed (snd (main rnd old df0 df1 df2)) =
            committed (snd (populate_database rnd empty_db out' SPREADSHEET1_PATH
                              SPREADSHEET2_PATH df0 df1 df2)))"
proof (intro conjI)
  show "committed (verification rnd d out) = d" "current (verification rnd d out) = d"
    by (simp_all add: verification_def Let_def connect_def)
  show "stdout (verification rnd d out) = out @
     [Text ''--- Verification (Optional, for your own testing) ---'',
      Text ''Products:'', Fetched_names (select_all (Products d)),
      Text ''Locations:'', Fetched_names (select_all (Locations d)),
      Text ''Drivers:'', Fetched_names (select_all (Drivers d)),
      Text ''Shipments:'', Fetched_shipments (select_shipments d),
      Text ''ShipmentLineItems:'', Fetched_line_items (select_line_items d)]"
    by (simp add: verification_def Let_def connect_def)
  show "length (select_line_items d) \<le> 10"
    by (simp add: select_line_items_def)
  show "\<exists>out'. committed (snd (main rnd old df0 df1 df2)) =
            committed (snd (populate_database rnd empty_db out' SPREADSHEET1_PATH
                              SPREADSHEET2_PATH df0 df1 df2))"
    using main_run[of rnd old df0 df1 df2] by blast
qed

end
